theory Spec2Isabelle
  imports Complex_Main "HOL-Library.Multiset" "HOL-Library.Signed_Division"
begin

section \<open>JavaScript strings and falsy values\<close>

text \<open>
  Strings are byte lists. \<open>String.prototype.toLowerCase\<close> is modelled on the ASCII letters;
  the only other character that JavaScript maps to an ASCII letter is the Kelvin sign
  (to \<open>k\<close>), and the one stage name that has a \<open>k\<close> is \<open>unknown\<close>, whose rank is 0 like
  that of every unlisted name, so no rank depends on it.
\<close>

definition toLowerCase_char :: "char \<Rightarrow> char" where
  "toLowerCase_char c =
     (case map_of (zip ''ABCDEFGHIJKLMNOPQRSTUVWXYZ'' ''abcdefghijklmnopqrstuvwxyz'') c of
        Some d \<Rightarrow> d
      | None \<Rightarrow> c)"

definition toLowerCase :: "string \<Rightarrow> string" where
  "toLowerCase s = map toLowerCase_char s"

text \<open>\<open>Array.prototype.indexOf\<close>: the first index of the element, or \<open>-1\<close>.\<close>

fun indexOf :: "'a list \<Rightarrow> 'a \<Rightarrow> int" where
  "indexOf [] x = -1"
| "indexOf (y # ys) x =
     (if y = x then 0 else (let i = indexOf ys x in if i = -1 then -1 else i + 1))"

text \<open>
  An optional string is \<open>None\<close> for \<open>null\<close> and \<open>undefined\<close>. \<open>s || d\<close> takes \<open>d\<close> when
  \<open>s\<close> is falsy, which for a string means absent or empty.
\<close>

definition truthy :: "string option \<Rightarrow> bool" where
  "truthy s = (case s of None \<Rightarrow> False | Some t \<Rightarrow> t \<noteq> [])"

definition or_str :: "string option \<Rightarrow> string \<Rightarrow> string" where
  "or_str s d = (case s of None \<Rightarrow> d | Some t \<Rightarrow> if t = [] then d else t)"

section \<open>Status reconciliation: the rank and the poll merge\<close>

text \<open>\<open>getStatusRank\<close> of the page component.\<close>

definition order :: "string list" where
  "order = [''unknown'', ''sent'', ''dvn_verifying'', ''committed'', ''executing'', ''executed'']"

definition getStatusRank :: "string option \<Rightarrow> int" where
  "getStatusRank s =
     (let idx = indexOf order (toLowerCase (or_str s ''unknown''))
      in if idx = -1 then 0 else idx)"

text \<open>The two published slots of the page: the aggregator status and the worker status.\<close>

record AggStep =
  step_name :: string
  step_done :: bool
  step_txHash :: "string option"
  step_chainId :: "int option"
  step_timestamp :: "int option"

record AggStatus =
  guid :: "string option"
  srcChainId :: "int option"
  dstChainId :: "int option"
  currentStatus :: "string option"
  steps :: "AggStep list option"

record LzWorkerStatus =
  stage :: string
  networkBase :: "string option"
  dvn :: "string option"
  sealer :: "string option"
  dest :: "string option"
  dstTx :: "string option"

text \<open>
  The fields that \<open>tick\<close> reads from the JSON answer of the on-chain route or of the
  scanner route: \<open>stage\<close>, \<open>networkBase\<close>, \<open>verification.dvn.status\<close>,
  \<open>verification.sealer.status\<close>, \<open>destination.status\<close>, \<open>destination.tx.txHash\<close> and
  \<open>destination.txHash\<close>.
\<close>

record StatusJson =
  json_stage :: "string option"
  json_networkBase :: "string option"
  json_dvn_status :: "string option"
  json_sealer_status :: "string option"
  json_destination_status :: "string option"
  json_destination_tx_txHash :: "string option"
  json_destination_txHash :: "string option"

text \<open>
  What one \<open>fetch\<close> followed by \<open>res.json()\<close> can do: \<open>fetch\<close> throws (network error),
  the response is not \<open>ok\<close> (non-2xx), \<open>res.json()\<close> throws (decode error), or a JSON value
  arrives; the value is \<open>None\<close> when it is JSON \<open>null\<close>.
\<close>

datatype 'a fetched = FetchThrows | NotOk | JsonThrows | Ok 'a

record poll_state =
  aggStatus :: "AggStatus option"
  lzWorkerStatus :: "LzWorkerStatus option"
  stopped :: bool

text \<open>The updater passed to \<open>setAggStatus\<close>; \<open>prev?.currentStatus\<close> is \<open>Option.bind\<close>.\<close>

definition aggUpdater :: "AggStatus option \<Rightarrow> AggStatus option \<Rightarrow> AggStatus option" where
  "aggUpdater json prev =
     (let prevRank = getStatusRank (Option.bind prev currentStatus);
          newRank = getStatusRank (Option.bind json currentStatus)
      in if prev = None \<or> newRank \<ge> prevRank then json else prev)"

text \<open>The object \<open>next\<close> that \<open>tick\<close> builds from the JSON answer.\<close>

definition or_null :: "string option \<Rightarrow> string option" where
  "or_null s = (if truthy s then s else None)"

definition nextStatus :: "StatusJson option \<Rightarrow> LzWorkerStatus" where
  "nextStatus json =
     \<lparr> stage = or_str (Option.bind json json_stage) ''unknown'',
       networkBase = or_null (Option.bind json json_networkBase),
       dvn = Option.bind json json_dvn_status,
       sealer = Option.bind json json_sealer_status,
       dest = Option.bind json json_destination_status,
       dstTx = (case Option.bind json json_destination_tx_txHash of
                  Some h \<Rightarrow> Some h
                | None \<Rightarrow> Option.bind json json_destination_txHash) \<rparr>"

text \<open>The updater passed to \<open>setLzWorkerStatus\<close> on a decoded answer.\<close>

definition lzUpdater :: "LzWorkerStatus \<Rightarrow> LzWorkerStatus option \<Rightarrow> LzWorkerStatus option" where
  "lzUpdater next prev =
     (let prevRank = getStatusRank (map_option stage prev);
          newRank = getStatusRank (Some (stage next))
      in if prev = None \<or> newRank \<ge> prevRank then Some next else prev)"

text \<open>
  The object literal \<open>{ stage: s }\<close>, and an aggregator answer \<open>{ currentStatus: s }\<close>:
  every other field is undefined.
\<close>

definition stageOnly :: "string \<Rightarrow> LzWorkerStatus" where
  "stageOnly s = \<lparr> stage = s, networkBase = None, dvn = None, sealer = None, dest = None,
     dstTx = None \<rparr>"

definition statusOnly :: "string \<Rightarrow> AggStatus" where
  "statusOnly s = \<lparr> guid = None, srcChainId = None, dstChainId = None,
     currentStatus = Some s, steps = None \<rparr>"

definition stageJson :: "string \<Rightarrow> StatusJson" where
  "stageJson s = \<lparr> json_stage = Some s, json_networkBase = None, json_dvn_status = None,
     json_sealer_status = None, json_destination_status = None,
     json_destination_tx_txHash = None, json_destination_txHash = None \<rparr>"

text \<open>The updater \<open>prev || { stage: 'unknown' }\<close> of the error paths.\<close>

definition lzKeep :: "LzWorkerStatus option \<Rightarrow> LzWorkerStatus option" where
  "lzKeep prev = (case prev of Some p \<Rightarrow> Some p | None \<Rightarrow> Some (stageOnly ''unknown''))"

text \<open>
  One \<open>tick\<close>. The aggregator part has a \<open>try\<close> of its own, so the second fetch is always
  made; every failure of the second fetch ends in \<open>lzKeep\<close>.
\<close>

definition tickAgg :: "AggStatus option fetched \<Rightarrow> poll_state \<Rightarrow> poll_state" where
  "tickAgg agg st =
     (case agg of
        Ok json \<Rightarrow>
          st\<lparr> aggStatus := aggUpdater json (aggStatus st),
              stopped := (stopped st \<or> Option.bind json currentStatus = Some ''executed'') \<rparr>
      | _ \<Rightarrow> st)"

definition tickLz :: "StatusJson option fetched \<Rightarrow> poll_state \<Rightarrow> poll_state" where
  "tickLz lz st =
     (case lz of
        Ok json \<Rightarrow> st\<lparr> lzWorkerStatus := lzUpdater (nextStatus json) (lzWorkerStatus st) \<rparr>
      | _ \<Rightarrow> st\<lparr> lzWorkerStatus := lzKeep (lzWorkerStatus st) \<rparr>)"

definition tick :: "AggStatus option fetched \<Rightarrow> StatusJson option fetched \<Rightarrow> poll_state \<Rightarrow> poll_state" where
  "tick agg lz st = tickLz lz (tickAgg agg st)"

text \<open>
  The poll loop of one transaction hash: \<open>tick()\<close> once, then a tick per timer period as
  long as \<open>stopped\<close> is false. The list holds what the fetches of each period return;
  the loop starts with \<open>stopped\<close> false and, since the statuses are cleared when the
  hash is set, with both slots empty.
\<close>

fun ticks :: "(AggStatus option fetched \<times> StatusJson option fetched) list \<Rightarrow> poll_state \<Rightarrow> poll_state" where
  "ticks [] st = st"
| "ticks ((agg, lz) # rest) st = ticks rest (if stopped st then st else tick agg lz st)"

text \<open>The rank of what each slot publishes.\<close>

definition aggRank :: "AggStatus option \<Rightarrow> int" where
  "aggRank a = getStatusRank (Option.bind a currentStatus)"

definition lzRank :: "LzWorkerStatus option \<Rightarrow> int" where
  "lzRank l = getStatusRank (map_option stage l)"

definition failed :: "'a fetched \<Rightarrow> bool" where
  "failed f = (case f of Ok _ \<Rightarrow> False | _ \<Rightarrow> True)"

text \<open>
  The stage that the page shows for the transfer, from the two slots:
  \<open>aggStatus?.currentStatus || (lzWorkerStatus?.stage || 'unknown')\<close>.
\<close>

definition shownStage :: "poll_state \<Rightarrow> string" where
  "shownStage st =
     or_str (Option.bind (aggStatus st) currentStatus)
       (or_str (map_option stage (lzWorkerStatus st)) ''unknown'')"

text \<open>The state in which the poll loop of a transfer starts.\<close>

definition initialState :: poll_state where
  "initialState = \<lparr> aggStatus = None, lzWorkerStatus = None, stopped = False \<rparr>"

section \<open>Configuration records\<close>

text \<open>\<open>NetworkConfig\<close> and \<open>TokenConfig\<close> of the configuration module.\<close>

record NetworkConfig =
  cfg_name :: string
  cfg_chainId :: int
  cfg_rpcHttp :: string
  cfg_rpcWs :: "string option"
  cfg_eid :: int
  cfg_endpointV2 :: string
  cfg_dvn :: string
  cfg_executor :: string
  cfg_lzExecutor :: string
  cfg_oft :: string
  cfg_priceFeed :: string
  cfg_receiveUln :: string
  cfg_sendUln :: string
  cfg_treasury :: string
  cfg_explorerTxBase :: "string option"

record TokenConfig =
  token_id :: string
  token_symbol :: string
  token_name :: string
  addresses :: "string \<Rightarrow> string option"
  nativeAdapter :: "bool option"

text \<open>\<open>tokens.find(t => t.id === tokenId)?.addresses?.[network]\<close>.\<close>

definition tokenAddress :: "TokenConfig list \<Rightarrow> string \<Rightarrow> string \<Rightarrow> string option" where
  "tokenAddress tokens tokenId network =
     (case find (\<lambda>t. token_id t = tokenId) tokens of
        None \<Rightarrow> None
      | Some t \<Rightarrow> addresses t network)"

section \<open>Errors thrown by JavaScript calls\<close>

text \<open>
  A JavaScript value as far as \<open>||\<close> and \<open>typeof\<close> tell values apart: a string, a falsy
  value that is not a string (\<open>undefined\<close>, \<open>null\<close>, \<open>0\<close>, \<open>false\<close>), or a truthy value that
  is not a string. An error value carries the two places where the send flow looks for a
  message, \<open>info.error.data.message\<close> and \<open>message\<close>.
\<close>

datatype js_value = Falsy | Str string | Truthy

definition is_truthy :: "js_value \<Rightarrow> bool" where
  "is_truthy v = (case v of Falsy \<Rightarrow> False | Str t \<Rightarrow> t \<noteq> [] | Truthy \<Rightarrow> True)"

definition or_value :: "js_value \<Rightarrow> js_value \<Rightarrow> js_value" where
  "or_value a b = (if is_truthy a then a else b)"

record js_error =
  err_info_error_data_message :: js_value
  err_message :: js_value

text \<open>\<open>String.prototype.includes\<close> (the name \<open>includes\<close> is taken in Isabelle).\<close>

fun str_includes :: "string \<Rightarrow> string \<Rightarrow> bool" where
  "str_includes [] sub = (sub = [])"
| "str_includes (c # cs) sub = (take (length sub) (c # cs) = sub \<or> str_includes cs sub)"

section \<open>Building the send parameters\<close>

record SendParam =
  dstEid :: int
  to_bytes32 :: string
  amountLD :: int
  minAmountLD :: int
  extraOptions :: string
  composeMsg :: string
  oftCmd :: string

text \<open>\<open>String.prototype.padStart\<close> with a one-character filler, and \<open>addressToBytes32\<close>.\<close>

definition padStart :: "nat \<Rightarrow> char \<Rightarrow> string \<Rightarrow> string" where
  "padStart n c s = replicate (n - length s) c @ s"

definition addressToBytes32 :: "string \<Rightarrow> string" where
  "addressToBytes32 address = ''0x'' @ padStart 64 (CHR ''0'') (drop 2 address)"

text \<open>
  \<open>buildSendParam\<close>. The two calls that can throw, \<open>getNetworkConfig\<close> and
  \<open>ethers.parseUnits\<close>, are arguments: each gives the error it throws or its value. The
  amounts are bigints, so \<open>*\<close> is exact and \<open>/\<close> truncates toward zero (\<open>sdiv\<close>).
\<close>

definition buildSendParam ::
  "(string \<Rightarrow> js_error + NetworkConfig) \<Rightarrow> (string \<Rightarrow> nat \<Rightarrow> js_error + int) \<Rightarrow>
   string \<Rightarrow> string \<Rightarrow> string \<Rightarrow> string \<Rightarrow> nat option \<Rightarrow> string option \<Rightarrow>
   js_error + SendParam" where
  "buildSendParam getNetworkConfig parseUnits srcNetworkKey dstNetworkKey amount receiverAddress
      decimals extraOptionsOverride =
     (case getNetworkConfig dstNetworkKey of
        Inl e \<Rightarrow> Inl e
      | Inr dstConfig \<Rightarrow>
          let receiverAddressBytes32 = addressToBytes32 receiverAddress in
          (case parseUnits amount (case decimals of Some d \<Rightarrow> d | None \<Rightarrow> 18) of
             Inl e \<Rightarrow> Inl e
           | Inr parsedAmount \<Rightarrow>
               let minAmountLD = (parsedAmount * 9900) sdiv 10000 in
               Inr \<lparr> dstEid = cfg_eid dstConfig,
                     to_bytes32 = receiverAddressBytes32,
                     amountLD = parsedAmount,
                     minAmountLD = minAmountLD,
                     extraOptions = (case extraOptionsOverride of Some x \<Rightarrow> x | None \<Rightarrow> ''0x''),
                     composeMsg = ''0x'',
                     oftCmd = ''0x'' \<rparr>))"

section \<open>The send flow\<close>

record MessagingFee =
  nativeFee :: int
  lzTokenFee :: int

record FeeData =
  fd_gasPrice :: "int option"
  fd_maxFeePerGas :: "int option"

text \<open>
  The data of the raw transaction is \<open>iface.encodeFunctionData("send", [sendParam, fee,
  refundAddress])\<close>; the encoding is kept as its three arguments.
\<close>

datatype call_data = EncodeSend SendParam MessagingFee string

record RawTx =
  tx_to :: string
  tx_data :: call_data
  tx_value :: int
  tx_gasLimit :: int
  tx_gasPrice :: "int option"
  tx_type :: nat

text \<open>
  The calls that the flow makes on the token contract and on the signer, in order:
  \<open>oft.quoteSend(sendParam, false)\<close>, \<open>oft.send(sendParam, fee, refund, {value})\<close> and
  \<open>signer.sendTransaction(raw)\<close>.
\<close>

datatype chain_call =
    QuoteSend SendParam
  | ContractSend SendParam MessagingFee string int
  | SendTransaction RawTx

text \<open>
  How the flow ends: it sets an error and returns before anything is thrown, an error
  reaches the \<open>catch\<close> of the flow, or the transaction hash is set.
\<close>

datatype outcome = Rejected string | Failed js_error | Sent string

text \<open>The state of the page that the flow reads.\<close>

record send_ui =
  sourceNetwork :: string
  destNetwork :: string
  amount :: string
  receiverAddress :: string
  tokenId :: string
  account :: string
  has_ethereum :: bool
  balanceWei :: "int option"
  balanceFormatted :: string

text \<open>
  What the configuration, the wallet and the chain answer. \<open>getSigner\<close> gives the address
  of the signer, \<open>send_call\<close> and \<open>sendTransaction_call\<close> the hash of the transaction.
  \<open>trim\<close> and \<open>buildLzReceiveOptions\<close> are library functions.
\<close>

record send_env =
  networkConfig :: "string \<Rightarrow> js_error + NetworkConfig"
  tokens :: "TokenConfig list"
  supportedPairs :: "(string \<times> string) list"
  trim :: "string \<Rightarrow> string"
  parseUnits :: "string \<Rightarrow> nat \<Rightarrow> js_error + int"
  getSigner :: "js_error + string"
  token_call :: "js_error + string"
  decimals_call :: "js_error + nat"
  SEND_call :: "js_error + int"
  enforcedOptions_call :: "int \<Rightarrow> int \<Rightarrow> js_error + string"
  buildLzReceiveOptions :: "nat \<Rightarrow> nat \<Rightarrow> string"
  combineOptions_call :: "int \<Rightarrow> int \<Rightarrow> string \<Rightarrow> js_error + string"
  quoteSend_call :: "SendParam \<Rightarrow> js_error + MessagingFee"
  send_call :: "SendParam \<Rightarrow> MessagingFee \<Rightarrow> string \<Rightarrow> int \<Rightarrow> js_error + string"
  getFeeData_call :: "FeeData option"
  sendTransaction_call :: "RawTx \<Rightarrow> js_error + string"

definition usingNativeAdapter :: "send_env \<Rightarrow> send_ui \<Rightarrow> bool" where
  "usingNativeAdapter env ui =
     (case find (\<lambda>t. token_id t = tokenId ui) (tokens env) of
        None \<Rightarrow> False
      | Some t \<Rightarrow> nativeAdapter t = Some True)"

definition isPairSupported :: "send_env \<Rightarrow> send_ui \<Rightarrow> bool" where
  "isPairSupported env ui =
     (sourceNetwork ui \<noteq> [] \<and> destNetwork ui \<noteq> []
      \<and> list_ex (\<lambda>p. fst p = sourceNetwork ui \<and> snd p = destNetwork ui) (supportedPairs env))"

text \<open>The amount \<open>max\<close> stands for the formatted balance.\<close>

definition resolvedAmount :: "send_env \<Rightarrow> send_ui \<Rightarrow> string" where
  "resolvedAmount env ui =
     (if toLowerCase (trim env (amount ui)) = ''max'' then balanceFormatted ui else amount ui)"

text \<open>
  The decimals: 18 unless the token is no native adapter and both reads succeed with a
  number other than 0.
\<close>

definition resolveDecimals :: "send_env \<Rightarrow> send_ui \<Rightarrow> nat" where
  "resolveDecimals env ui =
     (case token_call env of
        Inl e \<Rightarrow> 18
      | Inr underlying \<Rightarrow>
          if usingNativeAdapter env ui then 18
          else (case decimals_call env of
                  Inl e \<Rightarrow> 18
                | Inr d \<Rightarrow> if d = 0 then 18 else d))"

text \<open>The block "Validate amount against balance": the message set, or the amount.\<close>

definition validateAmount :: "send_env \<Rightarrow> send_ui \<Rightarrow> string + int" where
  "validateAmount env ui =
     (case parseUnits env (resolvedAmount env ui) (resolveDecimals env ui) of
        Inl parseErr \<Rightarrow> Inl ''Invalid amount format''
      | Inr amtLD \<Rightarrow>
          if (case balanceWei ui of None \<Rightarrow> False | Some b \<Rightarrow> amtLD > b)
          then Inl ''Amount exceeds balance''
          else if amtLD \<le> 0 then Inl ''Amount must be greater than zero''
          else Inr amtLD)"

text \<open>
  The options block: \<open>combinedOptions || localOptions\<close> after the \<open>try\<close>, where both
  start as \<open>0x\<close>.
\<close>

definition resolveOptions :: "send_env \<Rightarrow> NetworkConfig \<Rightarrow> string" where
  "resolveOptions env dstConfig =
     (let (localOptions, combinedOptions) =
        (case SEND_call env of
           Inl e \<Rightarrow> (''0x'', ''0x'')
         | Inr msgType \<Rightarrow>
             (case enforcedOptions_call env (cfg_eid dstConfig) msgType of
                Inl e \<Rightarrow> (''0x'', ''0x'')
              | Inr enforced \<Rightarrow>
                  let localOptions = buildLzReceiveOptions env 200000 0 in
                  (case combineOptions_call env (cfg_eid dstConfig) msgType localOptions of
                     Inl e \<Rightarrow> (localOptions, ''0x'')
                   | Inr combined \<Rightarrow> (localOptions, combined))))
      in if combinedOptions \<noteq> [] then combinedOptions else localOptions)"

text \<open>The message that the \<open>catch\<close> around \<open>oft.send\<close> looks at, and its test.\<close>

definition failureMessage :: "js_error \<Rightarrow> js_value" where
  "failureMessage sendErr =
     or_value (or_value (err_info_error_data_message sendErr) (err_message sendErr)) (Str [])"

definition isTrieMissing :: "js_error \<Rightarrow> bool" where
  "isTrieMissing sendErr =
     (case failureMessage sendErr of Str msg \<Rightarrow> str_includes msg ''missing trie node'' | _ \<Rightarrow> False)"

text \<open>From "Send transaction" to the end of the \<open>try\<close>: the primary call and the fallback.\<close>

definition totalValue :: "bool \<Rightarrow> MessagingFee \<Rightarrow> int \<Rightarrow> int" where
  "totalValue native fee amtLD = (if native then nativeFee fee + amtLD else nativeFee fee)"

definition fallbackTx :: "send_env \<Rightarrow> string \<Rightarrow> SendParam \<Rightarrow> MessagingFee \<Rightarrow> string \<Rightarrow> int \<Rightarrow> RawTx" where
  "fallbackTx env oftAddress sendParam fee signerAddress tv =
     \<lparr> tx_to = oftAddress,
       tx_data = EncodeSend sendParam fee signerAddress,
       tx_value = tv,
       tx_gasLimit = 600000,
       tx_gasPrice = (case getFeeData_call env of
                        None \<Rightarrow> None
                      | Some feeData \<Rightarrow>
                          (case fd_gasPrice feeData of
                             Some g \<Rightarrow> Some g
                           | None \<Rightarrow> fd_maxFeePerGas feeData)),
       tx_type = 0 \<rparr>"

definition submit ::
  "send_env \<Rightarrow> bool \<Rightarrow> string \<Rightarrow> SendParam \<Rightarrow> MessagingFee \<Rightarrow> string \<Rightarrow> int \<Rightarrow>
   chain_call list \<times> outcome" where
  "submit env native oftAddress sendParam fee signerAddress amtLD =
     (let tv = totalValue native fee amtLD in
      case send_call env sendParam fee signerAddress tv of
        Inr hash \<Rightarrow> ([ContractSend sendParam fee signerAddress tv], Sent hash)
      | Inl sendErr \<Rightarrow>
          if \<not> isTrieMissing sendErr
          then ([ContractSend sendParam fee signerAddress tv], Failed sendErr)
          else
            let raw = fallbackTx env oftAddress sendParam fee signerAddress tv in
            (case sendTransaction_call env raw of
               Inr hash \<Rightarrow>
                 ([ContractSend sendParam fee signerAddress tv, SendTransaction raw], Sent hash)
             | Inl e \<Rightarrow>
                 ([ContractSend sendParam fee signerAddress tv, SendTransaction raw], Failed e)))"

text \<open>
  The flow after the amount is validated: the destination configuration, the options,
  \<open>buildSendParam\<close>, the quote, and the submission.
\<close>

definition quoteAndSubmit ::
  "send_env \<Rightarrow> send_ui \<Rightarrow> string \<Rightarrow> string \<Rightarrow> chain_call list \<times> outcome" where
  "quoteAndSubmit env ui oftAddress signerAddress =
     (case networkConfig env (destNetwork ui) of
        Inl e \<Rightarrow> ([], Failed e)
      | Inr dstConfig \<Rightarrow>
          (case buildSendParam (networkConfig env) (parseUnits env) (sourceNetwork ui)
                  (destNetwork ui) (resolvedAmount env ui) (receiverAddress ui)
                  (Some (resolveDecimals env ui)) (Some (resolveOptions env dstConfig)) of
             Inl e \<Rightarrow> ([], Failed e)
           | Inr sendParam \<Rightarrow>
               (case quoteSend_call env sendParam of
                  Inl e \<Rightarrow> ([QuoteSend sendParam], Failed e)
                | Inr fee \<Rightarrow>
                    (case parseUnits env (resolvedAmount env ui) (resolveDecimals env ui) of
                       Inl e \<Rightarrow> ([QuoteSend sendParam], Failed e)
                     | Inr amtLD \<Rightarrow>
                         (case submit env (usingNativeAdapter env ui) oftAddress sendParam fee
                                 signerAddress amtLD of
                            (calls, out) \<Rightarrow> (QuoteSend sendParam # calls, out))))))"

text \<open>
  \<open>sendCrossChain\<close>: the calls made on the chain, and how the flow ends. Left out are
  the switch of the wallet to the source network, which catches its own errors and makes
  no call on the token contract, and what follows the submission (the wait for the
  receipt in the background and the history entry).
\<close>

definition sendCrossChain :: "send_env \<Rightarrow> send_ui \<Rightarrow> chain_call list \<times> outcome" where
  "sendCrossChain env ui =
     (if sourceNetwork ui = [] \<or> destNetwork ui = [] \<or> amount ui = [] \<or> receiverAddress ui = []
      then ([], Rejected ''Please fill all fields'')
      else if account ui = [] then ([], Rejected ''Please connect your wallet'')
      else if tokenId ui = [] then ([], Rejected ''Please choose a token'')
      else if \<not> isPairSupported env ui then ([], Rejected ''Unsupported source/destination pair'')
      else if \<not> has_ethereum ui then ([], Rejected ''MetaMask is not installed'')
      else
        (case networkConfig env (sourceNetwork ui) of
           Inl e \<Rightarrow> ([], Failed e)
         | Inr config \<Rightarrow>
             (case getSigner env of
                Inl e \<Rightarrow> ([], Failed e)
              | Inr signerAddress \<Rightarrow>
                  if resolvedAmount env ui = []
                  then ([], Rejected ''Balance not loaded; connect wallet and choose token'')
                  else
                    (case tokenAddress (tokens env) (tokenId ui) (sourceNetwork ui) of
                       None \<Rightarrow>
                         ([], Rejected ''Selected token is not supported on source network'')
                     | Some oftAddress \<Rightarrow>
                         if oftAddress = []
                         then ([], Rejected ''Selected token is not supported on source network'')
                         else
                           (case validateAmount env ui of
                              Inl msg \<Rightarrow> ([], Rejected msg)
                            | Inr amtLD \<Rightarrow> quoteAndSubmit env ui oftAddress signerAddress)))))"

text \<open>The send parameters that a call carries.\<close>

fun call_param :: "chain_call \<Rightarrow> SendParam" where
  "call_param (QuoteSend sp) = sp"
| "call_param (ContractSend sp fee refund v) = sp"
| "call_param (SendTransaction raw) = (case tx_data raw of EncodeSend sp fee refund \<Rightarrow> sp)"

fun is_submission :: "chain_call \<Rightarrow> bool" where
  "is_submission (QuoteSend sp) = False"
| "is_submission (ContractSend sp fee refund v) = True"
| "is_submission (SendTransaction raw) = True"

section \<open>The on-chain status route\<close>

text \<open>
  The request body of the route; a field is \<open>None\<close> when it is missing. The four required
  fields are tested for truthiness, so an empty string counts as missing.
\<close>

record onchain_body =
  body_txHash :: "string option"
  body_sourceNetwork :: "string option"
  body_destNetwork :: "string option"
  body_tokenId :: "string option"
  body_scanWindow :: "int option"
  body_includeDvn :: bool

text \<open>The source receipt as far as the route reads it.\<close>

record receipt =
  receipt_status :: "int option"
  receipt_blockNumber :: "int option"

text \<open>
  The origin of a packet, and what the two interfaces make of a log: \<open>parseLog\<close> throws,
  returns \<open>null\<close>, or returns the event name with \<open>args.origin\<close> and \<open>args.receiver\<close>
  (for the verifier-network interface the event name only).
\<close>

record origin =
  srcEid :: int
  sender :: string
  nonce :: int

datatype parse_result = ParseThrows | ParseNull | Parsed string "origin option" "string option"

datatype dvn_parse_result = DvnThrows | DvnNull | DvnParsed string

record chain_log =
  transactionHash :: string
  endpoint_parseLog :: parse_result
  dvn_parseLog :: dvn_parse_result

text \<open>
  What the configuration and the two providers answer. \<open>None\<close> from a \<open>getLogs\<close> call
  stands for a call that throws; the route catches it and goes on with no logs.
\<close>

record onchain_env =
  oc_networkConfig :: "string \<Rightarrow> js_error + NetworkConfig"
  oc_tokens :: "TokenConfig list"
  getTransactionReceipt :: "string \<Rightarrow> receipt option"
  getBlockNumber :: "js_error + int"
  getLogs_delivered :: "int \<Rightarrow> int \<Rightarrow> chain_log list option"
  getLogs_verified :: "int \<Rightarrow> int \<Rightarrow> chain_log list option"
  getLogs_dvn :: "int \<Rightarrow> int \<Rightarrow> chain_log list option"

record matched_log =
  m_dstTx :: string
  m_origin :: origin
  m_receiver :: "string option"

record dvn_event =
  ev_name :: string
  ev_txHash :: string

record onchain_status =
  st_stage :: string
  st_source_status :: string
  st_source_txHash :: string
  st_destination_status :: string
  st_destination_txHash :: "string option"
  st_origin :: "origin option"
  st_receiver :: "string option"
  st_verification :: "dvn_event list option"
  st_networkBase :: string
  st_window_fromBlock :: int
  st_window_toBlock :: int

datatype onchain_answer = ErrorAnswer js_value | StatusAnswer onchain_status

datatype 'a http = Http nat 'a

text \<open>\<open>e?.message || 'Internal error'\<close>.\<close>

definition internalError :: "js_error \<Rightarrow> js_value" where
  "internalError e = or_value (err_message e) (Str ''Internal error'')"

text \<open>The scan range: \<open>toBlock\<close>, \<open>recentWindow\<close> and \<open>fromBlock\<close> of the route.\<close>

definition scanRange :: "receipt option \<Rightarrow> int \<Rightarrow> int option \<Rightarrow> int \<times> int" where
  "scanRange srcReceipt toBlock scanWindow =
     (let recentWindow = (case scanWindow of Some w \<Rightarrow> w | None \<Rightarrow> 20000);
          fromBlock =
            (case srcReceipt of
               None \<Rightarrow> max 0 (toBlock - recentWindow)
             | Some r \<Rightarrow>
                 (case receipt_blockNumber r of
                    Some b \<Rightarrow> b
                  | None \<Rightarrow> max 0 (toBlock - recentWindow)))
      in (fromBlock, toBlock))"

text \<open>\<open>pad32\<close> of the route.\<close>

definition pad32 :: "string \<Rightarrow> string" where
  "pad32 addr = ''0x'' @ padStart 64 (CHR ''0'') (drop 2 (toLowerCase addr))"

text \<open>
  The two scanning loops: a log that does not parse, parses to another event or has no
  origin is skipped; the first log whose origin has the expected endpoint id and sender
  ends the loop.
\<close>

fun scanLogs :: "string \<Rightarrow> int \<Rightarrow> string \<Rightarrow> chain_log list \<Rightarrow> matched_log option" where
  "scanLogs event expectedSrcEid expectedSender [] = None"
| "scanLogs event expectedSrcEid expectedSender (lg # logs) =
     (case endpoint_parseLog lg of
        ParseThrows \<Rightarrow> scanLogs event expectedSrcEid expectedSender logs
      | ParseNull \<Rightarrow> scanLogs event expectedSrcEid expectedSender logs
      | Parsed name origin receiver \<Rightarrow>
          if name \<noteq> event then scanLogs event expectedSrcEid expectedSender logs
          else
            (case origin of
               None \<Rightarrow> scanLogs event expectedSrcEid expectedSender logs
             | Some org \<Rightarrow>
                 let srcEidOk = (srcEid org = expectedSrcEid);
                     senderOk = (toLowerCase (sender org) = toLowerCase expectedSender)
                 in if srcEidOk \<and> senderOk
                    then Some \<lparr> m_dstTx = transactionHash lg, m_origin = org, m_receiver = receiver \<rparr>
                    else scanLogs event expectedSrcEid expectedSender logs))"

text \<open>The loop over the logs of the verifier-network contract.\<close>

fun scanDvn :: "chain_log list \<Rightarrow> dvn_event list" where
  "scanDvn [] = []"
| "scanDvn (lg # logs) =
     (case dvn_parseLog lg of
        DvnParsed name \<Rightarrow>
          if name = ''VerifierFeePaid'' \<or> name = ''VerifySignaturesFailed''
             \<or> name = ''ExecuteFailed'' \<or> name = ''HashAlreadyUsed''
          then \<lparr> ev_name = name, ev_txHash = transactionHash lg \<rparr> # scanDvn logs
          else scanDvn logs
      | _ \<Rightarrow> scanDvn logs)"

text \<open>The stage expression of the route.\<close>

definition deriveStage :: "matched_log option \<Rightarrow> matched_log option \<Rightarrow> receipt option \<Rightarrow> string" where
  "deriveStage matched verified srcReceipt =
     (let sentOk = (case srcReceipt of
                      None \<Rightarrow> False
                    | Some r \<Rightarrow> (case receipt_status r of Some s \<Rightarrow> s | None \<Rightarrow> 0) = 1)
      in if matched \<noteq> None then ''executed''
         else if verified \<noteq> None then ''verified''
         else (if srcReceipt \<noteq> None then (if sentOk then ''inflight'' else ''unknown'')
               else ''inflight''))"

text \<open>
  What stands between the two network names of \<open>networkBase\<close>: the eight bytes of the
  source file (an arrow whose UTF-8 bytes were encoded once more).
\<close>

definition arrow :: string where
  "arrow = [CHR 0xC3, CHR 0xA2, CHR 0xE2, CHR 0x80, CHR 0xA0, CHR 0xE2, CHR 0x80, CHR 0x99]"

text \<open>
  A body that is \<open>null\<close> reads as a body with no field (\<open>body || {}\<close>).
\<close>

definition emptyBody :: onchain_body where
  "emptyBody = \<lparr> body_txHash = None, body_sourceNetwork = None, body_destNetwork = None,
     body_tokenId = None, body_scanWindow = None, body_includeDvn = False \<rparr>"

definition logsOr :: "chain_log list option \<Rightarrow> chain_log list" where
  "logsOr r = (case r of None \<Rightarrow> [] | Some logs \<Rightarrow> logs)"

text \<open>
  The part of the route after the reads: from the two configurations, the hash, the token
  address, the source receipt, the scan range and the logs read (those of the
  verifier-network contract only when they were asked for) to the answer.
\<close>

definition onchainStatus ::
  "NetworkConfig \<Rightarrow> NetworkConfig \<Rightarrow> string \<Rightarrow> string \<Rightarrow> receipt option \<Rightarrow> int \<times> int \<Rightarrow>
   chain_log list \<Rightarrow> chain_log list \<Rightarrow> chain_log list option \<Rightarrow> onchain_status" where
  "onchainStatus srcConfig dstConfig txHash oftSrc srcReceipt blocks deliveredLogs verifiedLogs
      dvnLogs =
     (let sentOk = (case srcReceipt of
                      None \<Rightarrow> False
                    | Some r \<Rightarrow> (case receipt_status r of Some s \<Rightarrow> s | None \<Rightarrow> 0) = 1);
          expectedSender = pad32 oftSrc;
          expectedSrcEid = cfg_eid srcConfig;
          matched = scanLogs ''PacketDelivered'' expectedSrcEid expectedSender deliveredLogs;
          verified = (if matched = None
                      then scanLogs ''PacketVerified'' expectedSrcEid expectedSender verifiedLogs
                      else None);
          dvnSummary = map_option scanDvn dvnLogs
      in \<lparr> st_stage = deriveStage matched verified srcReceipt,
           st_source_status = (if srcReceipt \<noteq> None then (if sentOk then ''Sent'' else ''Failed'')
                               else ''PendingOrUnknown''),
           st_source_txHash = txHash,
           st_destination_status = (if matched \<noteq> None then ''Delivered''
                                    else if verified \<noteq> None then ''Verified'' else ''NotFound''),
           st_destination_txHash =
             (case or_null (map_option m_dstTx matched) of
                Some h \<Rightarrow> Some h
              | None \<Rightarrow> or_null (map_option m_dstTx verified)),
           st_origin = (case matched of
                          Some m \<Rightarrow> Some (m_origin m)
                        | None \<Rightarrow> map_option m_origin verified),
           st_receiver = or_null (Option.bind matched m_receiver),
           st_verification = dvnSummary,
           st_networkBase = cfg_name srcConfig @ arrow @ cfg_name dstConfig,
           st_window_fromBlock = fst blocks,
           st_window_toBlock = snd blocks \<rparr>)"

text \<open>
  \<open>POST\<close> of the route. The request is the parsed body (\<open>None\<close> for \<open>null\<close>), or the error
  that \<open>req.json()\<close> throws.
\<close>

definition onchain_POST :: "onchain_env \<Rightarrow> js_error + onchain_body option \<Rightarrow> onchain_answer http" where
  "onchain_POST env req =
     (case req of
        Inl e \<Rightarrow> Http 500 (ErrorAnswer (internalError e))
      | Inr parsed \<Rightarrow>
          let body = (case parsed of Some b \<Rightarrow> b | None \<Rightarrow> emptyBody) in
          (case (or_null (body_txHash body), or_null (body_sourceNetwork body),
                 or_null (body_destNetwork body), or_null (body_tokenId body)) of
             (Some txHash, Some srcKey, Some dstKey, Some tokId) \<Rightarrow>
               (case oc_networkConfig env srcKey of
                  Inl e \<Rightarrow> Http 500 (ErrorAnswer (internalError e))
                | Inr srcConfig \<Rightarrow>
                    (case oc_networkConfig env dstKey of
                       Inl e \<Rightarrow> Http 500 (ErrorAnswer (internalError e))
                     | Inr dstConfig \<Rightarrow>
                         (case or_null (tokenAddress (oc_tokens env) tokId srcKey) of
                            None \<Rightarrow>
                              Http 400
                                (ErrorAnswer (Str ''OFT address not found for source network''))
                          | Some oftSrc \<Rightarrow>
                              let srcReceipt = getTransactionReceipt env txHash in
                              (case getBlockNumber env of
                                 Inl e \<Rightarrow> Http 500 (ErrorAnswer (internalError e))
                               | Inr toBlock \<Rightarrow>
                                   let blocks = scanRange srcReceipt toBlock (body_scanWindow body);
                                       deliveredLogs =
                                         logsOr (getLogs_delivered env (fst blocks) (snd blocks));
                                       verifiedLogs =
                                         logsOr (getLogs_verified env (fst blocks) (snd blocks));
                                       dvnLogs =
                                         (if body_includeDvn body \<and> cfg_dvn dstConfig \<noteq> []
                                          then Some (logsOr (getLogs_dvn env (fst blocks) (snd blocks)))
                                          else None)
                                   in Http 200 (StatusAnswer
                                        (onchainStatus srcConfig dstConfig txHash oftSrc
                                           srcReceipt blocks deliveredLogs verifiedLogs dvnLogs))))))
           | _ \<Rightarrow>
               Http 400
                 (ErrorAnswer (Str ''Missing txHash, sourceNetwork, destNetwork, or tokenId''))))"

text \<open>
  The condition of the loops as a predicate on a log: it decodes to the event with an
  origin of the expected endpoint id and sender.
\<close>

definition logMatches :: "string \<Rightarrow> int \<Rightarrow> string \<Rightarrow> chain_log \<Rightarrow> bool" where
  "logMatches event expectedSrcEid expectedSender lg =
     (case endpoint_parseLog lg of
        Parsed name (Some org) receiver \<Rightarrow>
          name = event \<and> srcEid org = expectedSrcEid
          \<and> toLowerCase (sender org) = toLowerCase expectedSender
      | _ \<Rightarrow> False)"

section \<open>The aggregator status route\<close>

text \<open>
  The environment of the server: the value of a variable, \<open>None\<close> when it is not set.
\<close>

type_synonym process_env = "string \<Rightarrow> string option"

text \<open>\<open>a || b\<close> on two optional strings.\<close>

definition or_else :: "string option \<Rightarrow> string option \<Rightarrow> string option" where
  "or_else a b = (if truthy a then a else b)"

definition resolveBase :: "process_env \<Rightarrow> string option" where
  "resolveBase env = or_else (env ''STATUS_API_BASE'') (env ''NEXT_PUBLIC_STATUS_API_BASE'')"

text \<open>
  The upstream exchange: it fails in transport (\<open>fetch\<close> or the reading of the body
  throws), or it gives a status, the body as text, and the body decoded as JSON (the
  error thrown when it is no JSON). The JSON values are of any type \<open>'j\<close>.
\<close>

datatype 'j upstream = TransportError js_error | Upstream nat string "js_error + 'j"

text \<open>The JSON objects that the route builds itself.\<close>

record error_object =
  eo_error :: js_value
  eo_found :: "bool option"
  eo_upstreamStatus :: "nat option"
  eo_hint :: "string option"
  eo_body :: "string option"

definition errorOnly :: "js_value \<Rightarrow> error_object" where
  "errorOnly e = \<lparr> eo_error = e, eo_found = None, eo_upstreamStatus = None, eo_hint = None,
     eo_body = None \<rparr>"

datatype 'j agg_answer = Passthrough 'j | ErrorObject error_object

text \<open>\<open>res.ok\<close>.\<close>

definition ok_status :: "nat \<Rightarrow> bool" where
  "ok_status status = (200 \<le> status \<and> status \<le> 299)"

text \<open>
  \<open>Response.json(data, { status })\<close> of the platform, as the Fetch standard has it: a
  status outside 200 to 599 is refused with a \<open>RangeError\<close>, and a null body status (101,
  103, 204, 205 or 304) with a \<open>TypeError\<close>, since the response is given a body. The error
  values are those of the runtime: \<open>thrown\<close> gives the one for a status.
\<close>

definition null_body_status :: "nat \<Rightarrow> bool" where
  "null_body_status status =
     (status = 101 \<or> status = 103 \<or> status = 204 \<or> status = 205 \<or> status = 304)"

definition refused_status :: "nat \<Rightarrow> bool" where
  "refused_status status = (status < 200 \<or> 599 < status \<or> null_body_status status)"

definition Response_json :: "(nat \<Rightarrow> js_error) \<Rightarrow> 'a \<Rightarrow> nat \<Rightarrow> js_error + 'a http" where
  "Response_json thrown data status =
     (if refused_status status then Inl (thrown status) else Inr (Http status data))"

text \<open>
  The body of the \<open>try\<close> of \<open>POST\<close>: the response it returns, or the error thrown in it.
  The request is the value of \<open>body?.txHash\<close> in the parsed body, or the error that
  \<open>req.json()\<close> throws. \<open>fetch\<close> takes the address and the \<open>Authorization\<close> header;
  \<open>base64\<close> is the encoding of \<open>Buffer\<close>.
\<close>

definition agg_try ::
  "process_env \<Rightarrow> (string \<Rightarrow> string) \<Rightarrow> (nat \<Rightarrow> js_error) \<Rightarrow>
   (string \<Rightarrow> string option \<Rightarrow> 'j upstream) \<Rightarrow> js_error + js_value \<Rightarrow>
   js_error + 'j agg_answer http" where
  "agg_try env base64 thrown fetch req =
     (case req of
        Inl e \<Rightarrow> Inl e
      | Inr field \<Rightarrow>
          (case field of
             Str txHash \<Rightarrow>
               if txHash = []
               then Response_json thrown (ErrorObject (errorOnly (Str ''txHash is required''))) 400
               else
                 (case or_null (resolveBase env) of
                    None \<Rightarrow>
                      Response_json thrown (ErrorObject
                        ((errorOnly (Str ''STATUS_API_BASE not configured''))
                           \<lparr> eo_hint := Some ''Set STATUS_API_BASE in env, e.g. https://your-aggregator-host/v1'' \<rparr>))
                        500
                  | Some base \<Rightarrow>
                      let user = or_str (env ''STATUS_API_USERNAME'') [];
                          pass = or_str (env ''STATUS_API_PASSWORD'') [];
                          auth = (if user \<noteq> [] \<and> pass \<noteq> []
                                  then Some (''Basic '' @ base64 (user @ '':'' @ pass))
                                  else None);
                          upstream = base @ ''/api/tx/by-hash/'' @ txHash
                      in
                      (case fetch upstream auth of
                         TransportError e \<Rightarrow> Inl e
                       | Upstream status text decoded \<Rightarrow>
                           if \<not> ok_status status then
                             if status = 404 then
                               Response_json thrown (ErrorObject
                                 \<lparr> eo_error = Str ''Not found'', eo_found = Some False,
                                   eo_upstreamStatus = Some status, eo_hint = None,
                                   eo_body = Some text \<rparr>) status
                             else if status = 401 \<or> status = 403 then
                               Response_json thrown (ErrorObject
                                 \<lparr> eo_error = Str ''Unauthorized'', eo_found = None,
                                   eo_upstreamStatus = Some status,
                                   eo_hint = Some ''Check STATUS_API_USERNAME/PASSWORD'',
                                   eo_body = None \<rparr>) status
                             else
                               Response_json thrown (ErrorObject
                                 \<lparr> eo_error = Str ''Upstream error'', eo_found = None,
                                   eo_upstreamStatus = Some status, eo_hint = None,
                                   eo_body = Some text \<rparr>) status
                           else
                             (case decoded of
                                Inl e \<Rightarrow> Inl e
                              | Inr json \<Rightarrow> Response_json thrown (Passthrough json) 200)))
           | _ \<Rightarrow>
               Response_json thrown (ErrorObject (errorOnly (Str ''txHash is required''))) 400))"

text \<open>
  \<open>POST\<close> of the route: an error thrown in the \<open>try\<close> is caught and answered with 500 (a
  status that \<open>Response.json\<close> accepts).
\<close>

definition agg_POST ::
  "process_env \<Rightarrow> (string \<Rightarrow> string) \<Rightarrow> (nat \<Rightarrow> js_error) \<Rightarrow>
   (string \<Rightarrow> string option \<Rightarrow> 'j upstream) \<Rightarrow> js_error + js_value \<Rightarrow> 'j agg_answer http" where
  "agg_POST env base64 thrown fetch req =
     (case agg_try env base64 thrown fetch req of
        Inl e \<Rightarrow> Http 500 (ErrorObject (errorOnly (internalError e)))
      | Inr response \<Rightarrow> response)"

text \<open>A \<open>txHash\<close> that the route accepts: a string that is not empty.\<close>

definition txHash_given :: "js_value \<Rightarrow> bool" where
  "txHash_given field = (case field of Str t \<Rightarrow> t \<noteq> [] | _ \<Rightarrow> False)"

text \<open>
  The address and the header of the upstream request, as \<open>POST\<close> builds them.
\<close>

definition upstreamUrl :: "process_env \<Rightarrow> string \<Rightarrow> string" where
  "upstreamUrl env txHash = or_str (resolveBase env) [] @ ''/api/tx/by-hash/'' @ txHash"

definition authHeader :: "process_env \<Rightarrow> (string \<Rightarrow> string) \<Rightarrow> string option" where
  "authHeader env base64 =
     (let user = or_str (env ''STATUS_API_USERNAME'') [];
          pass = or_str (env ''STATUS_API_PASSWORD'') []
      in if user \<noteq> [] \<and> pass \<noteq> []
         then Some (''Basic '' @ base64 (user @ '':'' @ pass))
         else None)"

section \<open>The configuration module and the diagnostics route\<close>

text \<open>
  \<open>parseNum\<close>. \<open>Number\<close> is the conversion of JavaScript, a parameter here: it gives
  \<open>None\<close> where the result is not finite.
\<close>

definition parseNum :: "(string \<Rightarrow> int option) \<Rightarrow> string option \<Rightarrow> int option" where
  "parseNum Number v = (case or_null v of None \<Rightarrow> None | Some t \<Rightarrow> Number t)"

text \<open>
  \<open>buildHii\<close> and \<open>buildSepolia\<close> read the same fifteen variables under the prefixes
  \<open>NEXT_PUBLIC_HII_\<close> and \<open>NEXT_PUBLIC_SEPOLIA_\<close>; \<open>buildNetwork\<close> is their common body,
  where \<open>var\<close> reads the variable of the given suffix. A number that is 0 is falsy like
  a missing one.
\<close>

definition buildNetwork ::
  "string \<Rightarrow> (string \<Rightarrow> int option) \<Rightarrow> process_env \<Rightarrow> NetworkConfig option" where
  "buildNetwork prefix Number env =
     (let var = (\<lambda>suffix. env (prefix @ suffix));
          name = var ''NAME'';
          chainId = parseNum Number (var ''CHAIN_ID'');
          rpcHttp = var ''RPC_HTTP'';
          rpcWs = var ''RPC_WS'';
          eid = parseNum Number (var ''EID'');
          endpointV2 = var ''ENDPOINT_V2'';
          dvn = var ''DVN'';
          executor = var ''EXECUTOR'';
          lzExecutor = var ''LZ_EXECUTOR'';
          oft = var ''OFT'';
          priceFeed = var ''PRICE_FEED'';
          receiveUln = var ''RECEIVE_ULN'';
          sendUln = var ''SEND_ULN'';
          treasury = var ''TREASURY'';
          explorerTxBase = var ''EXPLORER_TX_BASE''
      in if \<not> truthy name \<or> chainId = None \<or> chainId = Some 0 \<or> \<not> truthy rpcHttp
            \<or> eid = None \<or> eid = Some 0 \<or> \<not> truthy endpointV2 \<or> \<not> truthy dvn
            \<or> \<not> truthy executor \<or> \<not> truthy lzExecutor \<or> \<not> truthy oft
            \<or> \<not> truthy priceFeed \<or> \<not> truthy receiveUln \<or> \<not> truthy sendUln
            \<or> \<not> truthy treasury
         then None
         else Some \<lparr> cfg_name = or_str name [], cfg_chainId = (case chainId of Some n \<Rightarrow> n | None \<Rightarrow> 0),
                     cfg_rpcHttp = or_str rpcHttp [], cfg_rpcWs = rpcWs,
                     cfg_eid = (case eid of Some n \<Rightarrow> n | None \<Rightarrow> 0),
                     cfg_endpointV2 = or_str endpointV2 [], cfg_dvn = or_str dvn [],
                     cfg_executor = or_str executor [], cfg_lzExecutor = or_str lzExecutor [],
                     cfg_oft = or_str oft [], cfg_priceFeed = or_str priceFeed [],
                     cfg_receiveUln = or_str receiveUln [], cfg_sendUln = or_str sendUln [],
                     cfg_treasury = or_str treasury [], cfg_explorerTxBase = explorerTxBase \<rparr>)"

definition buildHii :: "(string \<Rightarrow> int option) \<Rightarrow> process_env \<Rightarrow> NetworkConfig option" where
  "buildHii = buildNetwork ''NEXT_PUBLIC_HII_''"

definition buildSepolia :: "(string \<Rightarrow> int option) \<Rightarrow> process_env \<Rightarrow> NetworkConfig option" where
  "buildSepolia = buildNetwork ''NEXT_PUBLIC_SEPOLIA_''"

text \<open>
  What \<open>getNetworksConfig\<close> returns is typed \<open>NetworksConfig\<close>, but the value that
  \<open>JSON.parse\<close> makes of the variable \<open>NEXT_PUBLIC_NETWORKS_CONFIG\<close> is returned unchecked,
  so the caller can get any JSON value. An object is the list of its own properties, in
  the order of \<open>Object.keys\<close>.
\<close>

datatype json_value =
  JNull | JBool bool | JNum real | JStr string | JArr "json_value list"
  | JObj "(string \<times> json_value) list"

text \<open>
  A network configuration as a value: the properties that are \<open>undefined\<close> are left out.
\<close>

definition configJson :: "NetworkConfig \<Rightarrow> json_value" where
  "configJson c =
     JObj ([(''name'', JStr (cfg_name c)), (''chainId'', JNum (real_of_int (cfg_chainId c))),
            (''rpcHttp'', JStr (cfg_rpcHttp c))]
           @ (case cfg_rpcWs c of Some w \<Rightarrow> [(''rpcWs'', JStr w)] | None \<Rightarrow> [])
           @ [(''eid'', JNum (real_of_int (cfg_eid c))), (''endpointV2'', JStr (cfg_endpointV2 c)),
              (''dvn'', JStr (cfg_dvn c)), (''executor'', JStr (cfg_executor c)),
              (''lzExecutor'', JStr (cfg_lzExecutor c)), (''oft'', JStr (cfg_oft c)),
              (''priceFeed'', JStr (cfg_priceFeed c)), (''receiveUln'', JStr (cfg_receiveUln c)),
              (''sendUln'', JStr (cfg_sendUln c)), (''treasury'', JStr (cfg_treasury c))]
           @ (case cfg_explorerTxBase c of Some b \<Rightarrow> [(''explorerTxBase'', JStr b)] | None \<Rightarrow> []))"

text \<open>\<open>new Error(message)\<close>.\<close>

definition new_Error :: "string \<Rightarrow> js_error" where
  "new_Error message = \<lparr> err_info_error_data_message = Falsy, err_message = Str message \<rparr>"

text \<open>
  \<open>getNetworksConfig\<close>: the networks by key, or the error thrown. \<open>JSON_parse\<close> is
  \<open>JSON.parse\<close>, \<open>None\<close> when it throws.
\<close>

definition getNetworksConfig ::
  "(string \<Rightarrow> int option) \<Rightarrow> (string \<Rightarrow> json_value option) \<Rightarrow> process_env \<Rightarrow>
   js_error + json_value" where
  "getNetworksConfig Number JSON_parse env =
     (let hii = buildHii Number env;
          sepolia = buildSepolia Number env;
          networks = (case hii of Some c \<Rightarrow> [(''hii'', configJson c)] | None \<Rightarrow> [])
                   @ (case sepolia of Some c \<Rightarrow> [(''sepolia'', configJson c)] | None \<Rightarrow> [])
      in if networks \<noteq> [] then Inr (JObj networks)
         else
           (case or_null (env ''NEXT_PUBLIC_NETWORKS_CONFIG'') of
              Some configStr \<Rightarrow>
                (case JSON_parse configStr of
                   Some parsed \<Rightarrow> Inr parsed
                 | None \<Rightarrow> Inl (new_Error ''No network configuration found in environment variables''))
            | None \<Rightarrow> Inl (new_Error ''No network configuration found in environment variables'')))"

text \<open>
  The keys of \<open>Object.keys(cfgs)\<close> with the values \<open>cfgs[key]\<close>, \<open>None\<close> where \<open>Object.keys\<close>
  throws, which it does for \<open>null\<close>. A number or a truth value has no key; the keys of an
  array and of a string (of ASCII characters) are the indices, in decimal.
\<close>

fun decimal :: "nat \<Rightarrow> string" where
  "decimal n =
     (if n < 10 then [''0123456789'' ! n] else decimal (n div 10) @ [''0123456789'' ! (n mod 10)])"

definition indexed :: "'a list \<Rightarrow> (string \<times> 'a) list" where
  "indexed xs = zip (map decimal [0..<length xs]) xs"

fun ownEntries :: "json_value \<Rightarrow> (string \<times> json_value) list option" where
  "ownEntries JNull = None"
| "ownEntries (JBool b) = Some []"
| "ownEntries (JNum n) = Some []"
| "ownEntries (JStr s) = Some (indexed (map (\<lambda>c. JStr [c]) s))"
| "ownEntries (JArr xs) = Some (indexed xs)"
| "ownEntries (JObj kvs) = Some kvs"

text \<open>
  \<open>c.name\<close> and the other properties that the diagnostics route reads of a value that is
  not \<open>null\<close>: the property of an object, and \<open>undefined\<close> (\<open>None\<close>) on any other value,
  since no string, number, truth value or array has a property of one of these names.
  \<open>!!v\<close> on what was read.
\<close>

fun readProp :: "json_value \<Rightarrow> string \<Rightarrow> json_value option" where
  "readProp (JObj kvs) k = map_of kvs k"
| "readProp v k = None"

fun json_truthy :: "json_value option \<Rightarrow> bool" where
  "json_truthy None = False"
| "json_truthy (Some JNull) = False"
| "json_truthy (Some (JBool b)) = b"
| "json_truthy (Some (JNum n)) = (n \<noteq> 0)"
| "json_truthy (Some (JStr s)) = (s \<noteq> [])"
| "json_truthy (Some (JArr xs)) = True"
| "json_truthy (Some (JObj kvs)) = True"

text \<open>The answer of the diagnostics route.\<close>

record network_report =
  nr_name :: "json_value option"
  nr_chainId :: "json_value option"
  nr_rpcHttpPresent :: bool
  nr_endpointV2Present :: bool
  nr_oftPresent :: bool
  nr_explorerTxBasePresent :: bool

record aggregator_report =
  basePresent :: bool
  usernamePresent :: bool
  passwordPresent :: bool

record envcheck_answer =
  ec_ok :: bool
  ec_networks :: "(string \<times> network_report) list option"
  ec_networksError :: "js_value option"
  ec_aggregator :: aggregator_report

definition networkReport :: "json_value \<Rightarrow> network_report" where
  "networkReport c =
     \<lparr> nr_name = readProp c ''name'', nr_chainId = readProp c ''chainId'',
       nr_rpcHttpPresent = json_truthy (readProp c ''rpcHttp''),
       nr_endpointV2Present = json_truthy (readProp c ''endpointV2''),
       nr_oftPresent = json_truthy (readProp c ''oft''),
       nr_explorerTxBasePresent = json_truthy (readProp c ''explorerTxBase'') \<rparr>"

text \<open>
  The loop of the route over the keys: the reports written into \<open>networks\<close>, and whether
  the loop was left by an error, which reading \<open>c.name\<close> of a value \<open>null\<close> throws.
\<close>

fun reportLoop :: "(string \<times> json_value) list \<Rightarrow> (string \<times> network_report) list \<times> bool" where
  "reportLoop [] = ([], False)"
| "reportLoop ((key, c) # rest) =
     (if c = JNull then ([], True)
      else (let (reports, threw) = reportLoop rest in ((key, networkReport c) # reports, threw)))"

text \<open>\<open>e?.message || 'Failed to read NEXT_PUBLIC network config'\<close>.\<close>

definition readFailure :: "js_error \<Rightarrow> js_value" where
  "readFailure e = or_value (err_message e) (Str ''Failed to read NEXT_PUBLIC network config'')"

text \<open>
  The \<open>try\<close> of the route, from what \<open>getNetworksConfig\<close> did: \<open>networks\<close> and
  \<open>networksError\<close> after it. \<open>networks\<close> is still \<open>null\<close> when \<open>getNetworksConfig\<close> threw,
  and an object from then on. \<open>keysError\<close> and \<open>readError\<close> are the errors of the runtime
  for \<open>Object.keys(null)\<close> and for a property read of \<open>null\<close>.
\<close>

definition reportNetworks ::
  "js_error \<Rightarrow> js_error \<Rightarrow> js_error + json_value \<Rightarrow>
   (string \<times> network_report) list option \<times> js_value option" where
  "reportNetworks keysError readError result =
     (case result of
        Inl e \<Rightarrow> (None, Some (readFailure e))
      | Inr cfgs \<Rightarrow>
          (case ownEntries cfgs of
             None \<Rightarrow> (Some [], Some (readFailure keysError))
           | Some entries \<Rightarrow>
               (let (reports, threw) = reportLoop entries
                in (Some reports, if threw then Some (readFailure readError) else None))))"

text \<open>\<open>GET\<close> of the diagnostics route.\<close>

definition envcheck_GET ::
  "(string \<Rightarrow> int option) \<Rightarrow> (string \<Rightarrow> json_value option) \<Rightarrow> js_error \<Rightarrow> js_error \<Rightarrow>
   process_env \<Rightarrow> envcheck_answer" where
  "envcheck_GET Number JSON_parse keysError readError env =
     (let (networks, networksError) =
            reportNetworks keysError readError (getNetworksConfig Number JSON_parse env);
          aggregator =
            \<lparr> basePresent = (truthy (env ''STATUS_API_BASE'')
                               \<or> truthy (env ''NEXT_PUBLIC_STATUS_API_BASE'')),
              usernamePresent = truthy (env ''STATUS_API_USERNAME''),
              passwordPresent = truthy (env ''STATUS_API_PASSWORD'') \<rparr>
      in \<lparr> ec_ok = True, ec_networks = networks, ec_networksError = networksError,
           ec_aggregator = aggregator \<rparr>)"

text \<open>The secret variables of the aggregator.\<close>

definition secret_vars :: "string set" where
  "secret_vars = {''STATUS_API_BASE'', ''NEXT_PUBLIC_STATUS_API_BASE'', ''STATUS_API_USERNAME'',
     ''STATUS_API_PASSWORD''}"

text \<open>
  Two environments that agree on every variable that is not secret, and on which secret
  variables are set to a value that is not empty.
\<close>

definition same_but_secrets :: "process_env \<Rightarrow> process_env \<Rightarrow> bool" where
  "same_but_secrets env1 env2 =
     ((\<forall>v. v \<notin> secret_vars \<longrightarrow> env1 v = env2 v)
      \<and> (\<forall>v\<in>secret_vars. truthy (env1 v) = truthy (env2 v)))"

section \<open>A sample transfer\<close>

text \<open>
  A concrete configuration, page state and chain for the examples: the token \<open>hnc\<close> on
  the pair \<open>hii\<close> to \<open>sepolia\<close>, a balance of 5 units, a quoted fee of 1000, and a primary
  send call that answers with the given result.
\<close>

definition sample_config :: "string \<Rightarrow> NetworkConfig" where
  "sample_config key =
     \<lparr> cfg_name = key, cfg_chainId = 11155111, cfg_rpcHttp = ''https://rpc'', cfg_rpcWs = None,
       cfg_eid = 40161, cfg_endpointV2 = ''0xe1'', cfg_dvn = ''0xd1'', cfg_executor = ''0xe2'',
       cfg_lzExecutor = ''0xe3'', cfg_oft = ''0x0f'', cfg_priceFeed = ''0xf1'',
       cfg_receiveUln = ''0xa1'', cfg_sendUln = ''0xa2'', cfg_treasury = ''0xa3'',
       cfg_explorerTxBase = None \<rparr>"

definition sample_token :: "bool \<Rightarrow> TokenConfig" where
  "sample_token native =
     \<lparr> token_id = ''hnc'', token_symbol = ''HNC'', token_name = ''HNC'',
       addresses = [''hii'' \<mapsto> ''0x0f''], nativeAdapter = Some native \<rparr>"

definition sample_env :: "bool \<Rightarrow> js_error + string \<Rightarrow> send_env" where
  "sample_env native sendResult =
     \<lparr> networkConfig = (\<lambda>key. Inr (sample_config key)),
       tokens = [sample_token native],
       supportedPairs = [(''hii'', ''sepolia'')],
       trim = (\<lambda>s. s),
       parseUnits = (\<lambda>a d. if a = ''2'' then Inr (2 * 10 ^ d)
                          else if a = ''9'' then Inr (9 * 10 ^ d)
                          else if a = ''0'' then Inr 0
                          else Inl \<lparr> err_info_error_data_message = Falsy,
                                     err_message = Str ''invalid FixedNumber string value'' \<rparr>),
       getSigner = Inr ''0xf0'',
       token_call = Inr ''0x70'',
       decimals_call = Inr 6,
       SEND_call = Inr 1,
       enforcedOptions_call = (\<lambda>eid msgType. Inr ''0x''),
       buildLzReceiveOptions = (\<lambda>gas v. ''0x0003''),
       combineOptions_call = (\<lambda>eid msgType opts. Inr opts),
       quoteSend_call = (\<lambda>sp. Inr \<lparr> nativeFee = 1000, lzTokenFee = 0 \<rparr>),
       send_call = (\<lambda>sp fee refund v. sendResult),
       getFeeData_call = Some \<lparr> fd_gasPrice = Some 7, fd_maxFeePerGas = None \<rparr>,
       sendTransaction_call = (\<lambda>raw. Inr ''0xaa'') \<rparr>"

definition sample_ui :: "string \<Rightarrow> send_ui" where
  "sample_ui amt =
     \<lparr> sourceNetwork = ''hii'', destNetwork = ''sepolia'', amount = amt,
       receiverAddress = ''0xbe'', tokenId = ''hnc'', account = ''0xf0'', has_ethereum = True,
       balanceWei = Some (5 * 10 ^ 18), balanceFormatted = ''5'' \<rparr>"

definition sample_param :: SendParam where
  "sample_param =
     \<lparr> dstEid = 40161, to_bytes32 = addressToBytes32 ''0xbe'',
       amountLD = 2 * 10 ^ 18, minAmountLD = 198 * 10 ^ 16, extraOptions = ''0x0003'',
       composeMsg = ''0x'', oftCmd = ''0x'' \<rparr>"

definition sample_error :: "string \<Rightarrow> js_error" where
  "sample_error msg = \<lparr> err_info_error_data_message = Falsy, err_message = Str msg \<rparr>"

definition sample_fee :: MessagingFee where
  "sample_fee = \<lparr> nativeFee = 1000, lzTokenFee = 0 \<rparr>"

text \<open>
  A chain for the on-chain route: block 100 on the destination, the given source receipt
  and the given logs; a log of the given event, sender and transaction hash.
\<close>

definition sample_onchain_env ::
  "chain_log list \<Rightarrow> chain_log list \<Rightarrow> receipt option \<Rightarrow> onchain_env" where
  "sample_onchain_env deliveredLogs verifiedLogs srcReceipt =
     \<lparr> oc_networkConfig = (\<lambda>key. Inr (sample_config key)),
       oc_tokens = [sample_token True],
       getTransactionReceipt = (\<lambda>h. srcReceipt),
       getBlockNumber = Inr 100,
       getLogs_delivered = (\<lambda>f t. Some deliveredLogs),
       getLogs_verified = (\<lambda>f t. Some verifiedLogs),
       getLogs_dvn = (\<lambda>f t. None) \<rparr>"

definition sample_body :: onchain_body where
  "sample_body =
     \<lparr> body_txHash = Some ''0xab'', body_sourceNetwork = Some ''hii'',
       body_destNetwork = Some ''sepolia'', body_tokenId = Some ''hnc'',
       body_scanWindow = None, body_includeDvn = False \<rparr>"

definition sample_log :: "string \<Rightarrow> string \<Rightarrow> string \<Rightarrow> chain_log" where
  "sample_log event from h =
     \<lparr> transactionHash = h,
       endpoint_parseLog = Parsed event (Some \<lparr> srcEid = 40161, sender = from, nonce = 7 \<rparr>)
                             (Some ''0xbe''),
       dvn_parseLog = DvnNull \<rparr>"

definition sample_sender :: string where
  "sample_sender = ''0x000000000000000000000000000000000000000000000000000000000000000F''"

text \<open>
  An environment of the server with the given aggregator user and password, and an
  upstream that answers every request with the given status.
\<close>

definition sample_process_env :: "string \<Rightarrow> string \<Rightarrow> process_env" where
  "sample_process_env user pass =
     [''STATUS_API_BASE'' \<mapsto> ''https://agg/v1'', ''STATUS_API_USERNAME'' \<mapsto> user,
      ''STATUS_API_PASSWORD'' \<mapsto> pass, ''NEXT_PUBLIC_HII_NAME'' \<mapsto> ''Hii'']"

definition sample_fetch :: "nat \<Rightarrow> string \<Rightarrow> string option \<Rightarrow> string upstream" where
  "sample_fetch status url auth = Upstream status ''body'' (Inr ''{}'')"

text \<open>The error that the sample runtime throws in \<open>Response.json\<close>.\<close>

definition sample_thrown :: "nat \<Rightarrow> js_error" where
  "sample_thrown status =
     \<lparr> err_info_error_data_message = Falsy, err_message = Str ''Invalid response status code'' \<rparr>"

section \<open>Properties of the rank\<close>

lemma indexOf_range: "indexOf xs x = -1 \<or> (0 \<le> indexOf xs x \<and> indexOf xs x < int (length xs))"
  by (induction xs) (auto simp: Let_def)

lemma indexOf_absent: "x \<notin> set xs \<Longrightarrow> indexOf xs x = -1"
  by (induction xs) (auto simp: Let_def)

lemma getStatusRank_range: "0 \<le> getStatusRank s \<and> getStatusRank s \<le> 5"
proof -
  have "length order = 6" by (simp add: order_def)
  with indexOf_range [of order "toLowerCase (or_str s ''unknown'')"]
  show ?thesis by (auto simp: getStatusRank_def Let_def)
qed

lemma getStatusRank_unlisted:
  "toLowerCase (or_str s ''unknown'') \<notin> set order \<Longrightarrow> getStatusRank s = 0"
  by (simp add: getStatusRank_def indexOf_absent)

lemma getStatusRank_inflight: "getStatusRank (Some ''inflight'') = 0"
  by (simp add: getStatusRank_def order_def toLowerCase_def toLowerCase_char_def or_str_def)

lemma getStatusRank_verified: "getStatusRank (Some ''verified'') = 0"
  by (simp add: getStatusRank_def order_def toLowerCase_def toLowerCase_char_def or_str_def)

lemma getStatusRank_absent: "getStatusRank None = 0"
  by (simp add: getStatusRank_def order_def toLowerCase_def toLowerCase_char_def or_str_def)

lemma getStatusRank_unknown: "getStatusRank (Some ''unknown'') = 0"
  by (simp add: getStatusRank_def order_def toLowerCase_def toLowerCase_char_def or_str_def)

lemma getStatusRank_sent: "getStatusRank (Some ''sent'') = 1"
  by (simp add: getStatusRank_def order_def toLowerCase_def toLowerCase_char_def or_str_def)

lemma getStatusRank_committed: "getStatusRank (Some ''committed'') = 3"
  by (simp add: getStatusRank_def order_def toLowerCase_def toLowerCase_char_def or_str_def)

lemma getStatusRank_executed: "getStatusRank (Some ''executed'') = 5"
  by (simp add: getStatusRank_def order_def toLowerCase_def toLowerCase_char_def or_str_def)

lemma getStatusRank_SENT: "getStatusRank (Some ''SENT'') = 1"
  by (simp add: getStatusRank_def order_def toLowerCase_def toLowerCase_char_def or_str_def)


section \<open>Properties of the poll merge\<close>

lemma lzRank_stageOnly: "lzRank (Some (stageOnly s)) = getStatusRank (Some s)"
  by (simp add: lzRank_def stageOnly_def)

lemma aggRank_statusOnly: "aggRank (Some (statusOnly s)) = getStatusRank (Some s)"
  by (simp add: aggRank_def statusOnly_def)

lemma stage_stageOnly: "stage (stageOnly s) = s"
  by (simp add: stageOnly_def)

lemma currentStatus_statusOnly: "currentStatus (statusOnly s) = Some s"
  by (simp add: statusOnly_def)

lemma stageOnly_eq: "(stageOnly s = stageOnly t) = (s = t)"
  by (auto simp: stageOnly_def)

lemma statusOnly_eq: "(statusOnly s = statusOnly t) = (s = t)"
  by (auto simp: statusOnly_def)

lemma aggRank_nonneg: "0 \<le> aggRank a"
  using getStatusRank_range by (simp add: aggRank_def)

lemma lzRank_nonneg: "0 \<le> lzRank l"
  using getStatusRank_range by (simp add: lzRank_def)

lemma aggRank_None: "aggRank None = 0"
  by (simp add: aggRank_def getStatusRank_absent)

lemma lzRank_None: "lzRank None = 0"
  by (simp add: lzRank_def getStatusRank_absent)

lemma aggUpdater_cases:
  "aggUpdater json prev = (if prev = None \<or> aggRank prev \<le> aggRank json then json else prev)"
  by (simp add: aggUpdater_def aggRank_def Let_def)

lemma lzUpdater_cases:
  "lzUpdater next prev =
     (if prev = None \<or> lzRank prev \<le> lzRank (Some next) then Some next else prev)"
  by (simp add: lzUpdater_def lzRank_def Let_def)

lemma aggUpdater_mono: "aggRank prev \<le> aggRank (aggUpdater json prev)"
  by (simp add: aggUpdater_cases aggRank_None aggRank_nonneg)

lemma lzUpdater_mono: "lzRank prev \<le> lzRank (lzUpdater next prev)"
  by (simp add: lzUpdater_cases lzRank_None lzRank_nonneg)

lemma lzKeep_Some: "lzKeep (Some p) = Some p"
  by (simp add: lzKeep_def)

lemma lzKeep_rank: "lzRank (lzKeep prev) = lzRank prev"
  by (cases prev)
    (simp_all add: lzKeep_def lzRank_def stageOnly_def getStatusRank_absent getStatusRank_unknown)

lemma tickAgg_lz: "lzWorkerStatus (tickAgg agg st) = lzWorkerStatus st"
  by (cases agg) (simp_all add: tickAgg_def)

lemma tickLz_agg: "aggStatus (tickLz lz st) = aggStatus st"
  by (cases lz) (simp_all add: tickLz_def)

lemma tickAgg_agg:
  "aggStatus (tickAgg agg st) =
     (case agg of Ok json \<Rightarrow> aggUpdater json (aggStatus st) | _ \<Rightarrow> aggStatus st)"
  by (cases agg) (simp_all add: tickAgg_def)

lemma tickLz_lz:
  "lzWorkerStatus (tickLz lz st) =
     (case lz of Ok json \<Rightarrow> lzUpdater (nextStatus json) (lzWorkerStatus st)
      | _ \<Rightarrow> lzKeep (lzWorkerStatus st))"
  by (cases lz) (simp_all add: tickLz_def)

lemma tick_agg:
  "aggStatus (tick agg lz st) =
     (case agg of Ok json \<Rightarrow> aggUpdater json (aggStatus st) | _ \<Rightarrow> aggStatus st)"
  by (simp add: tick_def tickLz_agg tickAgg_agg)

lemma tick_lz:
  "lzWorkerStatus (tick agg lz st) =
     (case lz of Ok json \<Rightarrow> lzUpdater (nextStatus json) (lzWorkerStatus st)
      | _ \<Rightarrow> lzKeep (lzWorkerStatus st))"
  by (cases lz) (simp_all add: tick_def tickLz_lz tickAgg_lz)

lemma tick_agg_mono: "aggRank (aggStatus st) \<le> aggRank (aggStatus (tick agg lz st))"
  by (cases agg) (simp_all add: tick_agg aggUpdater_mono)

lemma tick_lz_mono: "lzRank (lzWorkerStatus st) \<le> lzRank (lzWorkerStatus (tick agg lz st))"
  by (cases lz) (simp_all add: tick_lz lzUpdater_mono lzKeep_rank)

lemma ticks_agg_mono: "aggRank (aggStatus st) \<le> aggRank (aggStatus (ticks outcomes st))"
proof (induction outcomes arbitrary: st)
  case Nil
  show ?case by simp
next
  case (Cons o1 rest)
  obtain agg lz where o1: "o1 = (agg, lz)" by (cases o1)
  let ?st' = "if stopped st then st else tick agg lz st"
  have "aggRank (aggStatus st) \<le> aggRank (aggStatus ?st')"
    by (simp add: tick_agg_mono)
  also have "\<dots> \<le> aggRank (aggStatus (ticks rest ?st'))"
    by (rule Cons.IH)
  finally show ?case by (simp add: o1)
qed

lemma ticks_lz_mono: "lzRank (lzWorkerStatus st) \<le> lzRank (lzWorkerStatus (ticks outcomes st))"
proof (induction outcomes arbitrary: st)
  case Nil
  show ?case by simp
next
  case (Cons o1 rest)
  obtain agg lz where o1: "o1 = (agg, lz)" by (cases o1)
  let ?st' = "if stopped st then st else tick agg lz st"
  have "lzRank (lzWorkerStatus st) \<le> lzRank (lzWorkerStatus ?st')"
    by (simp add: tick_lz_mono)
  also have "\<dots> \<le> lzRank (lzWorkerStatus (ticks rest ?st'))"
    by (rule Cons.IH)
  finally show ?case by (simp add: o1)
qed

lemma tick_agg_replaced:
  "aggStatus (tick agg lz st) \<noteq> aggStatus st \<Longrightarrow>
     \<exists>json. agg = Ok json \<and> aggStatus (tick agg lz st) = json
          \<and> aggRank (aggStatus st) \<le> aggRank json"
  by (cases agg) (auto simp: tick_agg aggUpdater_cases aggRank_None aggRank_nonneg split: if_splits)

lemma tick_lz_replaced:
  "lzWorkerStatus st = Some p \<Longrightarrow> lzWorkerStatus (tick agg lz st) \<noteq> Some p \<Longrightarrow>
     \<exists>json. lz = Ok json \<and> lzWorkerStatus (tick agg lz st) = Some (nextStatus json)
          \<and> lzRank (Some p) \<le> lzRank (Some (nextStatus json))"
  by (cases lz) (auto simp: tick_lz lzUpdater_cases lzKeep_Some split: if_splits)

lemma tick_agg_failed: "failed agg \<Longrightarrow> aggStatus (tick agg lz st) = aggStatus st"
  by (cases agg) (simp_all add: tick_agg failed_def)

lemma tick_lz_failed: "failed lz \<Longrightarrow> lzWorkerStatus (tick agg lz st) = lzKeep (lzWorkerStatus st)"
  by (cases lz) (simp_all add: tick_lz failed_def)


text \<open>
  Each slot on its own is merged by rank. The rank of what a slot holds never decreases,
  over one tick and over any run of the poll loop. A tick changes the aggregator slot only
  to a decoded answer whose rank is at least the previous rank, and changes a worker status
  only to the status built from a decoded answer whose rank is at least the previous rank.
  A fetch that fails (the fetch throws, the response is not ok, or decoding throws) leaves
  the aggregator slot as it was and leaves a worker status as it was; where the worker slot
  was empty it puts the placeholder of stage \<open>unknown\<close>, of the same rank 0.
\<close>

lemma slot_merge_monotone:
  "aggRank (aggStatus st) \<le> aggRank (aggStatus (ticks outcomes st))
   \<and> lzRank (lzWorkerStatus st) \<le> lzRank (lzWorkerStatus (ticks outcomes st))
   \<and> aggRank (aggStatus st) \<le> aggRank (aggStatus (tick agg lz st))
   \<and> lzRank (lzWorkerStatus st) \<le> lzRank (lzWorkerStatus (tick agg lz st))
   \<and> (aggStatus (tick agg lz st) \<noteq> aggStatus st \<longrightarrow>
        (\<exists>json. agg = Ok json \<and> aggStatus (tick agg lz st) = json
           \<and> aggRank (aggStatus st) \<le> aggRank json))
   \<and> (lzWorkerStatus st = Some p \<and> lzWorkerStatus (tick agg lz st) \<noteq> Some p \<longrightarrow>
        (\<exists>json. lz = Ok json \<and> lzWorkerStatus (tick agg lz st) = Some (nextStatus json)
           \<and> lzRank (Some p) \<le> lzRank (Some (nextStatus json))))
   \<and> (failed agg \<longrightarrow> aggStatus (tick agg lz st) = aggStatus st)
   \<and> (failed lz \<and> lzWorkerStatus st = Some p \<longrightarrow> lzWorkerStatus (tick agg lz st) = Some p)
   \<and> (failed lz \<longrightarrow> lzRank (lzWorkerStatus (tick agg lz st)) = lzRank (lzWorkerStatus st))"
proof -
  have replaced_agg: "aggStatus (tick agg lz st) \<noteq> aggStatus st \<longrightarrow>
        (\<exists>json. agg = Ok json \<and> aggStatus (tick agg lz st) = json
           \<and> aggRank (aggStatus st) \<le> aggRank json)"
    using tick_agg_replaced by blast
  have replaced_lz: "lzWorkerStatus st = Some p \<and> lzWorkerStatus (tick agg lz st) \<noteq> Some p \<longrightarrow>
        (\<exists>json. lz = Ok json \<and> lzWorkerStatus (tick agg lz st) = Some (nextStatus json)
           \<and> lzRank (Some p) \<le> lzRank (Some (nextStatus json)))"
    using tick_lz_replaced by blast
  have failed_agg: "failed agg \<longrightarrow> aggStatus (tick agg lz st) = aggStatus st"
    by (simp add: tick_agg_failed)
  have failed_lz: "failed lz \<and> lzWorkerStatus st = Some p \<longrightarrow>
      lzWorkerStatus (tick agg lz st) = Some p"
    by (simp add: tick_lz_failed lzKeep_Some)
  have failed_lz_rank: "failed lz \<longrightarrow>
      lzRank (lzWorkerStatus (tick agg lz st)) = lzRank (lzWorkerStatus st)"
    by (simp add: tick_lz_failed lzKeep_rank)
  from ticks_agg_mono ticks_lz_mono tick_agg_mono tick_lz_mono
    replaced_agg replaced_lz failed_agg failed_lz failed_lz_rank
  show ?thesis by blast
qed

text \<open>
  When both fetches of a tick fail, the stage shown stays as it was: the placeholder put
  into an empty worker slot reads \<open>unknown\<close>, as the empty slot does.
\<close>

lemma shownStage_failed:
  "failed agg \<Longrightarrow> failed lz \<Longrightarrow> shownStage (tick agg lz st) = shownStage st"
  by (cases "lzWorkerStatus st")
    (simp_all add: shownStage_def tick_agg_failed tick_lz_failed lzKeep_def stage_stageOnly
      or_str_def)

lemma getStatusRank_dvn_verifying: "getStatusRank (Some ''dvn_verifying'') = 2"
  by (simp add: getStatusRank_def order_def or_str_def toLowerCase_def toLowerCase_char_def)

lemma nextStatus_stageJson: "nextStatus (Some (stageJson s)) = stageOnly (or_str (Some s) ''unknown'')"
  by (simp add: nextStatus_def stageJson_def stageOnly_def or_null_def truthy_def)

lemma first_period:
  "tick NotOk (Ok (Some (stageJson ''executed''))) initialState
     = \<lparr> aggStatus = None, lzWorkerStatus = Some (stageOnly ''executed''), stopped = False \<rparr>"
  by (simp add: tick_def tickAgg_def tickLz_def initialState_def lzUpdater_cases
      nextStatus_stageJson or_str_def)

lemma second_period:
  "tick (Ok (Some (statusOnly ''dvn_verifying''))) (Ok (Some (stageJson ''executed'')))
       \<lparr> aggStatus = None, lzWorkerStatus = Some (stageOnly ''executed''), stopped = False \<rparr>
     = \<lparr> aggStatus = Some (statusOnly ''dvn_verifying''),
         lzWorkerStatus = Some (stageOnly ''executed''), stopped = False \<rparr>"
  by (simp add: tick_def tickAgg_def tickLz_def lzUpdater_cases aggUpdater_cases
      nextStatus_stageJson or_str_def currentStatus_statusOnly)

text \<open>
  Claim C1 is about the stage that is published for the transfer, and the page shows one
  stage from the two slots: the aggregator status when there is one, the worker stage
  otherwise. The slots are merged by rank each on its own and never with each other, so
  the stage shown can go back. In the first period the aggregator route refuses the
  request (it answers 404 while the aggregator does not know the transaction yet) and the
  on-chain route answers \<open>executed\<close>: the page shows \<open>executed\<close>, of rank 5, and the loop
  goes on. In the second period the aggregator answers \<open>dvn_verifying\<close>: the page shows
  \<open>dvn_verifying\<close>, of rank 2, although neither slot went back.
\<close>

theorem shown_stage_regresses:
  "shownStage (ticks [(NotOk, Ok (Some (stageJson ''executed'')))] initialState) = ''executed''
   \<and> shownStage
       (ticks [(NotOk, Ok (Some (stageJson ''executed''))),
               (Ok (Some (statusOnly ''dvn_verifying'')), Ok (Some (stageJson ''executed'')))]
          initialState) = ''dvn_verifying''
   \<and> getStatusRank (Some ''executed'') = 5
   \<and> getStatusRank (Some ''dvn_verifying'') = 2"
proof -
  have i: "\<not> stopped initialState" by (simp add: initialState_def)
  have a: "ticks [(NotOk, Ok (Some (stageJson ''executed'')))] initialState
      = \<lparr> aggStatus = None, lzWorkerStatus = Some (stageOnly ''executed''), stopped = False \<rparr>"
    by (simp add: i first_period)
  have b: "ticks [(NotOk, Ok (Some (stageJson ''executed''))),
               (Ok (Some (statusOnly ''dvn_verifying'')), Ok (Some (stageJson ''executed'')))]
          initialState
      = \<lparr> aggStatus = Some (statusOnly ''dvn_verifying''),
          lzWorkerStatus = Some (stageOnly ''executed''), stopped = False \<rparr>"
    by (simp add: i first_period second_period)
  show ?thesis
    unfolding a b
    by (simp add: shownStage_def stage_stageOnly currentStatus_statusOnly or_str_def
        getStatusRank_executed getStatusRank_dvn_verifying)
qed


section \<open>Order of merging\<close>

lemma lzUpdater_idem: "lzUpdater s (lzUpdater s prev) = lzUpdater s prev"
  by (simp add: lzUpdater_cases)

lemma aggUpdater_idem: "aggUpdater json (aggUpdater json prev) = aggUpdater json prev"
  by (cases json) (auto simp: aggUpdater_cases aggRank_None dest: antisym)

text \<open>
  Both updaters have one shape: the new status is taken when its rank is at least the rank
  of what the slot holds (an empty slot has rank 0, the least rank). The lemmas that
  follow are about any updater \<open>f\<close> of this shape, with \<open>g\<close> the status as the slot holds
  it and \<open>r\<close> the rank.
\<close>

lemma lzUpdater_step: "lzUpdater x p = (if lzRank p \<le> lzRank (Some x) then Some x else p)"
  using lzRank_nonneg [of "Some x"] by (cases p) (simp_all add: lzUpdater_cases lzRank_None)

lemma aggUpdater_step: "aggUpdater x p = (if aggRank p \<le> aggRank x then x else p)"
  using aggRank_nonneg [of x] by (cases p) (simp_all add: aggUpdater_cases aggRank_None)

lemma merge_in:
  fixes r :: "'a \<Rightarrow> int"
  assumes step: "\<And>x p. f x p = (if r p \<le> r (g x) then g x else p)"
  shows "fold f xs p = p \<or> (\<exists>x\<in>set xs. fold f xs p = g x)"
proof (induction xs arbitrary: p)
  case Nil
  show ?case by simp
next
  case (Cons x xs)
  have "f x p = p \<or> f x p = g x" by (simp add: step)
  with Cons.IH [of "f x p"] show ?case by auto
qed

lemma merge_rank_Max:
  fixes r :: "'a \<Rightarrow> int"
  assumes step: "\<And>x p. f x p = (if r p \<le> r (g x) then g x else p)"
  shows "r (fold f xs p) = Max (insert (r p) ((\<lambda>x. r (g x)) ` set xs))"
proof (induction xs arbitrary: p)
  case Nil
  show ?case by simp
next
  case (Cons x xs)
  let ?S = "(\<lambda>x. r (g x)) ` set xs"
  have fin: "finite ?S" by simp
  have m: "r (f x p) = max (r (g x)) (r p)" by (simp add: step max_def)
  have "r (fold f (x # xs) p) = Max (insert (max (r (g x)) (r p)) ?S)"
    using Cons.IH [of "f x p"] by (simp add: m)
  also have "\<dots> = Max (insert (r p) (insert (r (g x)) ?S))"
    using fin by (cases "?S = {}") (simp_all add: max.commute max.left_commute)
  finally show ?case by simp
qed

lemma merge_bounds:
  fixes r :: "'a \<Rightarrow> int"
  assumes step: "\<And>x p. f x p = (if r p \<le> r (g x) then g x else p)"
  shows "r p \<le> r (fold f xs p)" and "x \<in> set xs \<Longrightarrow> r (g x) \<le> r (fold f xs p)"
  by (simp_all add: merge_rank_Max [of f r g, OF step])

lemma merge_last:
  fixes r :: "'a \<Rightarrow> int"
  assumes step: "\<And>x p. f x p = (if r p \<le> r (g x) then g x else p)"
    and below: "\<forall>z\<in>set ys. r (g z) \<le> r (g x)"
    and start: "r p \<le> r (g x)"
  shows "fold f (ys @ [x]) p = g x"
proof -
  from merge_in [of f r g ys p, OF step] below start have "r (fold f ys p) \<le> r (g x)"
    by auto
  then show ?thesis by (simp add: step)
qed

lemma merge_keep:
  fixes r :: "'a \<Rightarrow> int"
  assumes step: "\<And>x p. f x p = (if r p \<le> r (g x) then g x else p)"
    and lower: "\<forall>x\<in>set xs. r (g x) < r p"
  shows "fold f xs p = p"
  using lower by (induction xs) (simp_all add: step)

lemma merge_top:
  fixes r :: "'a \<Rightarrow> int"
  assumes step: "\<And>x p. f x p = (if r p \<le> r (g x) then g x else p)"
    and some: "\<exists>x\<in>set xs. r p \<le> r (g x)"
  shows "\<exists>x\<in>set xs. fold f xs p = g x"
  using some
proof (induction xs arbitrary: p)
  case Nil
  then show ?case by simp
next
  case (Cons x xs)
  show ?case
  proof (cases "r p \<le> r (g x)")
    case True
    then have fx: "f x p = g x" by (simp add: step)
    from merge_in [of f r g xs "g x", OF step] show ?thesis by (auto simp: fx)
  next
    case False
    then have fx: "f x p = p" by (simp add: step)
    from False Cons.prems have "\<exists>y\<in>set xs. r p \<le> r (g y)" by auto
    from Cons.IH [OF this] show ?thesis by (auto simp: fx)
  qed
qed

lemma merge_order_iff:
  fixes r :: "'a \<Rightarrow> int"
  assumes step: "\<And>x p. f x p = (if r p \<le> r (g x) then g x else p)"
  shows "(\<forall>zs. mset zs = mset xs \<longrightarrow> st (fold f zs p) = st (fold f xs p))
       \<longleftrightarrow> (\<forall>x\<in>set xs. \<forall>y\<in>set xs.
              r (g x) = r (fold f xs p) \<and> r (g y) = r (fold f xs p) \<longrightarrow> st (g x) = st (g y))"
    (is "?same \<longleftrightarrow> ?cond")
proof
  assume same: ?same
  have last: "st (g x) = st (fold f xs p)" if x: "x \<in> set xs" and top: "r (g x) = r (fold f xs p)" for x
  proof -
    let ?zs = "remove1 x xs @ [x]"
    from x have perm: "mset ?zs = mset xs" by simp
    have "\<forall>z\<in>set (remove1 x xs). r (g z) \<le> r (g x)"
    proof
      fix z assume "z \<in> set (remove1 x xs)"
      then have "z \<in> set xs" using set_remove1_subset [of x xs] by (rule rev_subsetD)
      then show "r (g z) \<le> r (g x)" unfolding top by (rule merge_bounds(2) [of f r g, OF step])
    qed
    moreover have "r p \<le> r (g x)" unfolding top by (rule merge_bounds(1) [of f r g, OF step])
    ultimately have "fold f ?zs p = g x" by (rule merge_last [of f r g, OF step])
    with same perm show ?thesis by metis
  qed
  show ?cond
  proof (intro ballI impI)
    fix x y assume "x \<in> set xs" "y \<in> set xs"
      and "r (g x) = r (fold f xs p) \<and> r (g y) = r (fold f xs p)"
    then have "st (g x) = st (fold f xs p)" "st (g y) = st (fold f xs p)"
      by (simp_all add: last)
    then show "st (g x) = st (g y)" by simp
  qed
next
  assume cond: ?cond
  show ?same
  proof (intro allI impI)
    fix zs assume perm: "mset zs = mset xs"
    then have sets: "set zs = set xs" by (rule mset_eq_setD)
    have rk: "r (fold f zs p) = r (fold f xs p)"
      by (simp only: merge_rank_Max [of f r g, OF step] sets)
    show "st (fold f zs p) = st (fold f xs p)"
    proof (cases "\<exists>x\<in>set xs. r p \<le> r (g x)")
      case True
      from merge_top [of f r g xs p, OF step True]
      obtain a where a: "a \<in> set xs" "fold f xs p = g a" by auto
      from True sets have "\<exists>x\<in>set zs. r p \<le> r (g x)" by simp
      from merge_top [of f r g zs p, OF step this] sets
      obtain b where b: "b \<in> set xs" "fold f zs p = g b" by auto
      from a b rk have "r (g b) = r (fold f xs p) \<and> r (g a) = r (fold f xs p)" by simp
      with cond a(1) b(1) have "st (g b) = st (g a)" by blast
      with a b show ?thesis by simp
    next
      case False
      then have low: "\<forall>x\<in>set xs. r (g x) < r p" by auto
      with sets have "\<forall>x\<in>set zs. r (g x) < r p" by simp
      then have "fold f zs p = p" by (rule merge_keep [of f r g, OF step])
      moreover from low have "fold f xs p = p" by (rule merge_keep [of f r g, OF step])
      ultimately show ?thesis by simp
    qed
  qed
qed

lemma lzUpdater_lower: "lzRank (Some s) < lzRank prev \<Longrightarrow> lzUpdater s prev = prev"
  by (simp add: lzUpdater_step)

lemma aggUpdater_lower: "aggRank json < aggRank prev \<Longrightarrow> aggUpdater json prev = prev"
  by (simp add: aggUpdater_step)

lemma lzUpdater_replaces: "lzRank prev \<le> lzRank (Some s) \<Longrightarrow> lzUpdater s prev = Some s"
  by (simp add: lzUpdater_step)

lemma aggUpdater_replaces: "aggRank prev \<le> aggRank json \<Longrightarrow> aggUpdater json prev = json"
  by (simp add: aggUpdater_step)

lemma fold_lzUpdater_Max:
  "lzRank (fold lzUpdater xs prev)
     = Max (insert (lzRank prev) ((\<lambda>x. lzRank (Some x)) ` set xs))"
  by (rule merge_rank_Max [of lzUpdater lzRank Some]) (rule lzUpdater_step)

lemma fold_aggUpdater_Max:
  "aggRank (fold aggUpdater js prev) = Max (insert (aggRank prev) (aggRank ` set js))"
  by (rule merge_rank_Max [of aggUpdater aggRank "\<lambda>x. x"]) (rule aggUpdater_step)

lemma fold_lzUpdater_perm_rank:
  assumes "mset ys = mset xs"
  shows "lzRank (fold lzUpdater ys prev) = lzRank (fold lzUpdater xs prev)"
proof -
  from assms have "set ys = set xs" by (rule mset_eq_setD)
  then show ?thesis by (simp only: fold_lzUpdater_Max)
qed

lemma fold_aggUpdater_perm_rank:
  assumes "mset ks = mset js"
  shows "aggRank (fold aggUpdater ks prev) = aggRank (fold aggUpdater js prev)"
proof -
  from assms have "set ks = set js" by (rule mset_eq_setD)
  then show ?thesis by (simp only: fold_aggUpdater_Max)
qed

lemma fold_lzUpdater_stage_iff:
  "(\<forall>zs. mset zs = mset xs \<longrightarrow>
       map_option stage (fold lzUpdater zs prev) = map_option stage (fold lzUpdater xs prev))
   = (\<forall>x\<in>set xs. \<forall>y\<in>set xs.
        lzRank (Some x) = lzRank (fold lzUpdater xs prev)
        \<and> lzRank (Some y) = lzRank (fold lzUpdater xs prev) \<longrightarrow> stage x = stage y)"
  using merge_order_iff [of lzUpdater lzRank Some xs "map_option stage" prev, OF lzUpdater_step]
  by (simp only: option.map option.inject)

lemma fold_aggUpdater_status_iff:
  "(\<forall>zs. mset zs = mset js \<longrightarrow>
       Option.bind (fold aggUpdater zs prev) currentStatus
         = Option.bind (fold aggUpdater js prev) currentStatus)
   = (\<forall>x\<in>set js. \<forall>y\<in>set js.
        aggRank x = aggRank (fold aggUpdater js prev)
        \<and> aggRank y = aggRank (fold aggUpdater js prev) \<longrightarrow>
        Option.bind x currentStatus = Option.bind y currentStatus)"
  by (rule merge_order_iff [of aggUpdater aggRank "\<lambda>x. x" js
        "\<lambda>a. Option.bind a currentStatus" prev, OF aggUpdater_step])

text \<open>
  Claim C4, as the claim states it, fails: two statuses of the same rank replace each
  other, so the last one merged is published. The on-chain route answers \<open>verified\<close> and
  \<open>inflight\<close>, both of rank 0; merged in the two orders into an empty slot they leave
  two different stages.
\<close>

theorem merge_order_counterexample:
  "mset [stageOnly ''verified'', stageOnly ''inflight'']
     = mset [stageOnly ''inflight'', stageOnly ''verified'']
   \<and> map_option stage (fold lzUpdater [stageOnly ''verified'', stageOnly ''inflight''] None)
     = Some ''inflight''
   \<and> map_option stage (fold lzUpdater [stageOnly ''inflight'', stageOnly ''verified''] None)
     = Some ''verified''"
  by (simp add: lzUpdater_cases lzRank_stageOnly getStatusRank_inflight getStatusRank_verified
      stage_stageOnly)

text \<open>
  Claim C4, amended. The rank merge of each slot is idempotent. Merging a status of
  strictly lower rank than the published one leaves the published status as it was, and
  a status of equal or higher rank replaces it. Merging any sequence of fetched statuses,
  in any order, gives the same final published rank, which is the highest rank among the
  statuses merged and the one published before. The final published stage is the same in
  every order exactly when the merged statuses that have this highest rank all carry the
  same stage.
\<close>

theorem rank_merge_idempotent_order:
  "lzUpdater s (lzUpdater s prev) = lzUpdater s prev
   \<and> aggUpdater json (aggUpdater json aprev) = aggUpdater json aprev
   \<and> (lzRank (Some s) < lzRank prev \<longrightarrow> lzUpdater s prev = prev)
   \<and> (aggRank json < aggRank aprev \<longrightarrow> aggUpdater json aprev = aprev)
   \<and> (lzRank prev \<le> lzRank (Some s) \<longrightarrow> lzUpdater s prev = Some s)
   \<and> (aggRank aprev \<le> aggRank json \<longrightarrow> aggUpdater json aprev = json)
   \<and> lzRank (fold lzUpdater xs prev)
       = Max (insert (lzRank prev) ((\<lambda>x. lzRank (Some x)) ` set xs))
   \<and> aggRank (fold aggUpdater js aprev) = Max (insert (aggRank aprev) (aggRank ` set js))
   \<and> (mset ys = mset xs \<longrightarrow>
        lzRank (fold lzUpdater ys prev) = lzRank (fold lzUpdater xs prev))
   \<and> (mset ks = mset js \<longrightarrow>
        aggRank (fold aggUpdater ks aprev) = aggRank (fold aggUpdater js aprev))
   \<and> ((\<forall>zs. mset zs = mset xs \<longrightarrow>
          map_option stage (fold lzUpdater zs prev) = map_option stage (fold lzUpdater xs prev))
      = (\<forall>x\<in>set xs. \<forall>y\<in>set xs.
           lzRank (Some x) = lzRank (fold lzUpdater xs prev)
           \<and> lzRank (Some y) = lzRank (fold lzUpdater xs prev) \<longrightarrow> stage x = stage y))
   \<and> ((\<forall>zs. mset zs = mset js \<longrightarrow>
          Option.bind (fold aggUpdater zs aprev) currentStatus
            = Option.bind (fold aggUpdater js aprev) currentStatus)
      = (\<forall>x\<in>set js. \<forall>y\<in>set js.
           aggRank x = aggRank (fold aggUpdater js aprev)
           \<and> aggRank y = aggRank (fold aggUpdater js aprev) \<longrightarrow>
           Option.bind x currentStatus = Option.bind y currentStatus))"
  (is "?i1 \<and> ?i2 \<and> ?l1 \<and> ?l2 \<and> ?r1 \<and> ?r2 \<and> ?m1 \<and> ?m2 \<and> ?p1 \<and> ?p2 \<and> ?s1 \<and> ?s2")
proof -
  have i1: ?i1 by (rule lzUpdater_idem)
  have i2: ?i2 by (rule aggUpdater_idem)
  have l1: ?l1 by (rule impI) (rule lzUpdater_lower)
  have l2: ?l2 by (rule impI) (rule aggUpdater_lower)
  have r1: ?r1 by (rule impI) (rule lzUpdater_replaces)
  have r2: ?r2 by (rule impI) (rule aggUpdater_replaces)
  have m1: ?m1 by (rule fold_lzUpdater_Max)
  have m2: ?m2 by (rule fold_aggUpdater_Max)
  have p1: ?p1 by (rule impI) (rule fold_lzUpdater_perm_rank)
  have p2: ?p2 by (rule impI) (rule fold_aggUpdater_perm_rank)
  have s1: ?s1 by (rule fold_lzUpdater_stage_iff)
  have s2: ?s2 by (rule fold_aggUpdater_status_iff)
  show ?thesis
    apply (intro conjI)
               apply (rule i1)
              apply (rule i2)
             apply (rule l1)
            apply (rule l2)
           apply (rule r1)
          apply (rule r2)
         apply (rule m1)
        apply (rule m2)
       apply (rule p1)
      apply (rule p2)
     apply (rule s1)
    apply (rule s2)
    done
qed

text \<open>
  At concrete statuses: \<open>inflight\<close> merged after \<open>executed\<close> and \<open>sent\<close> merged after
  \<open>executed\<close> change nothing; \<open>inflight\<close> merged after \<open>verified\<close>, of the same rank,
  replaces it; \<open>sent\<close> and \<open>executed\<close> merged in both orders give the same rank and stage;
  \<open>verified\<close> and \<open>inflight\<close>, both of the highest rank merged, do not give the same stage
  in every order.
\<close>

lemma fold_sent_executed:
  "fold lzUpdater [stageOnly ''sent'', stageOnly ''executed''] None = Some (stageOnly ''executed'')"
  by (simp add: lzUpdater_step lzRank_stageOnly lzRank_None getStatusRank_sent
      getStatusRank_executed)

lemma fold_agg_sent_executed:
  "fold aggUpdater [Some (statusOnly ''sent''), Some (statusOnly ''executed'')] None
     = Some (statusOnly ''executed'')"
  by (simp add: aggUpdater_step aggRank_statusOnly aggRank_None getStatusRank_sent
      getStatusRank_executed)

lemma fold_verified_inflight:
  "fold lzUpdater [stageOnly ''verified'', stageOnly ''inflight''] None
     = Some (stageOnly ''inflight'')"
  by (simp add: lzUpdater_step lzRank_stageOnly lzRank_None getStatusRank_inflight
      getStatusRank_verified)

theorem rank_merge_idempotent_order_witness:
  "lzRank (Some (stageOnly ''inflight'')) < lzRank (Some (stageOnly ''executed''))
   \<and> lzUpdater (stageOnly ''inflight'') (Some (stageOnly ''executed''))
       = Some (stageOnly ''executed'')
   \<and> aggRank (Some (statusOnly ''sent'')) < aggRank (Some (statusOnly ''executed''))
   \<and> aggUpdater (Some (statusOnly ''sent'')) (Some (statusOnly ''executed''))
       = Some (statusOnly ''executed'')
   \<and> lzRank (Some (stageOnly ''verified'')) \<le> lzRank (Some (stageOnly ''inflight''))
   \<and> lzUpdater (stageOnly ''inflight'') (Some (stageOnly ''verified''))
       = Some (stageOnly ''inflight'')
   \<and> aggRank (Some (statusOnly ''sent'')) \<le> aggRank (Some (statusOnly ''executed''))
   \<and> aggUpdater (Some (statusOnly ''executed'')) (Some (statusOnly ''sent''))
       = Some (statusOnly ''executed'')
   \<and> mset [stageOnly ''executed'', stageOnly ''sent'']
       = mset [stageOnly ''sent'', stageOnly ''executed'']
   \<and> lzRank (fold lzUpdater [stageOnly ''executed'', stageOnly ''sent''] None)
       = lzRank (fold lzUpdater [stageOnly ''sent'', stageOnly ''executed''] None)
   \<and> map_option stage (fold lzUpdater [stageOnly ''executed'', stageOnly ''sent''] None)
       = map_option stage (fold lzUpdater [stageOnly ''sent'', stageOnly ''executed''] None)
   \<and> mset [Some (statusOnly ''executed''), Some (statusOnly ''sent'')]
       = mset [Some (statusOnly ''sent''), Some (statusOnly ''executed'')]
   \<and> aggRank (fold aggUpdater [Some (statusOnly ''executed''), Some (statusOnly ''sent'')] None)
       = aggRank (fold aggUpdater [Some (statusOnly ''sent''), Some (statusOnly ''executed'')] None)
   \<and> Option.bind
         (fold aggUpdater [Some (statusOnly ''executed''), Some (statusOnly ''sent'')] None)
         currentStatus
       = Option.bind
         (fold aggUpdater [Some (statusOnly ''sent''), Some (statusOnly ''executed'')] None)
         currentStatus
   \<and> \<not> (\<forall>zs. mset zs = mset [stageOnly ''verified'', stageOnly ''inflight''] \<longrightarrow>
          map_option stage (fold lzUpdater zs None)
            = map_option stage
                (fold lzUpdater [stageOnly ''verified'', stageOnly ''inflight''] None))"
  (is "?l1 \<and> ?l2 \<and> ?a1 \<and> ?a2 \<and> ?e1 \<and> ?e2 \<and> ?f1 \<and> ?f2 \<and> ?pl \<and> ?rl \<and> ?sl
       \<and> ?pa \<and> ?ra \<and> ?sa \<and> ?no")
proof -
  let ?xs = "[stageOnly ''sent'', stageOnly ''executed'']"
  let ?ys = "[stageOnly ''executed'', stageOnly ''sent'']"
  let ?js = "[Some (statusOnly ''sent''), Some (statusOnly ''executed'')]"
  let ?ks = "[Some (statusOnly ''executed''), Some (statusOnly ''sent'')]"
  let ?vs = "[stageOnly ''verified'', stageOnly ''inflight'']"
  note lower = rank_merge_idempotent_order [where s = "stageOnly ''inflight''"
      and prev = "Some (stageOnly ''executed'')" and json = "Some (statusOnly ''sent'')"
      and aprev = "Some (statusOnly ''executed'')" and xs = ?xs and ys = ?ys and js = ?js
      and ks = ?ks]
  note equal = rank_merge_idempotent_order [where s = "stageOnly ''inflight''"
      and prev = "Some (stageOnly ''verified'')" and json = "Some (statusOnly ''executed'')"
      and aprev = "Some (statusOnly ''sent'')" and xs = ?xs and ys = ?ys and js = ?js
      and ks = ?ks]
  note perm = rank_merge_idempotent_order [where s = "stageOnly ''inflight''"
      and prev = None and json = "Some (statusOnly ''sent'')" and aprev = None
      and xs = ?xs and ys = ?ys and js = ?js and ks = ?ks]
  note tie = rank_merge_idempotent_order [where s = "stageOnly ''inflight''"
      and prev = None and json = "Some (statusOnly ''sent'')" and aprev = None
      and xs = ?vs and ys = ?vs and js = ?js and ks = ?ks]
  note rest2 = conjunct2 [THEN conjunct2]
  note rest4 = rest2 [THEN rest2]
  note rest8 = rest4 [THEN rest4]
  have l1: ?l1
    by (simp add: lzRank_stageOnly getStatusRank_inflight getStatusRank_executed)
  have a1: ?a1
    by (simp add: aggRank_statusOnly getStatusRank_sent getStatusRank_executed)
  have e1: ?e1
    by (simp add: lzRank_stageOnly getStatusRank_inflight getStatusRank_verified)
  have f1: ?f1
    by (simp add: aggRank_statusOnly getStatusRank_sent getStatusRank_executed)
  have pl: ?pl by simp
  have pa: ?pa by simp
  from l1 have l2: ?l2 by (rule lower [THEN rest2, THEN conjunct1, THEN mp])
  from a1 have a2: ?a2 by (rule lower [THEN rest2, THEN conjunct2, THEN conjunct1, THEN mp])
  from e1 have e2: ?e2 by (rule equal [THEN rest4, THEN conjunct1, THEN mp])
  from f1 have f2: ?f2 by (rule equal [THEN rest4, THEN conjunct2, THEN conjunct1, THEN mp])
  from pl have rl: ?rl by (rule perm [THEN rest8, THEN conjunct1, THEN mp])
  from pa have ra: ?ra by (rule perm [THEN rest8, THEN conjunct2, THEN conjunct1, THEN mp])
  have cl: "\<forall>x\<in>set ?xs. \<forall>y\<in>set ?xs.
      lzRank (Some x) = lzRank (fold lzUpdater ?xs None)
      \<and> lzRank (Some y) = lzRank (fold lzUpdater ?xs None) \<longrightarrow> stage x = stage y"
    unfolding fold_sent_executed
    by (simp add: lzRank_stageOnly getStatusRank_sent getStatusRank_executed)
  from cl have "\<forall>zs. mset zs = mset ?xs \<longrightarrow>
      map_option stage (fold lzUpdater zs None) = map_option stage (fold lzUpdater ?xs None)"
    by (rule perm [THEN rest8, THEN rest2, THEN conjunct1, THEN iffD2])
  with pl have sl: ?sl by (elim allE [of _ ?ys] impE)
  have ca: "\<forall>x\<in>set ?js. \<forall>y\<in>set ?js.
      aggRank x = aggRank (fold aggUpdater ?js None)
      \<and> aggRank y = aggRank (fold aggUpdater ?js None) \<longrightarrow>
      Option.bind x currentStatus = Option.bind y currentStatus"
    unfolding fold_agg_sent_executed
    by (simp add: aggRank_statusOnly getStatusRank_sent getStatusRank_executed)
  from ca have "\<forall>zs. mset zs = mset ?js \<longrightarrow>
      Option.bind (fold aggUpdater zs None) currentStatus
        = Option.bind (fold aggUpdater ?js None) currentStatus"
    by (rule perm [THEN rest8, THEN rest2, THEN conjunct2, THEN iffD2])
  with pa have sa: ?sa by (elim allE [of _ ?ks] impE)
  have "\<not> (\<forall>x\<in>set ?vs. \<forall>y\<in>set ?vs.
      lzRank (Some x) = lzRank (fold lzUpdater ?vs None)
      \<and> lzRank (Some y) = lzRank (fold lzUpdater ?vs None) \<longrightarrow> stage x = stage y)"
    unfolding fold_verified_inflight
    by (simp add: lzRank_stageOnly getStatusRank_inflight getStatusRank_verified
        stage_stageOnly)
  then have no: ?no
    unfolding tie [THEN rest8, THEN rest2, THEN conjunct1] .
  show ?thesis by (intro conjI l1 l2 a1 a2 e1 e2 f1 f2 pl rl sl pa ra sa no)
qed

section \<open>The rank function and the stages of the on-chain route\<close>

text \<open>
  Claim C10, as the claim states it, fails: the rank lower-cases the name before it looks
  it up, so a name outside the list can have a rank above 0. \<open>SENT\<close> is not in the list
  and has rank 1.
\<close>

theorem rank_unlisted_counterexample:
  "''SENT'' \<notin> set order \<and> getStatusRank (Some ''SENT'') = 1"
  by (simp add: order_def getStatusRank_SENT)

text \<open>
  Claim C10, amended. The rank is a number from 0 to 5 for every input, absent ones
  included. A name whose lower-case form is not in the list has rank 0 (the lookup
  ignores case). The stages \<open>inflight\<close> and \<open>verified\<close> that the on-chain route answers
  have rank 0, so a tick that receives one of them leaves a published worker status of
  rank 1 or more as it was.
\<close>

theorem rank_total_unlisted_zero:
  "0 \<le> getStatusRank s \<and> getStatusRank s \<le> 5
   \<and> (toLowerCase (or_str s ''unknown'') \<notin> set order \<longrightarrow> getStatusRank s = 0)
   \<and> getStatusRank None = 0
   \<and> getStatusRank (Some ''inflight'') = 0
   \<and> getStatusRank (Some ''verified'') = 0
   \<and> ((json_stage j = Some ''inflight'' \<or> json_stage j = Some ''verified'')
        \<and> lzWorkerStatus st = Some p \<and> 1 \<le> lzRank (Some p) \<longrightarrow>
        lzWorkerStatus (tick agg (Ok (Some j)) st) = Some p)"
proof -
  have keep: "(json_stage j = Some ''inflight'' \<or> json_stage j = Some ''verified'')
        \<and> lzWorkerStatus st = Some p \<and> 1 \<le> lzRank (Some p) \<longrightarrow>
        lzWorkerStatus (tick agg (Ok (Some j)) st) = Some p"
  proof
    assume h: "(json_stage j = Some ''inflight'' \<or> json_stage j = Some ''verified'')
        \<and> lzWorkerStatus st = Some p \<and> 1 \<le> lzRank (Some p)"
    then have "stage (nextStatus (Some j)) = ''inflight'' \<or> stage (nextStatus (Some j)) = ''verified''"
      by (auto simp: nextStatus_def or_str_def)
    then have "lzRank (Some (nextStatus (Some j))) = 0"
      by (auto simp: lzRank_def getStatusRank_inflight getStatusRank_verified)
    with h show "lzWorkerStatus (tick agg (Ok (Some j)) st) = Some p"
      by (simp add: tick_lz lzUpdater_cases)
  qed
  from getStatusRank_range [of s] getStatusRank_unlisted [of s] getStatusRank_absent
    getStatusRank_inflight getStatusRank_verified keep
  show ?thesis by blast
qed

text \<open>
  At concrete inputs: the name \<open>delivered\<close> is not in the list, and the answer \<open>verified\<close>
  arrives while \<open>sent\<close> is published.
\<close>

theorem rank_total_unlisted_zero_witness:
  "toLowerCase (or_str (Some ''delivered'') ''unknown'') \<notin> set order
   \<and> getStatusRank (Some ''delivered'') = 0
   \<and> json_stage (stageJson ''verified'') = Some ''verified''
   \<and> 1 \<le> lzRank (Some (stageOnly ''sent''))
   \<and> lzWorkerStatus (tick NotOk (Ok (Some (stageJson ''verified'')))
        \<lparr> aggStatus = None, lzWorkerStatus = Some (stageOnly ''sent''), stopped = False \<rparr>)
       = Some (stageOnly ''sent'')"
  (is "?u \<and> ?r \<and> ?j \<and> ?k \<and> ?keep")
proof -
  let ?st = "\<lparr> aggStatus = None, lzWorkerStatus = Some (stageOnly ''sent''), stopped = False \<rparr>"
  note t = rank_total_unlisted_zero [of "Some ''delivered''" "stageJson ''verified''" ?st
      "stageOnly ''sent''" NotOk]
  have u: ?u by (simp add: order_def toLowerCase_def toLowerCase_char_def or_str_def)
  have j: ?j by (simp add: stageJson_def)
  have k: ?k by (simp add: lzRank_stageOnly getStatusRank_sent)
  have s: "lzWorkerStatus ?st = Some (stageOnly ''sent'')" by simp
  from t u have r: ?r by blast
  from t j k s have keep: ?keep by blast
  from u r j k keep show ?thesis by blast
qed


section \<open>Properties of the send flow\<close>

lemma str_includes_iff: "str_includes s sub \<longleftrightarrow> (\<exists>pre post. s = pre @ sub @ post)"
proof (induction s)
  case Nil
  show ?case by auto
next
  case (Cons c cs)
  have "take (length sub) (c # cs) = sub \<longleftrightarrow> (\<exists>post. c # cs = sub @ post)"
    by (metis append_eq_conv_conj)
  moreover have "(\<exists>pre post. c # cs = pre @ sub @ post) \<longleftrightarrow>
      (\<exists>post. c # cs = sub @ post) \<or> (\<exists>pre post. cs = pre @ sub @ post)"
  proof
    assume "\<exists>pre post. c # cs = pre @ sub @ post"
    then obtain pre post where e: "c # cs = pre @ sub @ post" by blast
    show "(\<exists>post. c # cs = sub @ post) \<or> (\<exists>pre post. cs = pre @ sub @ post)"
    proof (cases pre)
      case Nil
      with e show ?thesis by auto
    next
      case (Cons d ds)
      with e have "cs = ds @ sub @ post" by simp
      then show ?thesis by blast
    qed
  next
    assume "(\<exists>post. c # cs = sub @ post) \<or> (\<exists>pre post. cs = pre @ sub @ post)"
    then show "\<exists>pre post. c # cs = pre @ sub @ post"
    proof
      assume "\<exists>post. c # cs = sub @ post"
      then obtain post where "c # cs = [] @ sub @ post" by auto
      then show ?thesis by blast
    next
      assume "\<exists>pre post. cs = pre @ sub @ post"
      then obtain pre post where "c # cs = (c # pre) @ sub @ post" by auto
      then show ?thesis by blast
    qed
  qed
  ultimately show ?case using Cons.IH by simp
qed

lemma sdiv_nonneg_eq: "0 \<le> (a::int) \<Longrightarrow> (a * 9900) sdiv 10000 = (a * 9900) div 10000"
proof (cases "a = 0")
  case True
  then show ?thesis by (simp add: signed_divide_int_def)
next
  case False
  assume "0 \<le> a"
  with False have "0 < a" by simp
  then show ?thesis by (simp add: signed_divide_int_def sgn_mult abs_mult)
qed

lemma min_le_amount: "0 \<le> (a::int) \<Longrightarrow> (a * 9900) div 10000 \<le> a"
  by linarith

lemma div_is_floor: "\<lfloor>(real_of_int a * 9900) / 10000\<rfloor> = (a * 9900) div 10000"
proof -
  have "\<lfloor>real_of_int (a * 9900) / real_of_int 10000\<rfloor> = (a * 9900) div 10000"
    by (rule floor_divide_of_int_eq)
  then show ?thesis by simp
qed

lemma buildSendParam_Inr:
  "buildSendParam gnc pu src dst a recv d opts = Inr sp \<Longrightarrow>
     \<exists>cfg amt. gnc dst = Inr cfg \<and> pu a (case d of Some n \<Rightarrow> n | None \<Rightarrow> 18) = Inr amt
       \<and> amountLD sp = amt \<and> minAmountLD sp = (amt * 9900) sdiv 10000 \<and> dstEid sp = cfg_eid cfg"
  by (auto simp: buildSendParam_def Let_def split: sum.splits)

lemma buildSendParam_total:
  "gnc dst = Inr cfg \<Longrightarrow> pu a (case d of Some n \<Rightarrow> n | None \<Rightarrow> 18) = Inr amt \<Longrightarrow>
     \<exists>sp. buildSendParam gnc pu src dst a recv d opts = Inr sp"
  by (simp add: buildSendParam_def Let_def)

lemma validateAmount_Inr:
  "validateAmount env ui = Inr amt \<Longrightarrow>
     parseUnits env (resolvedAmount env ui) (resolveDecimals env ui) = Inr amt \<and> 0 < amt
     \<and> (\<forall>b. balanceWei ui = Some b \<longrightarrow> amt \<le> b)"
  by (auto simp: validateAmount_def split: sum.splits if_splits option.splits)

lemma submit_calls:
  "submit env native oft sp fee addr amt = (calls, out) \<Longrightarrow>
     calls = [ContractSend sp fee addr (totalValue native fee amt)]
     \<or> calls = [ContractSend sp fee addr (totalValue native fee amt),
                SendTransaction (fallbackTx env oft sp fee addr (totalValue native fee amt))]"
  by (auto simp: submit_def Let_def split: sum.splits if_splits)

lemma submit_failed:
  "submit env native oft sp fee addr amt = (calls, out) \<Longrightarrow>
   send_call env sp fee addr (totalValue native fee amt) = Inl sendErr \<Longrightarrow>
     (isTrieMissing sendErr \<longrightarrow>
        calls = [ContractSend sp fee addr (totalValue native fee amt),
                 SendTransaction (fallbackTx env oft sp fee addr (totalValue native fee amt))])
     \<and> (\<not> isTrieMissing sendErr \<longrightarrow>
        calls = [ContractSend sp fee addr (totalValue native fee amt)] \<and> out = Failed sendErr)"
  by (auto simp: submit_def Let_def split: sum.splits if_splits)

lemma quoteAndSubmit_calls:
  "quoteAndSubmit env ui oft addr = (calls, out) \<Longrightarrow> calls \<noteq> [] \<Longrightarrow>
     \<exists>sp cfg. networkConfig env (destNetwork ui) = Inr cfg
       \<and> buildSendParam (networkConfig env) (parseUnits env) (sourceNetwork ui)
            (destNetwork ui) (resolvedAmount env ui) (receiverAddress ui)
            (Some (resolveDecimals env ui)) (Some (resolveOptions env cfg)) = Inr sp
       \<and> (calls = [QuoteSend sp]
          \<or> (\<exists>fee amt rest. quoteSend_call env sp = Inr fee
                \<and> parseUnits env (resolvedAmount env ui) (resolveDecimals env ui) = Inr amt
                \<and> submit env (usingNativeAdapter env ui) oft sp fee addr amt = (rest, out)
                \<and> calls = QuoteSend sp # rest))"
  by (auto simp: quoteAndSubmit_def split: sum.splits prod.splits)

lemma sendCrossChain_calls:
  "sendCrossChain env ui = (calls, out) \<Longrightarrow> calls \<noteq> [] \<Longrightarrow>
     \<exists>amt oft addr. validateAmount env ui = Inr amt
       \<and> tokenAddress (tokens env) (tokenId ui) (sourceNetwork ui) = Some oft
       \<and> getSigner env = Inr addr
       \<and> quoteAndSubmit env ui oft addr = (calls, out)"
  by (auto simp: sendCrossChain_def split: sum.splits option.splits if_splits)

lemma sendCrossChain_invalid:
  "validateAmount env ui = Inl msg \<Longrightarrow> sendCrossChain env ui = (calls, out) \<Longrightarrow>
     calls = [] \<and> (\<forall>h. out \<noteq> Sent h)"
  by (auto simp: sendCrossChain_def split: sum.splits option.splits if_splits)

lemma tx_data_fallbackTx: "tx_data (fallbackTx env oft sp fee addr v) = EncodeSend sp fee addr"
  by (simp add: fallbackTx_def)

lemma quoteAndSubmit_shape:
  assumes run: "quoteAndSubmit env ui oft addr = (calls, out)" and ne: "calls \<noteq> []"
  shows "\<exists>sp amt. parseUnits env (resolvedAmount env ui) (resolveDecimals env ui) = Inr amt
       \<and> amountLD sp = amt \<and> minAmountLD sp = (amt * 9900) sdiv 10000
       \<and> (calls = [QuoteSend sp]
          \<or> (\<exists>fee rest. quoteSend_call env sp = Inr fee
                \<and> submit env (usingNativeAdapter env ui) oft sp fee addr amt = (rest, out)
                \<and> calls = QuoteSend sp # rest))"
proof -
  from quoteAndSubmit_calls [OF run ne] obtain sp cfg where
    b: "buildSendParam (networkConfig env) (parseUnits env) (sourceNetwork ui)
            (destNetwork ui) (resolvedAmount env ui) (receiverAddress ui)
            (Some (resolveDecimals env ui)) (Some (resolveOptions env cfg)) = Inr sp"
    and c: "calls = [QuoteSend sp]
          \<or> (\<exists>fee amt rest. quoteSend_call env sp = Inr fee
                \<and> parseUnits env (resolvedAmount env ui) (resolveDecimals env ui) = Inr amt
                \<and> submit env (usingNativeAdapter env ui) oft sp fee addr amt = (rest, out)
                \<and> calls = QuoteSend sp # rest)"
    by blast
  from buildSendParam_Inr [OF b] obtain amt where
    p: "parseUnits env (resolvedAmount env ui) (resolveDecimals env ui) = Inr amt"
    and a: "amountLD sp = amt" and m: "minAmountLD sp = (amt * 9900) sdiv 10000"
    by auto
  from c p have "calls = [QuoteSend sp]
          \<or> (\<exists>fee rest. quoteSend_call env sp = Inr fee
                \<and> submit env (usingNativeAdapter env ui) oft sp fee addr amt = (rest, out)
                \<and> calls = QuoteSend sp # rest)"
    by auto
  with p a m show ?thesis by blast
qed

lemma sendCrossChain_shape:
  assumes run: "sendCrossChain env ui = (calls, out)" and ne: "calls \<noteq> []"
  shows "\<exists>sp amt oft addr. validateAmount env ui = Inr amt
       \<and> tokenAddress (tokens env) (tokenId ui) (sourceNetwork ui) = Some oft
       \<and> amountLD sp = amt \<and> minAmountLD sp = (amt * 9900) sdiv 10000
       \<and> (calls = [QuoteSend sp]
          \<or> (\<exists>fee rest. quoteSend_call env sp = Inr fee
                \<and> submit env (usingNativeAdapter env ui) oft sp fee addr amt = (rest, out)
                \<and> calls = QuoteSend sp # rest))"
proof -
  from sendCrossChain_calls [OF run ne] obtain amt oft addr where
    v: "validateAmount env ui = Inr amt"
    and t: "tokenAddress (tokens env) (tokenId ui) (sourceNetwork ui) = Some oft"
    and q: "quoteAndSubmit env ui oft addr = (calls, out)"
    by blast
  from validateAmount_Inr [OF v]
  have p: "parseUnits env (resolvedAmount env ui) (resolveDecimals env ui) = Inr amt" by simp
  from quoteAndSubmit_shape [OF q ne] p v t show ?thesis by fastforce
qed

lemma sendCrossChain_params:
  assumes run: "sendCrossChain env ui = (calls, out)" and c: "c \<in> set calls"
  shows "validateAmount env ui = Inr (amountLD (call_param c))
       \<and> minAmountLD (call_param c) = (amountLD (call_param c) * 9900) sdiv 10000"
proof -
  from c have ne: "calls \<noteq> []" by auto
  from sendCrossChain_shape [OF run ne] obtain sp amt oft addr where
    v: "validateAmount env ui = Inr amt"
    and a: "amountLD sp = amt" and m: "minAmountLD sp = (amt * 9900) sdiv 10000"
    and sh: "calls = [QuoteSend sp]
          \<or> (\<exists>fee rest. submit env (usingNativeAdapter env ui) oft sp fee addr amt = (rest, out)
                \<and> calls = QuoteSend sp # rest)"
    by blast
  have "call_param c = sp"
  proof -
    from sh show ?thesis
    proof
      assume "calls = [QuoteSend sp]"
      with c show ?thesis by simp
    next
      assume "\<exists>fee rest. submit env (usingNativeAdapter env ui) oft sp fee addr amt = (rest, out)
                \<and> calls = QuoteSend sp # rest"
      then obtain fee rest where
        s: "submit env (usingNativeAdapter env ui) oft sp fee addr amt = (rest, out)"
        and cs: "calls = QuoteSend sp # rest" by blast
      from submit_calls [OF s] c cs show ?thesis
        by (auto simp: tx_data_fallbackTx)
    qed
  qed
  with v a m show ?thesis by simp
qed

lemma sendCrossChain_order:
  assumes run: "sendCrossChain env ui = (calls, out)"
  shows "calls = [] \<or> (\<exists>sp rest. calls = QuoteSend sp # rest \<and> (\<forall>c\<in>set rest. is_submission c))"
proof (cases "calls = []")
  case True
  then show ?thesis by simp
next
  case False
  from sendCrossChain_shape [OF run False] obtain sp amt oft addr where
    sh: "calls = [QuoteSend sp]
          \<or> (\<exists>fee rest. submit env (usingNativeAdapter env ui) oft sp fee addr amt = (rest, out)
                \<and> calls = QuoteSend sp # rest)"
    by blast
  then show ?thesis
  proof
    assume "calls = [QuoteSend sp]"
    then show ?thesis by simp
  next
    assume "\<exists>fee rest. submit env (usingNativeAdapter env ui) oft sp fee addr amt = (rest, out)
                \<and> calls = QuoteSend sp # rest"
    then obtain fee rest where
      s: "submit env (usingNativeAdapter env ui) oft sp fee addr amt = (rest, out)"
      and cs: "calls = QuoteSend sp # rest" by blast
    from submit_calls [OF s] have "\<forall>c\<in>set rest. is_submission c" by auto
    with cs show ?thesis by blast
  qed
qed

lemma sendCrossChain_submit:
  assumes run: "sendCrossChain env ui = (calls, out)"
    and c: "ContractSend sp fee addr v \<in> set calls"
  shows "\<exists>oft rest. tokenAddress (tokens env) (tokenId ui) (sourceNetwork ui) = Some oft
       \<and> v = totalValue (usingNativeAdapter env ui) fee (amountLD sp)
       \<and> submit env (usingNativeAdapter env ui) oft sp fee addr (amountLD sp) = (rest, out)
       \<and> calls = QuoteSend sp # rest"
proof -
  from c have ne: "calls \<noteq> []" by auto
  from sendCrossChain_shape [OF run ne] obtain sp' amt oft addr' where
    t: "tokenAddress (tokens env) (tokenId ui) (sourceNetwork ui) = Some oft"
    and a: "amountLD sp' = amt"
    and sh: "calls = [QuoteSend sp']
          \<or> (\<exists>fee rest. submit env (usingNativeAdapter env ui) oft sp' fee addr' amt = (rest, out)
                \<and> calls = QuoteSend sp' # rest)"
    by blast
  from sh c obtain fee' rest where
    s: "submit env (usingNativeAdapter env ui) oft sp' fee' addr' amt = (rest, out)"
    and cs: "calls = QuoteSend sp' # rest" by auto
  from c cs have r: "ContractSend sp fee addr v \<in> set rest" by simp
  from submit_calls [OF s] r
  have e: "sp = sp' \<and> fee = fee' \<and> addr = addr'
      \<and> v = totalValue (usingNativeAdapter env ui) fee' amt" by auto
  with t a s cs show ?thesis by blast
qed

section \<open>The sample transfer, evaluated\<close>

lemmas sample_defs = sample_config_def sample_token_def sample_env_def sample_ui_def
  sample_param_def sample_error_def

lemma sample_resolved: "resolvedAmount (sample_env native r) (sample_ui ''2'') = ''2''"
  by (simp add: resolvedAmount_def sample_defs toLowerCase_def toLowerCase_char_def)

lemma sample_native: "usingNativeAdapter (sample_env native r) (sample_ui a) = native"
  by (simp add: usingNativeAdapter_def sample_defs)

lemma sample_decimals: "resolveDecimals (sample_env True r) (sample_ui a) = 18"
  by (simp add: resolveDecimals_def sample_native)

lemma sample_parse: "parseUnits (sample_env native r) ''2'' 18 = Inr (2 * 10 ^ 18)"
  by (simp add: sample_defs)

lemma sample_balance: "balanceWei (sample_ui a) = Some (5 * 10 ^ 18)"
  by (simp add: sample_ui_def)

lemma sample_validate: "validateAmount (sample_env True r) (sample_ui ''2'') = Inr (2 * 10 ^ 18)"
  by (simp add: validateAmount_def sample_resolved sample_decimals sample_parse sample_balance)

lemma sample_options:
  "resolveOptions (sample_env native r) (sample_config key) = ''0x0003''"
  by (simp add: resolveOptions_def sample_defs Let_def)

lemma sample_build:
  "buildSendParam (networkConfig (sample_env native r)) (parseUnits (sample_env native r))
     ''hii'' ''sepolia'' ''2'' ''0xbe'' (Some 18) (Some ''0x0003'') = Inr sample_param"
  by (simp add: buildSendParam_def sample_defs signed_divide_int_def)

lemma sample_ui_sel:
  "sourceNetwork (sample_ui a) = ''hii''"
  "destNetwork (sample_ui a) = ''sepolia''"
  "amount (sample_ui a) = a"
  "receiverAddress (sample_ui a) = ''0xbe''"
  "tokenId (sample_ui a) = ''hnc''"
  "account (sample_ui a) = ''0xf0''"
  "has_ethereum (sample_ui a) = True"
  by (simp_all add: sample_ui_def)

lemma sample_env_sel:
  "networkConfig (sample_env native r) key = Inr (sample_config key)"
  "getSigner (sample_env native r) = Inr ''0xf0''"
  "quoteSend_call (sample_env native r) sp = Inr sample_fee"
  "send_call (sample_env native r) sp fee refund v = r"
  "sendTransaction_call (sample_env native r) raw = Inr ''0xaa''"
  by (simp_all add: sample_env_def sample_fee_def)

lemma sample_pair: "isPairSupported (sample_env native r) (sample_ui a)"
  by (simp add: isPairSupported_def sample_ui_sel) (simp add: sample_env_def)

lemma sample_address:
  "tokenAddress (tokens (sample_env native r)) ''hnc'' ''hii'' = Some ''0x0f''"
  by (simp add: tokenAddress_def sample_env_def sample_token_def)

lemma sample_trie: "isTrieMissing (sample_error ''missing trie node 5f'')"
  by (simp add: isTrieMissing_def failureMessage_def or_value_def is_truthy_def sample_error_def)

lemma sample_revert: "\<not> isTrieMissing (sample_error ''execution reverted'')"
  by (simp add: isTrieMissing_def failureMessage_def or_value_def is_truthy_def sample_error_def)

lemma sample_quoteAndSubmit:
  "quoteAndSubmit (sample_env True r) (sample_ui ''2'') ''0x0f'' ''0xf0'' =
     (case submit (sample_env True r) True ''0x0f'' sample_param sample_fee ''0xf0'' (2 * 10 ^ 18) of
        (calls, out) \<Rightarrow> (QuoteSend sample_param # calls, out))"
proof -
  have b: "buildSendParam (networkConfig (sample_env True r)) (parseUnits (sample_env True r))
     ''hii'' ''sepolia'' ''2'' ''0xbe'' (Some 18) (Some ''0x0003'') = Inr sample_param"
    by (rule sample_build)
  show ?thesis
    by (simp add: quoteAndSubmit_def sample_ui_sel sample_env_sel sample_resolved
        sample_decimals sample_options b sample_native sample_parse)
qed

lemma sample_sendCrossChain:
  "sendCrossChain (sample_env True r) (sample_ui ''2'') =
     (case submit (sample_env True r) True ''0x0f'' sample_param sample_fee ''0xf0'' (2 * 10 ^ 18) of
        (calls, out) \<Rightarrow> (QuoteSend sample_param # calls, out))"
  by (simp add: sendCrossChain_def sample_ui_sel sample_env_sel sample_pair sample_resolved
      sample_address sample_validate sample_quoteAndSubmit)

lemma sample_total: "totalValue True sample_fee 2000000000000000000 = 2000000000000001000"
  by (simp add: totalValue_def sample_fee_def)

lemma sample_run_trie:
  "sendCrossChain (sample_env True (Inl (sample_error ''missing trie node 5f''))) (sample_ui ''2'') =
     ([QuoteSend sample_param,
       ContractSend sample_param sample_fee ''0xf0'' 2000000000000001000,
       SendTransaction (fallbackTx (sample_env True (Inl (sample_error ''missing trie node 5f'')))
          ''0x0f'' sample_param sample_fee ''0xf0'' 2000000000000001000)],
      Sent ''0xaa'')"
  by (simp add: sample_sendCrossChain submit_def sample_env_sel sample_trie sample_total Let_def)

lemma sample_run_revert:
  "sendCrossChain (sample_env True (Inl (sample_error ''execution reverted''))) (sample_ui ''2'') =
     ([QuoteSend sample_param,
       ContractSend sample_param sample_fee ''0xf0'' 2000000000000001000],
      Failed (sample_error ''execution reverted''))"
  by (simp add: sample_sendCrossChain submit_def sample_env_sel sample_revert sample_total Let_def)

lemma sample_resolved_other:
  "a \<noteq> ''max'' \<Longrightarrow> toLowerCase a \<noteq> ''max'' \<Longrightarrow>
     resolvedAmount (sample_env native r) (sample_ui a) = a"
  by (simp add: resolvedAmount_def sample_ui_sel) (simp add: sample_env_def)

lemma sample_validate_zero:
  "validateAmount (sample_env True r) (sample_ui ''0'') = Inl ''Amount must be greater than zero''"
proof -
  have "resolvedAmount (sample_env True r) (sample_ui ''0'') = ''0''"
    by (simp add: sample_resolved_other toLowerCase_def toLowerCase_char_def)
  moreover have "parseUnits (sample_env True r) ''0'' 18 = Inr 0"
    by (simp add: sample_env_def)
  ultimately show ?thesis
    by (simp add: validateAmount_def sample_decimals sample_balance)
qed

lemma sample_validate_over:
  "validateAmount (sample_env True r) (sample_ui ''9'') = Inl ''Amount exceeds balance''"
proof -
  have "resolvedAmount (sample_env True r) (sample_ui ''9'') = ''9''"
    by (simp add: sample_resolved_other toLowerCase_def toLowerCase_char_def)
  moreover have "parseUnits (sample_env True r) ''9'' 18 = Inr (9 * 10 ^ 18)"
    by (simp add: sample_env_def)
  ultimately show ?thesis
    by (simp add: validateAmount_def sample_decimals sample_balance)
qed

section \<open>The minimum amount\<close>

text \<open>
  Claim C3. For an amount string that \<open>parseUnits\<close> accepts with a value that is not
  negative, \<open>buildSendParam\<close> returns send parameters whose \<open>minAmountLD\<close> is the floor of
  the exact quotient \<open>parseUnits(a, d) * 9900 / 10000\<close> and is at most \<open>amountLD\<close>. In the
  send flow the amount has passed the validation, so the send parameters of every call
  that the flow makes carry the parsed amount and satisfy both.
\<close>

theorem sendParam_min_amount_floor:
  "(pu a (case d of Some n \<Rightarrow> n | None \<Rightarrow> 18) = Inr amt \<and> 0 \<le> amt \<and> gnc dst = Inr cfg \<longrightarrow>
      (\<exists>sp. buildSendParam gnc pu src dst a recv d opts = Inr sp
         \<and> amountLD sp = amt
         \<and> minAmountLD sp = \<lfloor>(real_of_int amt * 9900) / 10000\<rfloor>
         \<and> minAmountLD sp = (amt * 9900) div 10000
         \<and> minAmountLD sp \<le> amountLD sp))
   \<and> (sendCrossChain env ui = (calls, out) \<and> c \<in> set calls \<longrightarrow>
        parseUnits env (resolvedAmount env ui) (resolveDecimals env ui)
          = Inr (amountLD (call_param c))
        \<and> minAmountLD (call_param c)
          = \<lfloor>(real_of_int (amountLD (call_param c)) * 9900) / 10000\<rfloor>
        \<and> minAmountLD (call_param c) \<le> amountLD (call_param c))"
proof (intro conjI impI)
  assume h: "pu a (case d of Some n \<Rightarrow> n | None \<Rightarrow> 18) = Inr amt \<and> 0 \<le> amt \<and> gnc dst = Inr cfg"
  then obtain sp where b: "buildSendParam gnc pu src dst a recv d opts = Inr sp"
    using buildSendParam_total by blast
  from buildSendParam_Inr [OF b] h
  have a: "amountLD sp = amt" and m: "minAmountLD sp = (amt * 9900) sdiv 10000" by auto
  from h have nn: "0 \<le> amt" by simp
  from m sdiv_nonneg_eq [OF nn] have m': "minAmountLD sp = (amt * 9900) div 10000"
    by (simp only:)
  from min_le_amount [OF nn] have "(amt * 9900) div 10000 \<le> amt" .
  with b a m' show "\<exists>sp. buildSendParam gnc pu src dst a recv d opts = Inr sp
         \<and> amountLD sp = amt
         \<and> minAmountLD sp = \<lfloor>(real_of_int amt * 9900) / 10000\<rfloor>
         \<and> minAmountLD sp = (amt * 9900) div 10000
         \<and> minAmountLD sp \<le> amountLD sp"
    using div_is_floor [of amt] by auto
next
  assume h: "sendCrossChain env ui = (calls, out) \<and> c \<in> set calls"
  let ?amt = "amountLD (call_param c)"
  from h sendCrossChain_params [of env ui calls out c]
  have v: "validateAmount env ui = Inr ?amt"
    and m: "minAmountLD (call_param c) = (?amt * 9900) sdiv 10000" by auto
  from validateAmount_Inr [OF v]
  have p: "parseUnits env (resolvedAmount env ui) (resolveDecimals env ui) = Inr ?amt"
    and pos: "0 < ?amt" by auto
  from pos have nn: "0 \<le> ?amt" by simp
  from m sdiv_nonneg_eq [OF nn] have m': "minAmountLD (call_param c) = (?amt * 9900) div 10000"
    by (simp only:)
  from min_le_amount [OF nn] have le: "(?amt * 9900) div 10000 \<le> ?amt" .
  show "parseUnits env (resolvedAmount env ui) (resolveDecimals env ui) = Inr ?amt"
    by (rule p)
  show "minAmountLD (call_param c) = \<lfloor>(real_of_int ?amt * 9900) / 10000\<rfloor>"
    using m' div_is_floor [of "amountLD (call_param c)"] by (simp only:)
  show "minAmountLD (call_param c) \<le> ?amt"
    using m' le by (simp only:)
qed

text \<open>
  On the sample transfer: 2 units at 18 decimals have the minimum amount 1.98 units.
\<close>

theorem sendParam_min_amount_floor_witness:
  "parseUnits (sample_env True (Inl (sample_error ''execution reverted''))) ''2'' 18
     = Inr (2 * 10 ^ 18)
   \<and> (\<exists>sp. buildSendParam
          (networkConfig (sample_env True (Inl (sample_error ''execution reverted''))))
          (parseUnits (sample_env True (Inl (sample_error ''execution reverted''))))
          ''hii'' ''sepolia'' ''2'' ''0xbe'' (Some 18) (Some ''0x0003'') = Inr sp
        \<and> amountLD sp = 2 * 10 ^ 18
        \<and> minAmountLD sp = 198 * 10 ^ 16
        \<and> minAmountLD sp \<le> amountLD sp)
   \<and> QuoteSend sample_param
       \<in> set (fst (sendCrossChain (sample_env True (Inl (sample_error ''execution reverted'')))
                 (sample_ui ''2'')))
   \<and> minAmountLD sample_param = \<lfloor>(real_of_int (amountLD sample_param) * 9900) / 10000\<rfloor>
   \<and> minAmountLD sample_param \<le> amountLD sample_param"
  (is "?p \<and> ?b \<and> ?q \<and> ?f \<and> ?l")
proof -
  let ?env = "sample_env True (Inl (sample_error ''execution reverted''))"
  let ?calls = "[QuoteSend sample_param,
       ContractSend sample_param sample_fee ''0xf0'' 2000000000000001000]"
  note t = sendParam_min_amount_floor [where pu = "parseUnits ?env" and a = "''2''"
      and d = "Some 18" and amt = "2 * 10 ^ 18" and gnc = "networkConfig ?env"
      and dst = "''sepolia''" and cfg = "sample_config ''sepolia''" and src = "''hii''"
      and recv = "''0xbe''" and opts = "Some ''0x0003''" and env = ?env
      and ui = "sample_ui ''2''" and calls = ?calls
      and out = "Failed (sample_error ''execution reverted'')"
      and c = "QuoteSend sample_param"]
  have p: ?p by (rule sample_parse)
  have p': "parseUnits ?env ''2'' (case Some 18 of Some n \<Rightarrow> n | None \<Rightarrow> 18) = Inr (2 * 10 ^ 18)"
    using p by simp
  have n: "(0::int) \<le> 2 * 10 ^ 18" by simp
  have g: "networkConfig ?env ''sepolia'' = Inr (sample_config ''sepolia'')"
    by (simp add: sample_env_sel)
  have r: "sendCrossChain ?env (sample_ui ''2'') = (?calls, Failed (sample_error ''execution reverted''))"
    by (rule sample_run_revert)
  have q: ?q by (simp add: r)
  have m: "QuoteSend sample_param \<in> set ?calls" by simp
  have v: "((2 * 10 ^ 18 :: int) * 9900) div 10000 = 198 * 10 ^ 16" by simp
  from t p' n g have "\<exists>sp. buildSendParam (networkConfig ?env) (parseUnits ?env)
          ''hii'' ''sepolia'' ''2'' ''0xbe'' (Some 18) (Some ''0x0003'') = Inr sp
        \<and> amountLD sp = 2 * 10 ^ 18
        \<and> minAmountLD sp = ((2 * 10 ^ 18) * 9900) div 10000
        \<and> minAmountLD sp \<le> amountLD sp" by blast
  with v have b: ?b by (simp only:)
  from t r m have "minAmountLD (call_param (QuoteSend sample_param))
          = \<lfloor>(real_of_int (amountLD (call_param (QuoteSend sample_param))) * 9900) / 10000\<rfloor>
        \<and> minAmountLD (call_param (QuoteSend sample_param))
          \<le> amountLD (call_param (QuoteSend sample_param))" by blast
  then have fl: "?f \<and> ?l" unfolding call_param.simps .
  from p b q fl show ?thesis by blast
qed

section \<open>Validation comes before the quote\<close>

text \<open>
  Claim C6. Every call that the send flow makes on the chain, the fee quote first and the
  submissions after it, is made only after the validation has accepted the amount, and
  carries that amount: it is greater than zero and, when a balance is known, at most the
  balance. When the validation rejects the amount, the flow makes no call at all and
  sets no transaction hash.
\<close>

theorem validation_before_quote:
  "sendCrossChain env ui = (calls, out) \<longrightarrow>
     (\<forall>c\<in>set calls.
        validateAmount env ui = Inr (amountLD (call_param c))
        \<and> 0 < amountLD (call_param c)
        \<and> (\<forall>b. balanceWei ui = Some b \<longrightarrow> amountLD (call_param c) \<le> b))
     \<and> (calls = [] \<or> (\<exists>sp rest. calls = QuoteSend sp # rest \<and> (\<forall>c\<in>set rest. is_submission c)))
     \<and> (\<forall>msg. validateAmount env ui = Inl msg \<longrightarrow> calls = [] \<and> (\<forall>h. out \<noteq> Sent h))"
proof
  assume run: "sendCrossChain env ui = (calls, out)"
  have a: "\<forall>c\<in>set calls.
        validateAmount env ui = Inr (amountLD (call_param c))
        \<and> 0 < amountLD (call_param c)
        \<and> (\<forall>b. balanceWei ui = Some b \<longrightarrow> amountLD (call_param c) \<le> b)"
  proof
    fix c assume "c \<in> set calls"
    from sendCrossChain_params [OF run this]
    have v: "validateAmount env ui = Inr (amountLD (call_param c))" by simp
    from validateAmount_Inr [OF v] v
    show "validateAmount env ui = Inr (amountLD (call_param c))
        \<and> 0 < amountLD (call_param c)
        \<and> (\<forall>b. balanceWei ui = Some b \<longrightarrow> amountLD (call_param c) \<le> b)" by simp
  qed
  have b: "calls = [] \<or> (\<exists>sp rest. calls = QuoteSend sp # rest \<and> (\<forall>c\<in>set rest. is_submission c))"
    by (rule sendCrossChain_order [OF run])
  have c: "\<forall>msg. validateAmount env ui = Inl msg \<longrightarrow> calls = [] \<and> (\<forall>h. out \<noteq> Sent h)"
    using sendCrossChain_invalid [OF _ run] by blast
  from a b c show "(\<forall>c\<in>set calls.
        validateAmount env ui = Inr (amountLD (call_param c))
        \<and> 0 < amountLD (call_param c)
        \<and> (\<forall>b. balanceWei ui = Some b \<longrightarrow> amountLD (call_param c) \<le> b))
     \<and> (calls = [] \<or> (\<exists>sp rest. calls = QuoteSend sp # rest \<and> (\<forall>c\<in>set rest. is_submission c)))
     \<and> (\<forall>msg. validateAmount env ui = Inl msg \<longrightarrow> calls = [] \<and> (\<forall>h. out \<noteq> Sent h))"
    by blast
qed

text \<open>
  On the sample transfer with a balance of 5 units: the amount 2 is quoted and submitted,
  the amounts 0 and 9 are rejected before any call.
\<close>

theorem validation_before_quote_witness:
  "sendCrossChain (sample_env True (Inl (sample_error ''execution reverted''))) (sample_ui ''2'')
     = ([QuoteSend sample_param,
         ContractSend sample_param sample_fee ''0xf0'' 2000000000000001000],
        Failed (sample_error ''execution reverted''))
   \<and> 0 < amountLD sample_param
   \<and> amountLD sample_param \<le> 5 * 10 ^ 18
   \<and> validateAmount (sample_env True (Inl (sample_error ''execution reverted''))) (sample_ui ''0'')
       = Inl ''Amount must be greater than zero''
   \<and> fst (sendCrossChain (sample_env True (Inl (sample_error ''execution reverted'')))
            (sample_ui ''0'')) = []
   \<and> validateAmount (sample_env True (Inl (sample_error ''execution reverted''))) (sample_ui ''9'')
       = Inl ''Amount exceeds balance''
   \<and> fst (sendCrossChain (sample_env True (Inl (sample_error ''execution reverted'')))
            (sample_ui ''9'')) = []"
  (is "?r \<and> ?pos \<and> ?bal \<and> ?vz \<and> ?cz \<and> ?vo \<and> ?co")
proof -
  let ?env = "sample_env True (Inl (sample_error ''execution reverted''))"
  let ?calls = "[QuoteSend sample_param,
       ContractSend sample_param sample_fee ''0xf0'' 2000000000000001000]"
  note t = validation_before_quote [of ?env "sample_ui ''2''" ?calls
      "Failed (sample_error ''execution reverted'')"]
  note z = validation_before_quote [of ?env "sample_ui ''0''"
      "fst (sendCrossChain ?env (sample_ui ''0''))" "snd (sendCrossChain ?env (sample_ui ''0''))"]
  note o = validation_before_quote [of ?env "sample_ui ''9''"
      "fst (sendCrossChain ?env (sample_ui ''9''))" "snd (sendCrossChain ?env (sample_ui ''9''))"]
  have r: ?r by (rule sample_run_revert)
  have b: "balanceWei (sample_ui ''2'') = Some (5 * 10 ^ 18)" by (rule sample_balance)
  have m: "QuoteSend sample_param \<in> set ?calls" by simp
  from t r m have "0 < amountLD (call_param (QuoteSend sample_param))
        \<and> (\<forall>b. balanceWei (sample_ui ''2'') = Some b \<longrightarrow>
              amountLD (call_param (QuoteSend sample_param)) \<le> b)" by blast
  with b have pb: "?pos \<and> ?bal" by simp
  have vz: ?vz by (rule sample_validate_zero)
  have vo: ?vo by (rule sample_validate_over)
  from z vz have cz: ?cz by simp
  from o vo have co: ?co by simp
  from r pb vz cz vo co show ?thesis by blast
qed

section \<open>The fallback transaction\<close>

text \<open>
  Claim C5. Let the primary send call fail. The value attached to it is the native fee,
  plus the amount when the token is a native adapter. The test \<open>isTrieMissing\<close> holds
  exactly when the message of the failure (\<open>info.error.data.message\<close>, else \<open>message\<close>) is
  a string that contains \<open>missing trie node\<close>. If it holds, the flow makes exactly one
  more call, a raw transaction of type 0 with gas limit 600000, the same value, the
  encoded send call as data, sent to the token contract. If it does not hold, the flow
  ends with the very error of the primary call and makes no further call.
\<close>

theorem missing_trie_node_fallback:
  "sendCrossChain env ui = (calls, out) \<and> ContractSend sp fee addr v \<in> set calls
   \<and> send_call env sp fee addr v = Inl sendErr \<longrightarrow>
     v = (if usingNativeAdapter env ui then nativeFee fee + amountLD sp else nativeFee fee)
     \<and> (isTrieMissing sendErr =
          (\<exists>msg pre post. failureMessage sendErr = Str msg
             \<and> msg = pre @ ''missing trie node'' @ post))
     \<and> (isTrieMissing sendErr \<longrightarrow>
          (\<exists>raw. calls = [QuoteSend sp, ContractSend sp fee addr v, SendTransaction raw]
             \<and> tx_type raw = 0 \<and> tx_gasLimit raw = 600000 \<and> tx_value raw = v
             \<and> tx_data raw = EncodeSend sp fee addr
             \<and> Some (tx_to raw) = tokenAddress (tokens env) (tokenId ui) (sourceNetwork ui)))
     \<and> (\<not> isTrieMissing sendErr \<longrightarrow>
          out = Failed sendErr \<and> calls = [QuoteSend sp, ContractSend sp fee addr v])"
proof
  assume h: "sendCrossChain env ui = (calls, out) \<and> ContractSend sp fee addr v \<in> set calls
   \<and> send_call env sp fee addr v = Inl sendErr"
  let ?n = "usingNativeAdapter env ui"
  from h sendCrossChain_submit [of env ui calls out sp fee addr v] obtain oft rest where
    t: "tokenAddress (tokens env) (tokenId ui) (sourceNetwork ui) = Some oft"
    and v: "v = totalValue ?n fee (amountLD sp)"
    and s: "submit env ?n oft sp fee addr (amountLD sp) = (rest, out)"
    and cs: "calls = QuoteSend sp # rest" by blast
  from h v have e: "send_call env sp fee addr (totalValue ?n fee (amountLD sp)) = Inl sendErr"
    by simp
  note f = submit_failed [OF s e]
  have 1: "v = (if ?n then nativeFee fee + amountLD sp else nativeFee fee)"
    using v by (simp add: totalValue_def)
  have 2: "isTrieMissing sendErr =
          (\<exists>msg pre post. failureMessage sendErr = Str msg
             \<and> msg = pre @ ''missing trie node'' @ post)"
    by (cases "failureMessage sendErr") (auto simp: isTrieMissing_def str_includes_iff)
  have 3: "isTrieMissing sendErr \<longrightarrow>
          (\<exists>raw. calls = [QuoteSend sp, ContractSend sp fee addr v, SendTransaction raw]
             \<and> tx_type raw = 0 \<and> tx_gasLimit raw = 600000 \<and> tx_value raw = v
             \<and> tx_data raw = EncodeSend sp fee addr
             \<and> Some (tx_to raw) = tokenAddress (tokens env) (tokenId ui) (sourceNetwork ui))"
  proof
    assume "isTrieMissing sendErr"
    with f cs v have "calls = [QuoteSend sp, ContractSend sp fee addr v,
        SendTransaction (fallbackTx env oft sp fee addr v)]" by simp
    with t show "\<exists>raw. calls = [QuoteSend sp, ContractSend sp fee addr v, SendTransaction raw]
             \<and> tx_type raw = 0 \<and> tx_gasLimit raw = 600000 \<and> tx_value raw = v
             \<and> tx_data raw = EncodeSend sp fee addr
             \<and> Some (tx_to raw) = tokenAddress (tokens env) (tokenId ui) (sourceNetwork ui)"
      by (simp add: fallbackTx_def)
  qed
  have 4: "\<not> isTrieMissing sendErr \<longrightarrow>
          out = Failed sendErr \<and> calls = [QuoteSend sp, ContractSend sp fee addr v]"
    using f cs v by simp
  from 1 2 3 4 show "v = (if ?n then nativeFee fee + amountLD sp else nativeFee fee)
     \<and> (isTrieMissing sendErr =
          (\<exists>msg pre post. failureMessage sendErr = Str msg
             \<and> msg = pre @ ''missing trie node'' @ post))
     \<and> (isTrieMissing sendErr \<longrightarrow>
          (\<exists>raw. calls = [QuoteSend sp, ContractSend sp fee addr v, SendTransaction raw]
             \<and> tx_type raw = 0 \<and> tx_gasLimit raw = 600000 \<and> tx_value raw = v
             \<and> tx_data raw = EncodeSend sp fee addr
             \<and> Some (tx_to raw) = tokenAddress (tokens env) (tokenId ui) (sourceNetwork ui)))
     \<and> (\<not> isTrieMissing sendErr \<longrightarrow>
          out = Failed sendErr \<and> calls = [QuoteSend sp, ContractSend sp fee addr v])"
    by blast
qed

text \<open>
  On the sample transfer of a native adapter: a failure with the message
  \<open>missing trie node 5f\<close> is followed by the raw transaction, a failure with the message
  \<open>execution reverted\<close> ends the flow.
\<close>

theorem missing_trie_node_fallback_witness:
  "isTrieMissing (sample_error ''missing trie node 5f'')
   \<and> (\<exists>raw. fst (sendCrossChain (sample_env True (Inl (sample_error ''missing trie node 5f'')))
                   (sample_ui ''2''))
          = [QuoteSend sample_param,
             ContractSend sample_param sample_fee ''0xf0'' 2000000000000001000,
             SendTransaction raw]
        \<and> tx_type raw = 0 \<and> tx_gasLimit raw = 600000 \<and> tx_value raw = 2000000000000001000)
   \<and> 2000000000000001000 = nativeFee sample_fee + amountLD sample_param
   \<and> \<not> isTrieMissing (sample_error ''execution reverted'')
   \<and> fst (sendCrossChain (sample_env True (Inl (sample_error ''execution reverted'')))
            (sample_ui ''2''))
       = [QuoteSend sample_param,
          ContractSend sample_param sample_fee ''0xf0'' 2000000000000001000]
   \<and> snd (sendCrossChain (sample_env True (Inl (sample_error ''execution reverted'')))
            (sample_ui ''2''))
       = Failed (sample_error ''execution reverted'')"
  (is "?tm \<and> ?fb \<and> ?tv \<and> ?nt \<and> ?rc \<and> ?ro")
proof -
  let ?envT = "sample_env True (Inl (sample_error ''missing trie node 5f''))"
  let ?envR = "sample_env True (Inl (sample_error ''execution reverted''))"
  let ?v = "2000000000000001000 :: int"
  let ?cs = "ContractSend sample_param sample_fee ''0xf0'' ?v"
  let ?callsT = "[QuoteSend sample_param, ?cs,
       SendTransaction (fallbackTx ?envT ''0x0f'' sample_param sample_fee ''0xf0'' ?v)]"
  let ?callsR = "[QuoteSend sample_param, ?cs]"
  note t = missing_trie_node_fallback [of ?envT "sample_ui ''2''" ?callsT "Sent ''0xaa''"
      sample_param sample_fee "''0xf0''" ?v "sample_error ''missing trie node 5f''"]
  note u = missing_trie_node_fallback [of ?envR "sample_ui ''2''" ?callsR
      "snd (sendCrossChain ?envR (sample_ui ''2''))"
      sample_param sample_fee "''0xf0''" ?v "sample_error ''execution reverted''"]
  have tm: ?tm by (rule sample_trie)
  have nt: ?nt by (rule sample_revert)
  have rT: "sendCrossChain ?envT (sample_ui ''2'') = (?callsT, Sent ''0xaa'')"
    by (rule sample_run_trie)
  have rc: ?rc by (simp add: sample_run_revert)
  then have rR: "sendCrossChain ?envR (sample_ui ''2'')
      = (?callsR, snd (sendCrossChain ?envR (sample_ui ''2'')))"
    by (metis prod.collapse)
  have mT: "?cs \<in> set ?callsT" by simp
  have mR: "?cs \<in> set ?callsR" by simp
  have sT: "send_call ?envT sample_param sample_fee ''0xf0'' ?v
      = Inl (sample_error ''missing trie node 5f'')" by (simp add: sample_env_sel)
  have sR: "send_call ?envR sample_param sample_fee ''0xf0'' ?v
      = Inl (sample_error ''execution reverted'')" by (simp add: sample_env_sel)
  from t rT mT sT tm have "\<exists>raw. ?callsT = [QuoteSend sample_param, ?cs, SendTransaction raw]
        \<and> tx_type raw = 0 \<and> tx_gasLimit raw = 600000 \<and> tx_value raw = ?v" by blast
  with rT have fb: ?fb by simp
  from t rT mT sT have "?v = (if usingNativeAdapter ?envT (sample_ui ''2'')
      then nativeFee sample_fee + amountLD sample_param else nativeFee sample_fee)" by blast
  then have tv: ?tv by (simp add: sample_native)
  from u rR mR sR nt have ro: ?ro by blast
  from tm fb tv nt rc ro show ?thesis by blast
qed


section \<open>Properties of the on-chain status route\<close>

lemma scanLogs_step:
  "scanLogs ev eid sndr (l # logs) =
     (if logMatches ev eid sndr l
      then (case endpoint_parseLog l of
              Parsed name (Some org) receiver \<Rightarrow>
                Some \<lparr> m_dstTx = transactionHash l, m_origin = org, m_receiver = receiver \<rparr>
            | _ \<Rightarrow> None)
      else scanLogs ev eid sndr logs)"
  by (auto simp: logMatches_def Let_def split: parse_result.splits option.splits)

lemma scanLogs_None: "scanLogs ev eid sndr logs = None \<longleftrightarrow> (\<forall>l\<in>set logs. \<not> logMatches ev eid sndr l)"
proof (induction logs)
  case Nil
  show ?case by simp
next
  case (Cons l logs)
  show ?case
  proof (cases "logMatches ev eid sndr l")
    case True
    then have "scanLogs ev eid sndr (l # logs) \<noteq> None"
      by (auto simp: logMatches_def Let_def split: parse_result.splits option.splits)
    with True show ?thesis by auto
  next
    case False
    with Cons.IH show ?thesis by (simp add: scanLogs_step del: scanLogs.simps)
  qed
qed

lemma scanLogs_first:
  "find (logMatches ev eid sndr) logs = Some l \<Longrightarrow>
     \<exists>org receiver. endpoint_parseLog l = Parsed ev (Some org) receiver
       \<and> scanLogs ev eid sndr logs
           = Some \<lparr> m_dstTx = transactionHash l, m_origin = org, m_receiver = receiver \<rparr>"
proof (induction logs)
  case Nil
  then show ?case by simp
next
  case (Cons x logs)
  show ?case
  proof (cases "logMatches ev eid sndr x")
    case True
    with Cons.prems have "x = l" by simp
    with True show ?thesis
      by (auto simp: logMatches_def Let_def split: parse_result.splits option.splits)
  next
    case False
    with Cons show ?thesis by (simp add: scanLogs_step del: scanLogs.simps)
  qed
qed

lemma deriveStage_cases:
  "deriveStage matched verified srcReceipt =
     (if matched \<noteq> None then ''executed''
      else if verified \<noteq> None then ''verified''
      else (case srcReceipt of
              None \<Rightarrow> ''inflight''
            | Some r \<Rightarrow> if receipt_status r = Some 1 then ''inflight'' else ''unknown''))"
  by (auto simp: deriveStage_def Let_def split: option.splits)

lemma onchainStatus_stage:
  "st_stage (onchainStatus srcConfig dstConfig txHash oftSrc srcReceipt blocks deliveredLogs
       verifiedLogs dvnLogs) =
     (if \<exists>l\<in>set deliveredLogs. logMatches ''PacketDelivered'' (cfg_eid srcConfig) (pad32 oftSrc) l
      then ''executed''
      else if \<exists>l\<in>set verifiedLogs. logMatches ''PacketVerified'' (cfg_eid srcConfig) (pad32 oftSrc) l
      then ''verified''
      else (case srcReceipt of
              None \<Rightarrow> ''inflight''
            | Some r \<Rightarrow> if receipt_status r = Some 1 then ''inflight'' else ''unknown''))"
proof -
  let ?m = "scanLogs ''PacketDelivered'' (cfg_eid srcConfig) (pad32 oftSrc) deliveredLogs"
  let ?v = "scanLogs ''PacketVerified'' (cfg_eid srcConfig) (pad32 oftSrc) verifiedLogs"
  have s: "st_stage (onchainStatus srcConfig dstConfig txHash oftSrc srcReceipt blocks
      deliveredLogs verifiedLogs dvnLogs)
      = deriveStage ?m (if ?m = None then ?v else None) srcReceipt"
    by (simp add: onchainStatus_def Let_def)
  have m: "?m \<noteq> None \<longleftrightarrow>
      (\<exists>l\<in>set deliveredLogs. logMatches ''PacketDelivered'' (cfg_eid srcConfig) (pad32 oftSrc) l)"
    by (simp add: scanLogs_None)
  have v: "?v \<noteq> None \<longleftrightarrow>
      (\<exists>l\<in>set verifiedLogs. logMatches ''PacketVerified'' (cfg_eid srcConfig) (pad32 oftSrc) l)"
    by (simp add: scanLogs_None)
  show ?thesis
  proof (cases "?m = None")
    case True
    with m v show ?thesis unfolding s deriveStage_cases by (cases "?v = None") auto
  next
    case False
    with m show ?thesis unfolding s deriveStage_cases by auto
  qed
qed

lemma onchainStatus_first:
  "find (logMatches ''PacketDelivered'' (cfg_eid srcConfig) (pad32 oftSrc)) deliveredLogs = Some l \<Longrightarrow>
     st_destination_txHash (onchainStatus srcConfig dstConfig txHash oftSrc srcReceipt blocks
        deliveredLogs verifiedLogs dvnLogs) = or_null (Some (transactionHash l))
     \<and> st_origin (onchainStatus srcConfig dstConfig txHash oftSrc srcReceipt blocks
        deliveredLogs verifiedLogs dvnLogs)
       = (case endpoint_parseLog l of Parsed name org receiver \<Rightarrow> org | _ \<Rightarrow> None)"
  by (drule scanLogs_first) (auto simp: onchainStatus_def Let_def or_null_def truthy_def)

lemma onchainStatus_window:
  "st_window_fromBlock (onchainStatus srcConfig dstConfig txHash oftSrc srcReceipt blocks
       deliveredLogs verifiedLogs dvnLogs) = fst blocks
   \<and> st_window_toBlock (onchainStatus srcConfig dstConfig txHash oftSrc srcReceipt blocks
       deliveredLogs verifiedLogs dvnLogs) = snd blocks"
  by (simp add: onchainStatus_def Let_def)

lemma scanRange_cases:
  "scanRange srcReceipt toBlock scanWindow =
     (case Option.bind srcReceipt receipt_blockNumber of
        Some b \<Rightarrow> b
      | None \<Rightarrow> max 0 (toBlock - (case scanWindow of Some w \<Rightarrow> w | None \<Rightarrow> 20000)),
      toBlock)"
  by (simp add: scanRange_def Let_def split: option.splits)

lemma onchain_POST_status:
  "onchain_POST env req = Http code (StatusAnswer st) \<Longrightarrow>
     \<exists>body txHash srcKey dstKey tokId srcConfig dstConfig oftSrc toBlock.
        req = Inr (Some body)
        \<and> body_txHash body = Some txHash \<and> body_sourceNetwork body = Some srcKey
        \<and> body_destNetwork body = Some dstKey \<and> body_tokenId body = Some tokId
        \<and> oc_networkConfig env srcKey = Inr srcConfig
        \<and> oc_networkConfig env dstKey = Inr dstConfig
        \<and> tokenAddress (oc_tokens env) tokId srcKey = Some oftSrc
        \<and> getBlockNumber env = Inr toBlock
        \<and> code = 200
        \<and> st = (let srcReceipt = getTransactionReceipt env txHash;
                    blocks = scanRange srcReceipt toBlock (body_scanWindow body)
                in onchainStatus srcConfig dstConfig txHash oftSrc srcReceipt blocks
                     (logsOr (getLogs_delivered env (fst blocks) (snd blocks)))
                     (logsOr (getLogs_verified env (fst blocks) (snd blocks)))
                     (if body_includeDvn body \<and> cfg_dvn dstConfig \<noteq> []
                      then Some (logsOr (getLogs_dvn env (fst blocks) (snd blocks)))
                      else None))"
  by (auto simp: onchain_POST_def Let_def emptyBody_def or_null_def truthy_def
      split: sum.splits option.splits if_splits)

lemma sample_pad32: "toLowerCase (pad32 ''0x0f'') = toLowerCase sample_sender"
  by (simp add: pad32_def padStart_def sample_sender_def toLowerCase_def toLowerCase_char_def
      numeral_eq_Suc)

lemma sample_log_matches:
  "logMatches ev 40161 (pad32 ''0x0f'') (sample_log ev sample_sender h)"
  by (simp add: logMatches_def sample_log_def sample_pad32)

lemma sample_cfg_eid: "cfg_eid (sample_config key) = 40161"
  by (simp add: sample_config_def)

lemma sample_onchain_POST:
  "onchain_POST (sample_onchain_env deliveredLogs verifiedLogs srcReceipt) (Inr (Some sample_body)) =
     Http 200 (StatusAnswer
       (onchainStatus (sample_config ''hii'') (sample_config ''sepolia'') ''0xab'' ''0x0f''
          srcReceipt (scanRange srcReceipt 100 None) deliveredLogs verifiedLogs None))"
  by (simp add: onchain_POST_def sample_onchain_env_def sample_body_def or_null_def truthy_def
      tokenAddress_def sample_token_def logsOr_def Let_def)

lemma sample_log_other:
  "\<not> logMatches ev 40161 (pad32 ''0x0f'') (sample_log ev ''0x0e'' h)"
  by (simp add: logMatches_def sample_log_def pad32_def padStart_def toLowerCase_def
      toLowerCase_char_def)

lemma sample_log_hash: "transactionHash (sample_log ev from h) = h"
  by (simp add: sample_log_def)

lemma sample_onchain_sel:
  "getBlockNumber (sample_onchain_env deliveredLogs verifiedLogs srcReceipt) = Inr 100"
  "getTransactionReceipt (sample_onchain_env deliveredLogs verifiedLogs srcReceipt) h = srcReceipt"
  by (simp_all add: sample_onchain_env_def)

lemma sample_body_sel:
  "body_txHash sample_body = Some ''0xab''"
  "body_scanWindow sample_body = None"
  by (simp_all add: sample_body_def)

text \<open>
  Claim C2. The stage of the answer is \<open>executed\<close> if some delivered-event log decodes to
  an origin with the endpoint id of the source network and, compared without case, the
  sender \<open>pad32\<close> of the token address on the source network; the first such log gives
  the destination transaction. Otherwise it is \<open>verified\<close> if some verified-event log
  matches in the same way, otherwise \<open>inflight\<close> for a successful source receipt,
  \<open>unknown\<close> for a failed one and \<open>inflight\<close> for none. So \<open>executed\<close> is answered only
  when a delivered-event log matches. Every answer of the route that carries a status is
  computed in this way from the configuration of the named networks and from the receipt
  and the logs read.
\<close>

theorem packet_stage_priority:
  "st_stage (onchainStatus srcConfig dstConfig txHash oftSrc srcReceipt blocks deliveredLogs
       verifiedLogs dvnLogs) =
     (if \<exists>l\<in>set deliveredLogs. logMatches ''PacketDelivered'' (cfg_eid srcConfig) (pad32 oftSrc) l
      then ''executed''
      else if \<exists>l\<in>set verifiedLogs. logMatches ''PacketVerified'' (cfg_eid srcConfig) (pad32 oftSrc) l
      then ''verified''
      else (case srcReceipt of
              None \<Rightarrow> ''inflight''
            | Some r \<Rightarrow> if receipt_status r = Some 1 then ''inflight'' else ''unknown''))
   \<and> (find (logMatches ''PacketDelivered'' (cfg_eid srcConfig) (pad32 oftSrc)) deliveredLogs = Some l
        \<longrightarrow> st_destination_txHash (onchainStatus srcConfig dstConfig txHash oftSrc srcReceipt
               blocks deliveredLogs verifiedLogs dvnLogs) = or_null (Some (transactionHash l)))
   \<and> (st_stage (onchainStatus srcConfig dstConfig txHash oftSrc srcReceipt blocks deliveredLogs
          verifiedLogs dvnLogs) = ''executed''
        \<longrightarrow> (\<exists>l\<in>set deliveredLogs.
               logMatches ''PacketDelivered'' (cfg_eid srcConfig) (pad32 oftSrc) l))
   \<and> (onchain_POST env req = Http code (StatusAnswer st) \<longrightarrow>
        (\<exists>body txHash' srcKey dstKey tokId srcConfig' dstConfig' oftSrc' toBlock.
           req = Inr (Some body)
           \<and> body_txHash body = Some txHash' \<and> body_sourceNetwork body = Some srcKey
           \<and> body_destNetwork body = Some dstKey \<and> body_tokenId body = Some tokId
           \<and> oc_networkConfig env srcKey = Inr srcConfig'
           \<and> oc_networkConfig env dstKey = Inr dstConfig'
           \<and> tokenAddress (oc_tokens env) tokId srcKey = Some oftSrc'
           \<and> getBlockNumber env = Inr toBlock
           \<and> st = (let srcReceipt' = getTransactionReceipt env txHash';
                       blocks' = scanRange srcReceipt' toBlock (body_scanWindow body)
                   in onchainStatus srcConfig' dstConfig' txHash' oftSrc' srcReceipt' blocks'
                        (logsOr (getLogs_delivered env (fst blocks') (snd blocks')))
                        (logsOr (getLogs_verified env (fst blocks') (snd blocks')))
                        (if body_includeDvn body \<and> cfg_dvn dstConfig' \<noteq> []
                         then Some (logsOr (getLogs_dvn env (fst blocks') (snd blocks')))
                         else None))))"
  (is "?stage \<and> ?first \<and> ?only \<and> ?post")
proof -
  have a: ?stage by (rule onchainStatus_stage)
  have b: ?first using onchainStatus_first by blast
  have c: ?only
  proof
    assume e: "st_stage (onchainStatus srcConfig dstConfig txHash oftSrc srcReceipt blocks
        deliveredLogs verifiedLogs dvnLogs) = ''executed''"
    show "\<exists>l\<in>set deliveredLogs.
        logMatches ''PacketDelivered'' (cfg_eid srcConfig) (pad32 oftSrc) l"
    proof (rule ccontr)
      assume n: "\<not> (\<exists>l\<in>set deliveredLogs.
          logMatches ''PacketDelivered'' (cfg_eid srcConfig) (pad32 oftSrc) l)"
      from e show False
        unfolding a using n by (simp split: if_splits option.splits)
    qed
  qed
  have d: ?post using onchain_POST_status [of env req code st] by blast
  from a b c d show ?thesis by blast
qed

text \<open>
  On sample logs: of three delivered-event logs the second is the first from the expected
  sender; a verified-event log from the expected sender with no delivered match.
\<close>

theorem packet_stage_priority_witness:
  "find (logMatches ''PacketDelivered'' (cfg_eid (sample_config ''hii'')) (pad32 ''0x0f''))
       [sample_log ''PacketDelivered'' ''0x0e'' ''0xd0'',
        sample_log ''PacketDelivered'' sample_sender ''0xd1'',
        sample_log ''PacketDelivered'' sample_sender ''0xd2'']
     = Some (sample_log ''PacketDelivered'' sample_sender ''0xd1'')
   \<and> st_destination_txHash
        (onchainStatus (sample_config ''hii'') (sample_config ''sepolia'') ''0xab'' ''0x0f''
           None (0, 100)
           [sample_log ''PacketDelivered'' ''0x0e'' ''0xd0'',
            sample_log ''PacketDelivered'' sample_sender ''0xd1'',
            sample_log ''PacketDelivered'' sample_sender ''0xd2''] [] None)
     = Some ''0xd1''
   \<and> st_stage
        (onchainStatus (sample_config ''hii'') (sample_config ''sepolia'') ''0xab'' ''0x0f''
           None (0, 100)
           [sample_log ''PacketDelivered'' ''0x0e'' ''0xd0'',
            sample_log ''PacketDelivered'' sample_sender ''0xd1'',
            sample_log ''PacketDelivered'' sample_sender ''0xd2''] [] None)
     = ''executed''
   \<and> st_stage
        (onchainStatus (sample_config ''hii'') (sample_config ''sepolia'') ''0xab'' ''0x0f''
           None (0, 100) [sample_log ''PacketDelivered'' ''0x0e'' ''0xd0'']
           [sample_log ''PacketVerified'' sample_sender ''0xd3''] None)
     = ''verified''
   \<and> onchain_POST (sample_onchain_env [] [] None) (Inr (Some sample_body))
     = Http 200 (StatusAnswer
         (onchainStatus (sample_config ''hii'') (sample_config ''sepolia'') ''0xab'' ''0x0f''
            None (scanRange None 100 None) [] [] None))
   \<and> getBlockNumber (sample_onchain_env [] [] None) = Inr 100"
  (is "?find \<and> ?first \<and> ?exec \<and> ?verif \<and> ?post \<and> ?block")
proof -
  let ?src = "sample_config ''hii''" and ?dst = "sample_config ''sepolia''"
  let ?l0 = "sample_log ''PacketDelivered'' ''0x0e'' ''0xd0''"
  let ?l1 = "sample_log ''PacketDelivered'' sample_sender ''0xd1''"
  let ?l2 = "sample_log ''PacketDelivered'' sample_sender ''0xd2''"
  let ?v = "sample_log ''PacketVerified'' sample_sender ''0xd3''"
  let ?env = "sample_onchain_env [] [] None"
  let ?st = "onchainStatus ?src ?dst ''0xab'' ''0x0f'' None (scanRange None 100 None) [] [] None"
  note t = packet_stage_priority [of ?src ?dst "''0xab''" "''0x0f''" None "(0, 100)"
      "[?l0, ?l1, ?l2]" "[]" None ?l1 ?env "Inr (Some sample_body)" 200 ?st]
  note u = packet_stage_priority [of ?src ?dst "''0xab''" "''0x0f''" None "(0, 100)"
      "[?l0]" "[?v]" None ?l1 ?env "Inr (Some sample_body)" 200 ?st]
  have f: ?find
    by (simp add: sample_cfg_eid sample_log_other sample_log_matches)
  from t f have "st_destination_txHash (onchainStatus ?src ?dst ''0xab'' ''0x0f'' None (0, 100)
      [?l0, ?l1, ?l2] [] None) = or_null (Some (transactionHash ?l1))" by blast
  then have first: ?first by (simp add: sample_log_hash or_null_def truthy_def)
  have m: "\<exists>l\<in>set [?l0, ?l1, ?l2].
      logMatches ''PacketDelivered'' (cfg_eid ?src) (pad32 ''0x0f'') l"
    by (simp add: sample_cfg_eid sample_log_matches)
  from t m have exec: ?exec by (simp only: if_True)
  have n: "\<not> (\<exists>l\<in>set [?l0].
      logMatches ''PacketDelivered'' (cfg_eid ?src) (pad32 ''0x0f'') l)"
    by (simp add: sample_cfg_eid sample_log_other)
  have w: "\<exists>l\<in>set [?v]. logMatches ''PacketVerified'' (cfg_eid ?src) (pad32 ''0x0f'') l"
    by (simp add: sample_cfg_eid sample_log_matches)
  from u n w have verif: ?verif by (simp only: if_True if_False)
  have post: ?post by (rule sample_onchain_POST)
  from t post have "\<exists>body toBlock. Inr (Some sample_body) = Inr (Some body)
      \<and> getBlockNumber ?env = Inr toBlock" by blast
  have block: ?block by (simp add: sample_onchain_sel)
  from f first exec verif post block show ?thesis by blast
qed

section \<open>The scan range\<close>

text \<open>
  Claim C7, as the claim states it, fails: without a source receipt the start of the range
  is not the current block minus the window when that is negative. At block 100 with the
  default window the range starts at 0, not at \<open>-19900\<close>.
\<close>

theorem scan_range_counterexample:
  "scanRange None 100 None = (0, 100) \<and> (100::int) - 20000 = - 19900"
  by (simp add: scanRange_def)

text \<open>
  Claim C7, amended. The end of the range is the current block of the destination. The
  start is the block number of the source receipt when the receipt and its block number
  are known, else the current block minus the scan window (20000 when none is given),
  but not less than 0. The answer of the route reports this range.
\<close>

theorem scan_range_clamped:
  "scanRange srcReceipt toBlock scanWindow =
     (case Option.bind srcReceipt receipt_blockNumber of
        Some b \<Rightarrow> b
      | None \<Rightarrow> max 0 (toBlock - (case scanWindow of Some w \<Rightarrow> w | None \<Rightarrow> 20000)),
      toBlock)
   \<and> (onchain_POST env req = Http code (StatusAnswer st) \<longrightarrow>
        (\<exists>body txHash toBlock'.
           req = Inr (Some body) \<and> body_txHash body = Some txHash
           \<and> getBlockNumber env = Inr toBlock'
           \<and> st_window_toBlock st = toBlock'
           \<and> st_window_fromBlock st =
               (case Option.bind (getTransactionReceipt env txHash) receipt_blockNumber of
                  Some b \<Rightarrow> b
                | None \<Rightarrow> max 0 (toBlock' - (case body_scanWindow body of
                                                Some w \<Rightarrow> w | None \<Rightarrow> 20000)))))"
  (is "?range \<and> ?post")
proof -
  have a: ?range by (rule scanRange_cases)
  have b: ?post
  proof
    assume "onchain_POST env req = Http code (StatusAnswer st)"
    from onchain_POST_status [OF this] obtain body txHash srcConfig dstConfig oftSrc toBlock'
      where r: "req = Inr (Some body)" and h: "body_txHash body = Some txHash"
        and g: "getBlockNumber env = Inr toBlock'"
        and s: "st = (let srcReceipt = getTransactionReceipt env txHash;
                    blocks = scanRange srcReceipt toBlock' (body_scanWindow body)
                in onchainStatus srcConfig dstConfig txHash oftSrc srcReceipt blocks
                     (logsOr (getLogs_delivered env (fst blocks) (snd blocks)))
                     (logsOr (getLogs_verified env (fst blocks) (snd blocks)))
                     (if body_includeDvn body \<and> cfg_dvn dstConfig \<noteq> []
                      then Some (logsOr (getLogs_dvn env (fst blocks) (snd blocks)))
                      else None))"
      by blast
    from s have "st_window_toBlock st = toBlock'
        \<and> st_window_fromBlock st =
               (case Option.bind (getTransactionReceipt env txHash) receipt_blockNumber of
                  Some b \<Rightarrow> b
                | None \<Rightarrow> max 0 (toBlock' - (case body_scanWindow body of
                                                Some w \<Rightarrow> w | None \<Rightarrow> 20000)))"
      by (simp add: Let_def onchainStatus_window scanRange_cases)
    with r h g show "\<exists>body txHash toBlock'.
           req = Inr (Some body) \<and> body_txHash body = Some txHash
           \<and> getBlockNumber env = Inr toBlock'
           \<and> st_window_toBlock st = toBlock'
           \<and> st_window_fromBlock st =
               (case Option.bind (getTransactionReceipt env txHash) receipt_blockNumber of
                  Some b \<Rightarrow> b
                | None \<Rightarrow> max 0 (toBlock' - (case body_scanWindow body of
                                                Some w \<Rightarrow> w | None \<Rightarrow> 20000)))"
      by blast
  qed
  from a b show ?thesis by blast
qed

text \<open>
  On the sample chain at block 100 with no receipt the window is 0 to 100; with a receipt
  of block 42 it starts at 42; at block 30000 with no receipt it starts at 10000.
\<close>

theorem scan_range_clamped_witness:
  "onchain_POST (sample_onchain_env [] [] None) (Inr (Some sample_body))
     = Http 200 (StatusAnswer
         (onchainStatus (sample_config ''hii'') (sample_config ''sepolia'') ''0xab'' ''0x0f''
            None (scanRange None 100 None) [] [] None))
   \<and> st_window_fromBlock
        (onchainStatus (sample_config ''hii'') (sample_config ''sepolia'') ''0xab'' ''0x0f''
           None (scanRange None 100 None) [] [] None) = 0
   \<and> st_window_toBlock
        (onchainStatus (sample_config ''hii'') (sample_config ''sepolia'') ''0xab'' ''0x0f''
           None (scanRange None 100 None) [] [] None) = 100
   \<and> scanRange (Some \<lparr> receipt_status = Some 1, receipt_blockNumber = Some 42 \<rparr>) 100 (Some 10)
       = (42, 100)
   \<and> scanRange None 30000 None = (10000, 30000)"
  (is "?post \<and> ?from \<and> ?to \<and> ?r1 \<and> ?r2")
proof -
  let ?env = "sample_onchain_env [] [] None"
  let ?st = "onchainStatus (sample_config ''hii'') (sample_config ''sepolia'') ''0xab'' ''0x0f''
      None (scanRange None 100 None) [] [] None"
  note t = scan_range_clamped [of None 100 None ?env "Inr (Some sample_body)" 200 ?st]
  note u = scan_range_clamped [of "Some \<lparr> receipt_status = Some 1, receipt_blockNumber = Some 42 \<rparr>"
      100 "Some 10" ?env "Inr (Some sample_body)" 200 ?st]
  note v = scan_range_clamped [of None 30000 None ?env "Inr (Some sample_body)" 200 ?st]
  have post: ?post by (rule sample_onchain_POST)
  from t post have "\<exists>body txHash toBlock'.
           Inr (Some sample_body) = Inr (Some body) \<and> body_txHash body = Some txHash
           \<and> getBlockNumber ?env = Inr toBlock'
           \<and> st_window_toBlock ?st = toBlock'
           \<and> st_window_fromBlock ?st =
               (case Option.bind (getTransactionReceipt ?env txHash) receipt_blockNumber of
                  Some b \<Rightarrow> b
                | None \<Rightarrow> max 0 (toBlock' - (case body_scanWindow body of
                                                Some w \<Rightarrow> w | None \<Rightarrow> 20000)))"
    by blast
  then have ft: "?from \<and> ?to"
    by (auto simp: sample_onchain_sel sample_body_sel)
  from u have r1: ?r1 by simp
  from v have r2: ?r2 by simp
  from post ft r1 r2 show ?thesis by blast
qed


section \<open>Properties of the aggregator status route\<close>

lemma Response_json_accepted:
  "\<not> refused_status status \<Longrightarrow> Response_json thrown data status = Inr (Http status data)"
  by (simp add: Response_json_def)

lemma Response_json_refused:
  "refused_status status \<Longrightarrow> Response_json thrown data status = Inl (thrown status)"
  by (simp add: Response_json_def)

lemma accepted_200: "\<not> refused_status 200"
  by (simp add: refused_status_def null_body_status_def)

lemma accepted_400: "\<not> refused_status 400"
  by (simp add: refused_status_def null_body_status_def)

lemma accepted_500: "\<not> refused_status 500"
  by (simp add: refused_status_def null_body_status_def)

lemma refused_status_not_ok:
  "\<not> ok_status status \<Longrightarrow>
     (\<not> refused_status status) = (300 \<le> status \<and> status \<le> 599 \<and> status \<noteq> 304)"
  by (auto simp: ok_status_def refused_status_def null_body_status_def)

lemma agg_POST_unparsed:
  "agg_POST env enc thrown fetch (Inl e) = Http 500 (ErrorObject (errorOnly (internalError e)))"
  by (simp add: agg_POST_def agg_try_def)

lemma agg_try_missing:
  "\<not> txHash_given field \<Longrightarrow>
     agg_try env enc thrown fetch (Inr field)
       = Inr (Http 400 (ErrorObject (errorOnly (Str ''txHash is required''))))"
  by (cases field)
    (simp_all add: agg_try_def txHash_given_def Response_json_accepted [OF accepted_400])

lemma agg_POST_missing:
  "\<not> txHash_given field \<Longrightarrow>
     agg_POST env enc thrown fetch (Inr field)
       = Http 400 (ErrorObject (errorOnly (Str ''txHash is required'')))"
  by (simp add: agg_POST_def agg_try_missing)

lemma agg_POST_unconfigured:
  "txHash \<noteq> [] \<Longrightarrow> \<not> truthy (resolveBase env) \<Longrightarrow>
     agg_POST env enc thrown fetch (Inr (Str txHash))
       = Http 500 (ErrorObject
           ((errorOnly (Str ''STATUS_API_BASE not configured''))
              \<lparr> eo_hint := Some ''Set STATUS_API_BASE in env, e.g. https://your-aggregator-host/v1'' \<rparr>))"
  by (simp add: agg_POST_def agg_try_def or_null_def Response_json_accepted [OF accepted_500])

lemma agg_try_fetched:
  "txHash \<noteq> [] \<Longrightarrow> truthy (resolveBase env) \<Longrightarrow>
     agg_try env enc thrown fetch (Inr (Str txHash)) =
       (case fetch (upstreamUrl env txHash) (authHeader env enc) of
          TransportError e \<Rightarrow> Inl e
        | Upstream status btext decoded \<Rightarrow>
            if \<not> ok_status status then
              if status = 404 then
                Response_json thrown (ErrorObject
                  \<lparr> eo_error = Str ''Not found'', eo_found = Some False,
                    eo_upstreamStatus = Some status, eo_hint = None, eo_body = Some btext \<rparr>)
                  status
              else if status = 401 \<or> status = 403 then
                Response_json thrown (ErrorObject
                  \<lparr> eo_error = Str ''Unauthorized'', eo_found = None,
                    eo_upstreamStatus = Some status,
                    eo_hint = Some ''Check STATUS_API_USERNAME/PASSWORD'', eo_body = None \<rparr>)
                  status
              else
                Response_json thrown (ErrorObject
                  \<lparr> eo_error = Str ''Upstream error'', eo_found = None,
                    eo_upstreamStatus = Some status, eo_hint = None, eo_body = Some btext \<rparr>)
                  status
            else
              (case decoded of
                 Inl e \<Rightarrow> Inl e
               | Inr json \<Rightarrow> Response_json thrown (Passthrough json) 200))"
proof -
  assume t: "txHash \<noteq> []" and b: "truthy (resolveBase env)"
  from b obtain base where r: "resolveBase env = Some base" and n: "base \<noteq> []"
    by (cases "resolveBase env") (auto simp: truthy_def)
  from r n have o: "or_null (resolveBase env) = Some base"
    by (simp add: or_null_def truthy_def)
  from r n have u: "upstreamUrl env txHash = base @ ''/api/tx/by-hash/'' @ txHash"
    by (simp add: upstreamUrl_def or_str_def)
  show ?thesis
    unfolding agg_try_def
    by (simp add: t o u authHeader_def Let_def)
qed

lemma agg_POST_passed:
  assumes t: "txHash \<noteq> []" and b: "truthy (resolveBase env)"
    and f: "fetch (upstreamUrl env txHash) (authHeader env enc) = Upstream status btext (Inr json)"
    and k: "ok_status status"
  shows "agg_POST env enc thrown fetch (Inr (Str txHash)) = Http 200 (Passthrough json)"
proof -
  have "agg_try env enc thrown fetch (Inr (Str txHash))
      = Response_json thrown (Passthrough json) 200"
    unfolding agg_try_fetched [OF t b] f by (simp add: k)
  then show ?thesis
    by (simp add: agg_POST_def Response_json_accepted [OF accepted_200])
qed

lemma agg_POST_relayed:
  assumes t: "txHash \<noteq> []" and b: "truthy (resolveBase env)"
    and f: "fetch (upstreamUrl env txHash) (authHeader env enc) = Upstream status btext decoded"
    and n: "\<not> ok_status status" and a: "\<not> refused_status status"
  shows "agg_POST env enc thrown fetch (Inr (Str txHash)) =
       (if status = 404 then
          Http status (ErrorObject
            \<lparr> eo_error = Str ''Not found'', eo_found = Some False,
              eo_upstreamStatus = Some status, eo_hint = None, eo_body = Some btext \<rparr>)
        else if status = 401 \<or> status = 403 then
          Http status (ErrorObject
            \<lparr> eo_error = Str ''Unauthorized'', eo_found = None,
              eo_upstreamStatus = Some status,
              eo_hint = Some ''Check STATUS_API_USERNAME/PASSWORD'', eo_body = None \<rparr>)
        else
          Http status (ErrorObject
            \<lparr> eo_error = Str ''Upstream error'', eo_found = None,
              eo_upstreamStatus = Some status, eo_hint = None, eo_body = Some btext \<rparr>))"
  unfolding agg_POST_def agg_try_fetched [OF t b] f upstream.case Response_json_accepted [OF a]
  by (simp add: n)

lemma agg_POST_thrown:
  assumes t: "txHash \<noteq> []" and b: "truthy (resolveBase env)"
    and f: "fetch (upstreamUrl env txHash) (authHeader env enc) = Upstream status btext decoded"
    and n: "\<not> ok_status status" and r: "refused_status status"
  shows "agg_POST env enc thrown fetch (Inr (Str txHash))
       = Http 500 (ErrorObject (errorOnly (internalError (thrown status))))"
  unfolding agg_POST_def agg_try_fetched [OF t b] f upstream.case Response_json_refused [OF r]
  by (simp add: n)

lemma sample_base: "resolveBase (sample_process_env user pass) = Some ''https://agg/v1''"
  by (simp add: resolveBase_def or_else_def truthy_def sample_process_env_def)

lemma sample_base_truthy: "truthy (resolveBase (sample_process_env user pass))"
  by (simp add: sample_base truthy_def)

lemma sample_fetch_eq:
  "sample_fetch status url auth = Upstream status ''body'' (Inr ''{}'')"
  by (simp add: sample_fetch_def)

lemma sample_internalError:
  "internalError (sample_thrown status) = Str ''Invalid response status code''"
  by (simp add: internalError_def sample_thrown_def or_value_def is_truthy_def)

text \<open>
  Claim C8, as the claim states it, fails: an upstream response of a status that is not
  2xx is not always answered with the same status. \<open>Response.json\<close> refuses to build a
  response of status 304 with a body (as it refuses a status outside 200 to 599); the
  error it throws is caught and answered with 500, in an error object that has no
  \<open>upstreamStatus\<close>.
\<close>

theorem upstream_304_counterexample:
  "\<not> ok_status 304
   \<and> agg_POST (sample_process_env ''alice'' ''pw1'') id sample_thrown (sample_fetch 304)
        (Inr (Str ''0xab''))
       = Http 500 (ErrorObject (errorOnly (Str ''Invalid response status code'')))
   \<and> eo_upstreamStatus (errorOnly (Str ''Invalid response status code'')) = None"
proof -
  have n: "\<not> ok_status 304" by (simp add: ok_status_def)
  have r: "refused_status 304" by (simp add: refused_status_def null_body_status_def)
  have t: "''0xab'' \<noteq> []" by simp
  have "agg_POST (sample_process_env ''alice'' ''pw1'') id sample_thrown (sample_fetch 304)
        (Inr (Str ''0xab''))
       = Http 500 (ErrorObject (errorOnly (internalError (sample_thrown 304))))"
    by (rule agg_POST_thrown [OF t sample_base_truthy sample_fetch_eq n r])
  then show ?thesis by (simp add: n sample_internalError errorOnly_def)
qed

text \<open>
  Claim C8, amended. A request whose body does not parse is answered with 500. With a body
  that parsed, the route answers 400 when \<open>txHash\<close> is missing or is not a string (or is
  the empty string). With a \<open>txHash\<close> given it answers 500 with an error when no
  aggregator base address is configured. With both given, an upstream response of a 2xx
  status whose body is JSON is passed through as it is. An upstream response of another
  status that \<open>Response.json\<close> accepts, which are the statuses from 300 to 599 other than
  304, is answered with the same status and an error object that carries an error and
  \<open>upstreamStatus\<close>, and that carries a hint, the one to check the credentials, exactly
  when the status is 401 or 403. An upstream response of any other status that is not 2xx
  is answered with 500 and the message of the error that \<open>Response.json\<close> throws.
\<close>

theorem agg_status_contract:
  "agg_POST env enc thrown fetch (Inl e) = Http 500 (ErrorObject (errorOnly (internalError e)))
   \<and> (\<not> txHash_given field \<longrightarrow>
        agg_POST env enc thrown fetch (Inr field)
          = Http 400 (ErrorObject (errorOnly (Str ''txHash is required''))))
   \<and> (txHash \<noteq> [] \<and> \<not> truthy (resolveBase env) \<longrightarrow>
        (\<exists>eo. agg_POST env enc thrown fetch (Inr (Str txHash)) = Http 500 (ErrorObject eo)
           \<and> eo_error eo = Str ''STATUS_API_BASE not configured''))
   \<and> (txHash \<noteq> [] \<and> truthy (resolveBase env)
        \<and> fetch (upstreamUrl env txHash) (authHeader env enc) = Upstream status btext (Inr json)
        \<and> ok_status status \<longrightarrow>
        agg_POST env enc thrown fetch (Inr (Str txHash)) = Http 200 (Passthrough json))
   \<and> (\<not> ok_status status \<longrightarrow>
        (\<not> refused_status status) = (300 \<le> status \<and> status \<le> 599 \<and> status \<noteq> 304))
   \<and> (txHash \<noteq> [] \<and> truthy (resolveBase env)
        \<and> fetch (upstreamUrl env txHash) (authHeader env enc) = Upstream status btext decoded
        \<and> \<not> ok_status status \<and> \<not> refused_status status \<longrightarrow>
        (\<exists>eo. agg_POST env enc thrown fetch (Inr (Str txHash)) = Http status (ErrorObject eo)
           \<and> is_truthy (eo_error eo)
           \<and> eo_upstreamStatus eo = Some status
           \<and> (eo_hint eo \<noteq> None) = (status = 401 \<or> status = 403)
           \<and> (eo_hint eo = Some ''Check STATUS_API_USERNAME/PASSWORD'')
               = (status = 401 \<or> status = 403)))
   \<and> (txHash \<noteq> [] \<and> truthy (resolveBase env)
        \<and> fetch (upstreamUrl env txHash) (authHeader env enc) = Upstream status btext decoded
        \<and> \<not> ok_status status \<and> refused_status status \<longrightarrow>
        agg_POST env enc thrown fetch (Inr (Str txHash))
          = Http 500 (ErrorObject (errorOnly (internalError (thrown status)))))"
  (is "?unparsed \<and> ?missing \<and> ?unconf \<and> ?pass \<and> ?which \<and> ?relayed \<and> ?thrown")
proof -
  have u: ?unparsed by (rule agg_POST_unparsed)
  have a: ?missing by (simp add: agg_POST_missing)
  have b: ?unconf by (simp add: agg_POST_unconfigured errorOnly_def)
  have c: ?pass by (simp add: agg_POST_passed)
  have w: ?which by (rule impI) (rule refused_status_not_ok)
  have d: ?relayed
  proof (intro impI)
    assume h: "txHash \<noteq> [] \<and> truthy (resolveBase env)
        \<and> fetch (upstreamUrl env txHash) (authHeader env enc) = Upstream status btext decoded
        \<and> \<not> ok_status status \<and> \<not> refused_status status"
    then have e: "agg_POST env enc thrown fetch (Inr (Str txHash)) =
        (if status = 404 then
                Http status (ErrorObject
                  \<lparr> eo_error = Str ''Not found'', eo_found = Some False,
                    eo_upstreamStatus = Some status, eo_hint = None, eo_body = Some btext \<rparr>)
              else if status = 401 \<or> status = 403 then
                Http status (ErrorObject
                  \<lparr> eo_error = Str ''Unauthorized'', eo_found = None,
                    eo_upstreamStatus = Some status,
                    eo_hint = Some ''Check STATUS_API_USERNAME/PASSWORD'', eo_body = None \<rparr>)
              else
                Http status (ErrorObject
                  \<lparr> eo_error = Str ''Upstream error'', eo_found = None,
                    eo_upstreamStatus = Some status, eo_hint = None, eo_body = Some btext \<rparr>))"
      by (simp add: agg_POST_relayed)
    show "\<exists>eo. agg_POST env enc thrown fetch (Inr (Str txHash)) = Http status (ErrorObject eo)
           \<and> is_truthy (eo_error eo)
           \<and> eo_upstreamStatus eo = Some status
           \<and> (eo_hint eo \<noteq> None) = (status = 401 \<or> status = 403)
           \<and> (eo_hint eo = Some ''Check STATUS_API_USERNAME/PASSWORD'')
               = (status = 401 \<or> status = 403)"
      unfolding e by (simp add: is_truthy_def)
  qed
  have t: ?thrown by (simp add: agg_POST_thrown)
  show ?thesis
    apply (intro conjI)
          apply (rule u)
         apply (rule a)
        apply (rule b)
       apply (rule c)
      apply (rule w)
     apply (rule d)
    apply (rule t)
    done
qed

text \<open>
  On the sample server: a \<open>txHash\<close> that is no string, an empty environment, an upstream
  that answers 200, one that answers 403 and one that answers 304.
\<close>

theorem agg_status_contract_witness:
  "\<not> txHash_given Truthy
   \<and> agg_POST (sample_process_env ''alice'' ''pw1'') (\<lambda>s. s) sample_thrown (sample_fetch 403)
        (Inr Truthy)
       = Http 400 (ErrorObject (errorOnly (Str ''txHash is required'')))
   \<and> \<not> truthy (resolveBase Map.empty)
   \<and> (\<exists>eo. agg_POST Map.empty (\<lambda>s. s) sample_thrown (sample_fetch 403) (Inr (Str ''0xab''))
          = Http 500 (ErrorObject eo))
   \<and> ok_status 200
   \<and> agg_POST (sample_process_env ''alice'' ''pw1'') (\<lambda>s. s) sample_thrown (sample_fetch 200)
        (Inr (Str ''0xab'')) = Http 200 (Passthrough ''{}'')
   \<and> \<not> ok_status 403 \<and> \<not> refused_status 403
   \<and> (\<exists>eo. agg_POST (sample_process_env ''alice'' ''pw1'') (\<lambda>s. s) sample_thrown
          (sample_fetch 403) (Inr (Str ''0xab'')) = Http 403 (ErrorObject eo)
        \<and> eo_upstreamStatus eo = Some 403
        \<and> eo_hint eo = Some ''Check STATUS_API_USERNAME/PASSWORD'')
   \<and> \<not> ok_status 304 \<and> refused_status 304
   \<and> agg_POST (sample_process_env ''alice'' ''pw1'') (\<lambda>s. s) sample_thrown (sample_fetch 304)
        (Inr (Str ''0xab''))
       = Http 500 (ErrorObject (errorOnly (internalError (sample_thrown 304))))"
  (is "?g \<and> ?m \<and> ?n \<and> ?u \<and> ?o \<and> ?p \<and> ?q \<and> ?qa \<and> ?r \<and> ?s \<and> ?sr \<and> ?t")
proof -
  let ?env = "sample_process_env ''alice'' ''pw1''"
  let ?b64 = "\<lambda>s::string. s"
  note rest2 = conjunct2 [THEN conjunct2]
  note t1 = agg_status_contract [where field = Truthy and env = ?env and enc = ?b64
      and thrown = sample_thrown and fetch = "sample_fetch 403", THEN conjunct2, THEN conjunct1]
  note t2 = agg_status_contract [where txHash = "''0xab''" and env = Map.empty
      and enc = ?b64 and thrown = sample_thrown and fetch = "sample_fetch 403",
      THEN rest2, THEN conjunct1]
  note t3 = agg_status_contract [where txHash = "''0xab''" and env = ?env and enc = ?b64
      and thrown = sample_thrown and fetch = "sample_fetch 200" and status = 200
      and btext = "''body''" and json = "''{}''", THEN rest2, THEN conjunct2, THEN conjunct1]
  note t4 = agg_status_contract [where txHash = "''0xab''" and env = ?env and enc = ?b64
      and thrown = sample_thrown and fetch = "sample_fetch 403" and status = 403
      and btext = "''body''" and decoded = "Inr ''{}''", THEN rest2, THEN rest2,
      THEN conjunct2, THEN conjunct1]
  note t5 = agg_status_contract [where txHash = "''0xab''" and env = ?env and enc = ?b64
      and thrown = sample_thrown and fetch = "sample_fetch 304" and status = 304
      and btext = "''body''" and decoded = "Inr ''{}''", THEN rest2, THEN rest2,
      THEN rest2]
  have g: ?g by (simp add: txHash_given_def)
  from g have m: ?m by (rule t1 [THEN mp])
  have n: ?n by (simp add: resolveBase_def or_else_def truthy_def)
  have h: "''0xab'' \<noteq> []" by simp
  from h n have "\<exists>eo. agg_POST Map.empty ?b64 sample_thrown (sample_fetch 403) (Inr (Str ''0xab''))
          = Http 500 (ErrorObject eo)
        \<and> eo_error eo = Str ''STATUS_API_BASE not configured''"
    by (intro t2 [THEN mp] conjI)
  then have u: ?u by (elim exE conjE) (rule exI)
  have o: ?o by (simp add: ok_status_def)
  have b: "truthy (resolveBase ?env)" by (rule sample_base_truthy)
  have f2: "sample_fetch 200 (upstreamUrl ?env ''0xab'') (authHeader ?env ?b64)
      = Upstream 200 ''body'' (Inr ''{}'')" by (rule sample_fetch_eq)
  from h b f2 o have p: ?p by (intro t3 [THEN mp] conjI)
  have q: ?q by (simp add: ok_status_def)
  have qa: ?qa by (simp add: refused_status_def null_body_status_def)
  have f4: "sample_fetch 403 (upstreamUrl ?env ''0xab'') (authHeader ?env ?b64)
      = Upstream 403 ''body'' (Inr ''{}'')" by (rule sample_fetch_eq)
  from h b f4 q qa have "\<exists>eo. agg_POST ?env ?b64 sample_thrown (sample_fetch 403) (Inr (Str ''0xab''))
          = Http 403 (ErrorObject eo)
        \<and> is_truthy (eo_error eo)
        \<and> eo_upstreamStatus eo = Some 403
        \<and> (eo_hint eo \<noteq> None) = (403 = (401::nat) \<or> 403 = (403::nat))
        \<and> (eo_hint eo = Some ''Check STATUS_API_USERNAME/PASSWORD'')
            = (403 = (401::nat) \<or> 403 = (403::nat))"
    by (intro t4 [THEN mp] conjI)
  then obtain eo where e1: "agg_POST ?env ?b64 sample_thrown (sample_fetch 403) (Inr (Str ''0xab''))
          = Http 403 (ErrorObject eo)"
    and e2: "eo_upstreamStatus eo = Some 403"
    and e3: "(eo_hint eo = Some ''Check STATUS_API_USERNAME/PASSWORD'')
            = (403 = (401::nat) \<or> 403 = (403::nat))"
    by (elim exE conjE)
  from e3 have e4: "eo_hint eo = Some ''Check STATUS_API_USERNAME/PASSWORD''" by simp
  have r: ?r by (rule exI [of _ eo]) (intro conjI e1 e2 e4)
  have s: ?s by (simp add: ok_status_def)
  have sr: ?sr by (simp add: refused_status_def null_body_status_def)
  have f5: "sample_fetch 304 (upstreamUrl ?env ''0xab'') (authHeader ?env ?b64)
      = Upstream 304 ''body'' (Inr ''{}'')" by (rule sample_fetch_eq)
  from h b f5 s sr have t: ?t by (intro t5 [THEN mp] conjI)
  show ?thesis by (intro conjI g m n u o p q qa r s sr t)
qed

section \<open>Properties of the diagnostics route\<close>

lemma public_var: "\<forall>v. v \<notin> secret_vars \<longrightarrow> env1 v = env2 v \<Longrightarrow> v \<notin> secret_vars \<Longrightarrow> env1 v = env2 v"
  by blast

lemma hii_not_secret: "''NEXT_PUBLIC_HII_'' @ suffix \<notin> secret_vars"
  by (simp add: secret_vars_def)

lemma sepolia_not_secret: "''NEXT_PUBLIC_SEPOLIA_'' @ suffix \<notin> secret_vars"
  by (simp add: secret_vars_def)

lemma buildHii_public:
  assumes a: "\<forall>v. v \<notin> secret_vars \<longrightarrow> env1 v = env2 v"
  shows "buildHii Number env1 = buildHii Number env2"
proof -
  have "(\<lambda>suffix. env1 (''NEXT_PUBLIC_HII_'' @ suffix)) = (\<lambda>suffix. env2 (''NEXT_PUBLIC_HII_'' @ suffix))"
    by (rule ext) (rule public_var [OF a hii_not_secret])
  then show ?thesis unfolding buildHii_def buildNetwork_def by (simp only:)
qed

lemma buildSepolia_public:
  assumes a: "\<forall>v. v \<notin> secret_vars \<longrightarrow> env1 v = env2 v"
  shows "buildSepolia Number env1 = buildSepolia Number env2"
proof -
  have "(\<lambda>suffix. env1 (''NEXT_PUBLIC_SEPOLIA_'' @ suffix))
      = (\<lambda>suffix. env2 (''NEXT_PUBLIC_SEPOLIA_'' @ suffix))"
    by (rule ext) (rule public_var [OF a sepolia_not_secret])
  then show ?thesis unfolding buildSepolia_def buildNetwork_def by (simp only:)
qed

lemma getNetworksConfig_public:
  assumes a: "\<forall>v. v \<notin> secret_vars \<longrightarrow> env1 v = env2 v"
  shows "getNetworksConfig Number JSON_parse env1 = getNetworksConfig Number JSON_parse env2"
proof -
  have "''NEXT_PUBLIC_NETWORKS_CONFIG'' \<notin> secret_vars" by (simp add: secret_vars_def)
  with a have c: "env1 ''NEXT_PUBLIC_NETWORKS_CONFIG'' = env2 ''NEXT_PUBLIC_NETWORKS_CONFIG''"
    by blast
  show ?thesis
    unfolding getNetworksConfig_def buildHii_public [OF a] buildSepolia_public [OF a] c ..
qed

lemma envcheck_GET_aggregator:
  "ec_aggregator (envcheck_GET Number JSON_parse keysError readError env) =
     \<lparr> basePresent = (truthy (env ''STATUS_API_BASE'')
                        \<or> truthy (env ''NEXT_PUBLIC_STATUS_API_BASE'')),
       usernamePresent = truthy (env ''STATUS_API_USERNAME''),
       passwordPresent = truthy (env ''STATUS_API_PASSWORD'') \<rparr>"
  by (simp add: envcheck_GET_def Let_def split: prod.splits)

text \<open>
  What the route answers about the networks when the variable
  \<open>NEXT_PUBLIC_NETWORKS_CONFIG\<close> holds \<open>null\<close>, and when it holds an object with a network
  that is \<open>null\<close>: \<open>networks\<close> is the object written so far, and the error is reported.
\<close>

lemma reportNetworks_null:
  "reportNetworks keysError readError (Inr JNull) = (Some [], Some (readFailure keysError))"
  by (simp add: reportNetworks_def)

lemma reportNetworks_null_entry:
  "reportNetworks keysError readError (Inr (JObj [(''hii'', JObj []), (''sepolia'', JNull)]))
     = (Some [(''hii'', networkReport (JObj []))], Some (readFailure readError))"
  by (simp add: reportNetworks_def)

text \<open>
  Claim C9. Two environments that agree on every variable that is not secret and on which
  of the secret variables (the two base addresses, the user name and the password of the
  aggregator) are set to a value that is not empty get the same answer from the
  diagnostics route. The part of the answer about the aggregator is three truth values,
  so no value of a secret variable is in the answer.
\<close>

theorem envcheck_presence_only:
  "(same_but_secrets env1 env2 \<longrightarrow>
      envcheck_GET Number JSON_parse keysError readError env1
        = envcheck_GET Number JSON_parse keysError readError env2)
   \<and> ec_aggregator (envcheck_GET Number JSON_parse keysError readError env) =
       \<lparr> basePresent = (truthy (env ''STATUS_API_BASE'')
                          \<or> truthy (env ''NEXT_PUBLIC_STATUS_API_BASE'')),
         usernamePresent = truthy (env ''STATUS_API_USERNAME''),
         passwordPresent = truthy (env ''STATUS_API_PASSWORD'') \<rparr>"
proof (intro conjI impI)
  show "ec_aggregator (envcheck_GET Number JSON_parse keysError readError env) =
       \<lparr> basePresent = (truthy (env ''STATUS_API_BASE'')
                          \<or> truthy (env ''NEXT_PUBLIC_STATUS_API_BASE'')),
         usernamePresent = truthy (env ''STATUS_API_USERNAME''),
         passwordPresent = truthy (env ''STATUS_API_PASSWORD'') \<rparr>"
    by (rule envcheck_GET_aggregator)
next
  assume s: "same_but_secrets env1 env2"
  then have a: "\<forall>v. v \<notin> secret_vars \<longrightarrow> env1 v = env2 v"
    and b: "\<forall>v\<in>secret_vars. truthy (env1 v) = truthy (env2 v)"
    by (simp_all add: same_but_secrets_def)
  from b have t: "truthy (env1 ''STATUS_API_BASE'') = truthy (env2 ''STATUS_API_BASE'')"
    "truthy (env1 ''NEXT_PUBLIC_STATUS_API_BASE'') = truthy (env2 ''NEXT_PUBLIC_STATUS_API_BASE'')"
    "truthy (env1 ''STATUS_API_USERNAME'') = truthy (env2 ''STATUS_API_USERNAME'')"
    "truthy (env1 ''STATUS_API_PASSWORD'') = truthy (env2 ''STATUS_API_PASSWORD'')"
    by (simp_all add: secret_vars_def)
  show "envcheck_GET Number JSON_parse keysError readError env1
        = envcheck_GET Number JSON_parse keysError readError env2"
    unfolding envcheck_GET_def getNetworksConfig_public [OF a] t ..
qed

text \<open>
  On two sample environments that differ in the user name and in the password.
\<close>

lemma sample_same_but_secrets:
  "same_but_secrets (sample_process_env ''alice'' ''pw1'') (sample_process_env ''bob'' ''hunter2'')"
  by (simp add: same_but_secrets_def sample_process_env_def secret_vars_def truthy_def)

theorem envcheck_presence_only_witness:
  "same_but_secrets (sample_process_env ''alice'' ''pw1'') (sample_process_env ''bob'' ''hunter2'')
   \<and> sample_process_env ''alice'' ''pw1'' ''STATUS_API_PASSWORD''
       \<noteq> sample_process_env ''bob'' ''hunter2'' ''STATUS_API_PASSWORD''
   \<and> envcheck_GET (\<lambda>s. None) (\<lambda>s. None) (sample_error ''a'') (sample_error ''b'')
         (sample_process_env ''alice'' ''pw1'')
       = envcheck_GET (\<lambda>s. None) (\<lambda>s. None) (sample_error ''a'') (sample_error ''b'')
         (sample_process_env ''bob'' ''hunter2'')
   \<and> passwordPresent (ec_aggregator
        (envcheck_GET (\<lambda>s. None) (\<lambda>s. None) (sample_error ''a'') (sample_error ''b'')
         (sample_process_env ''alice'' ''pw1'')))"
  (is "?s \<and> ?d \<and> ?e \<and> ?p")
proof -
  have s: ?s by (rule sample_same_but_secrets)
  have d: ?d by (simp add: sample_process_env_def)
  from s have e: ?e
    by (rule envcheck_presence_only [where ?env1.0 = "sample_process_env ''alice'' ''pw1''"
        and ?env2.0 = "sample_process_env ''bob'' ''hunter2''" and Number = "\<lambda>s. None"
        and JSON_parse = "\<lambda>s. None" and keysError = "sample_error ''a''"
        and readError = "sample_error ''b''", THEN conjunct1, THEN mp])
  have p: ?p by (simp add: envcheck_GET_aggregator sample_process_env_def truthy_def)
  from s d e p show ?thesis by blast
qed

end
